theory Spec2Isabelle
  imports Main
begin

section \<open>JavaScript values\<close>

text \<open>
  The program is TypeScript whose document values are typed \<^verbatim>\<open>any\<close>: the tree that
  \<^verbatim>\<open>xml2js\<close> returns in compact mode is a plain object whose keys are tag names (and
  \<^verbatim>\<open>_text\<close>, \<^verbatim>\<open>_attributes\<close>), a repeated tag being an array. Values are modelled
  as they are at run time. An object is its list of own properties in insertion order.
  A tree holds data only: what \<^verbatim>\<open>xml2js\<close> returns and what the form supplies has no
  function in it.
\<close>

datatype js =
    JUndefined
  | JNull
  | JBool bool
  | JNum int
  | JStr string
  | JArr "js list"
  | JObj "(string \<times> js) list"

text \<open>
  What the program can throw: the runtime's TypeError (reading a property of
  \<^verbatim>\<open>undefined\<close> or \<^verbatim>\<open>null\<close>, converting an object that has no usable
  \<^verbatim>\<open>toString\<close>), carrying its message, and \<^verbatim>\<open>new Error(message)\<close>.
\<close>

datatype error = TypeError string | Error string

fun message :: "error \<Rightarrow> string" where
  "message (TypeError m) = m"
| "message (Error m) = m"

text \<open>Truthiness, as \<^verbatim>\<open>!x\<close>, \<^verbatim>\<open>x && y\<close>, \<^verbatim>\<open>x || y\<close> and \<^verbatim>\<open>if (x)\<close> test it.\<close>

fun truthy :: "js \<Rightarrow> bool" where
  "truthy JUndefined = False"
| "truthy JNull = False"
| "truthy (JBool b) = b"
| "truthy (JNum n) = (n \<noteq> 0)"
| "truthy (JStr s) = (s \<noteq> [])"
| "truthy (JArr xs) = True"
| "truthy (JObj kvs) = True"

fun nullish :: "js \<Rightarrow> bool" where
  "nullish JUndefined = True"
| "nullish JNull = True"
| "nullish v = False"

subsection \<open>Decimal numerals\<close>

definition digit :: "nat \<Rightarrow> char" where
  "digit d = ''0123456789'' ! (d mod 10)"

function decimal :: "nat \<Rightarrow> string" where
  "decimal n = (if n < 10 then [digit n] else decimal (n div 10) @ [digit (n mod 10)])"
  by pat_completeness auto
termination
  by (relation "measure id") auto

declare decimal.simps [simp del]

definition isDigit :: "char \<Rightarrow> bool" where
  "isDigit c = (c \<in> set ''0123456789'')"

definition digitVal :: "char \<Rightarrow> nat" where
  "digitVal c = of_char c - 48"

definition natOfDigits :: "string \<Rightarrow> nat" where
  "natOfDigits s = foldl (\<lambda>a c. 10 * a + digitVal c) 0 s"

text \<open>
  A property key is an array index when it is the canonical decimal numeral of a number:
  \<^verbatim>\<open>"0"\<close>, \<^verbatim>\<open>"7"\<close>, \<^verbatim>\<open>"12"\<close>, but not \<^verbatim>\<open>"01"\<close> or \<^verbatim>\<open>""\<close>.
\<close>

definition arrayIndex :: "string \<Rightarrow> nat option" where
  "arrayIndex k =
     (if k \<noteq> [] \<and> list_all isDigit k \<and> (k = ''0'' \<or> hd k \<noteq> CHR ''0'')
      then Some (natOfDigits k) else None)"

subsection \<open>Property access\<close>

text \<open>
  Own properties. An object has the keys of its property list; an array and a string have
  their indices and \<^verbatim>\<open>length\<close>. (A string is indexed by code unit; the model's
  \<open>char\<close> stands for one.)
\<close>

fun hasOwn :: "js \<Rightarrow> string \<Rightarrow> bool" where
  "hasOwn (JObj kvs) k = (k \<in> fst ` set kvs)"
| "hasOwn (JArr xs) k =
     (k = ''length'' \<or> (case arrayIndex k of None \<Rightarrow> False | Some i \<Rightarrow> i < length xs))"
| "hasOwn (JStr s) k =
     (k = ''length'' \<or> (case arrayIndex k of None \<Rightarrow> False | Some i \<Rightarrow> i < length s))"
| "hasOwn v k = False"

fun own :: "js \<Rightarrow> string \<Rightarrow> js" where
  "own (JObj kvs) k = (case map_of kvs k of None \<Rightarrow> JUndefined | Some v \<Rightarrow> v)"
| "own (JArr xs) k =
     (if k = ''length'' then JNum (int (length xs))
      else case arrayIndex k of
             None \<Rightarrow> JUndefined
           | Some i \<Rightarrow> if i < length xs then xs ! i else JUndefined)"
| "own (JStr s) k =
     (if k = ''length'' then JNum (int (length s))
      else case arrayIndex k of
             None \<Rightarrow> JUndefined
           | Some i \<Rightarrow> if i < length s then JStr [s ! i] else JUndefined)"
| "own v k = JUndefined"

text \<open>
  \<^verbatim>\<open>v.k\<close> for a key that the program writes literally. Every such key is a tag name of
  the declaration format or one of \<^verbatim>\<open>_text\<close>, \<^verbatim>\<open>_attributes\<close>, \<^verbatim>\<open>xmlns\<close>,
  \<^verbatim>\<open>xmlns:xsi\<close>; none is a member of a built-in prototype, so the read is decided by
  the own properties. Reading from \<^verbatim>\<open>undefined\<close> or \<^verbatim>\<open>null\<close> throws.
\<close>

definition quote :: string where
  "quote = [char_of (39 :: nat)]"

fun kindName :: "js \<Rightarrow> string" where
  "kindName JNull = ''null''"
| "kindName v = ''undefined''"

definition cannotRead :: "js \<Rightarrow> string \<Rightarrow> error" where
  "cannotRead v k =
     TypeError (''Cannot read properties of '' @ kindName v @ '' (reading '' @ quote @ k @ quote @ '')'')"

definition get :: "js \<Rightarrow> string \<Rightarrow> error + js" where
  "get v k = (if nullish v then Inl (cannotRead v k) else Inr (own v k))"

text \<open>\<^verbatim>\<open>v?.k\<close>: \<^verbatim>\<open>undefined\<close> when \<open>v\<close> is nullish.\<close>

definition getOpt :: "js \<Rightarrow> string \<Rightarrow> js" where
  "getOpt v k = (if nullish v then JUndefined else own v k)"

section \<open>The case list (ArendeList.tsx)\<close>

text \<open>
  One entry of \<^verbatim>\<open>arendeInfoList\<close>, as \<^verbatim>\<open>extractArendeInformation\<close> builds it. The three
  texts are results of \<^verbatim>\<open>getTextContent\<close>; \<open>franvaroList\<close> is always an array.
\<close>

record arende =
  index :: nat
  arendeAgare :: js
  period :: js
  betalningsmottagarId :: js
  blankettInnehall :: js
  franvaroList :: "js list"

text \<open>
  \<^verbatim>\<open>xs.splice(start, 1)\<close> on a copy \<open>xs\<close>, returning the array left behind. A negative
  start counts from the end (not below 0), a start beyond the end is the length, and
  the number of elements removed is at most what remains from there.
\<close>

definition splice1 :: "'a list \<Rightarrow> int \<Rightarrow> 'a list" where
  "splice1 xs start =
     (let len = int (length xs);
          actualStart = (if start < 0 then max (len + start) 0 else min start len);
          deleteCount = min (max 1 0) (len - actualStart)
      in take (nat actualStart) xs @ drop (nat (actualStart + deleteCount)) xs)"

text \<open>
  \<^verbatim>\<open>handleRemoveFranvaro(arendeIndex, franvaroIndex)\<close>. The result is the pair handed to
  \<^verbatim>\<open>onFranvaroUpdate\<close>. \<^verbatim>\<open>arendeList[arendeIndex]\<close> is \<^verbatim>\<open>undefined\<close> out of range,
  and reading \<^verbatim>\<open>franvaroList\<close> from it throws.
\<close>

definition handleRemoveFranvaro :: "arende list \<Rightarrow> nat \<Rightarrow> int \<Rightarrow> error + (nat \<times> js list)" where
  "handleRemoveFranvaro arendeList arendeIndex franvaroIndex =
     (if arendeIndex < length arendeList
      then (let currentArende = arendeList ! arendeIndex;
                existingFranvaro = franvaroList currentArende
            in Inr (arendeIndex, splice1 existingFranvaro franvaroIndex))
      else Inl (cannotRead JUndefined ''franvaroList''))"

text \<open>\<^verbatim>\<open>handleFranvaroUpdate\<close> of index.tsx, the \<^verbatim>\<open>onFranvaroUpdate\<close> callback.\<close>

definition handleFranvaroUpdate :: "arende list \<Rightarrow> nat \<Rightarrow> js list \<Rightarrow> arende list" where
  "handleFranvaroUpdate arendeInfoList arendeIndex fl =
     (if arendeIndex < length arendeInfoList
      then arendeInfoList[arendeIndex := (arendeInfoList ! arendeIndex)\<lparr>franvaroList := fl\<rparr>]
      else arendeInfoList)"


subsection \<open>Conversions and comparisons\<close>

definition showInt :: "int \<Rightarrow> string" where
  "showInt n = (if n < 0 then ''-'' @ decimal (nat (- n)) else decimal (nat n))"

text \<open>
  \<^verbatim>\<open>String(v)\<close>, the conversion that \<^verbatim>\<open>RegExp.test\<close> and \<^verbatim>\<open>parseInt\<close> apply to their
  argument. An array joins its elements with commas, a nullish element giving the empty
  string. An object is converted through its \<^verbatim>\<open>toString\<close>: without an own property
  of that name it is the inherited one, which gives \<^verbatim>\<open>[object Object]\<close>; an own
  \<^verbatim>\<open>toString\<close> (the child element of that name) is data and cannot be called, the
  inherited \<^verbatim>\<open>valueOf\<close> returns the object itself, and the conversion throws.
\<close>

definition cannotConvert :: error where
  "cannotConvert = TypeError ''Cannot convert object to primitive value''"

fun toStringJS :: "js \<Rightarrow> error + string"
  and joinJS :: "js list \<Rightarrow> error + string" where
  "toStringJS JUndefined = Inr ''undefined''"
| "toStringJS JNull = Inr ''null''"
| "toStringJS (JBool b) = Inr (if b then ''true'' else ''false'')"
| "toStringJS (JNum n) = Inr (showInt n)"
| "toStringJS (JStr s) = Inr s"
| "toStringJS (JArr xs) = joinJS xs"
| "toStringJS (JObj kvs) =
     (if ''toString'' \<in> fst ` set kvs then Inl cannotConvert else Inr ''[object Object]'')"
| "joinJS [] = Inr []"
| "joinJS (x # xs) =
     (case (if nullish x then Inr [] else toStringJS x) of
        Inl e \<Rightarrow> Inl e
      | Inr s \<Rightarrow>
          (if xs = [] then Inr s
           else case joinJS xs of
                  Inl e \<Rightarrow> Inl e
                | Inr r \<Rightarrow> Inr (s @ '','' @ r)))"

text \<open>
  \<^verbatim>\<open>a === b\<close>. Primitives compare by value. Objects and arrays compare by reference: the
  two operands the program compares are read from different elements of a tree, which
  are different objects, so the comparison of two objects or arrays is false.
\<close>

fun strictEq :: "js \<Rightarrow> js \<Rightarrow> bool" where
  "strictEq JUndefined JUndefined = True"
| "strictEq JNull JNull = True"
| "strictEq (JBool a) (JBool b) = (a = b)"
| "strictEq (JNum a) (JNum b) = (a = b)"
| "strictEq (JStr a) (JStr b) = (a = b)"
| "strictEq a b = False"

text \<open>
  \<^verbatim>\<open>parseInt(s, 10)\<close>: leading white space is skipped, then an optional sign, then the
  longest run of decimal digits; no digit gives \<^verbatim>\<open>NaN\<close>, which is \<open>None\<close>. Numbers are
  the integers; a JavaScript number holds an integer exactly up to \<open>2 ^ 53\<close> in magnitude.
\<close>

definition isWhiteSpace :: "char \<Rightarrow> bool" where
  "isWhiteSpace c = (of_char c \<in> {9, 10, 11, 12, 13, 32, 160 :: nat})"

definition parseInt :: "string \<Rightarrow> int option" where
  "parseInt s =
     (let t = dropWhile isWhiteSpace s;
          neg = (t \<noteq> [] \<and> hd t = CHR ''-'');
          u = (if t \<noteq> [] \<and> (hd t = CHR ''-'' \<or> hd t = CHR ''+'') then tl t else t);
          ds = takeWhile isDigit u
      in if ds = [] then None
         else Some (if neg then - int (natOfDigits ds) else int (natOfDigits ds)))"

text \<open>\<^verbatim>\<open>Array.isArray(x) ? x : [x]\<close>.\<close>

fun asArray :: "js \<Rightarrow> js list" where
  "asArray (JArr xs) = xs"
| "asArray v = [v]"

text \<open>\<^verbatim>\<open>getTextContent\<close>, defined alike in xmlValidator.ts and index.tsx.\<close>

definition getTextContent :: "js \<Rightarrow> js" where
  "getTextContent obj =
     (if \<not> truthy obj then JStr []
      else case obj of
             JStr s \<Rightarrow> obj
           | _ \<Rightarrow> if truthy (own obj ''_text'') then own obj ''_text'' else JStr [])"

text \<open>Running a callback over an array, the first exception ending the loop.\<close>

fun mapE :: "('a \<Rightarrow> error + 'b) \<Rightarrow> 'a list \<Rightarrow> error + 'b list" where
  "mapE f [] = Inr []"
| "mapE f (x # xs) =
     (case f x of
        Inl e \<Rightarrow> Inl e
      | Inr y \<Rightarrow> (case mapE f xs of Inl e \<Rightarrow> Inl e | Inr ys \<Rightarrow> Inr (y # ys)))"

fun filterE :: "('a \<Rightarrow> error + bool) \<Rightarrow> 'a list \<Rightarrow> error + 'a list" where
  "filterE f [] = Inr []"
| "filterE f (x # xs) =
     (case f x of
        Inl e \<Rightarrow> Inl e
      | Inr b \<Rightarrow> (case filterE f xs of
                   Inl e \<Rightarrow> Inl e
                 | Inr ys \<Rightarrow> Inr (if b then x # ys else ys)))"

section \<open>The path accessor (xmlUtils.ts)\<close>

text \<open>\<^verbatim>\<open>path.split(".")\<close>: the empty path is one empty segment.\<close>

fun splitDot :: "string \<Rightarrow> string list" where
  "splitDot [] = [[]]"
| "splitDot (c # cs) =
     (if c = CHR ''.'' then [] # splitDot cs
      else case splitDot cs of
             [] \<Rightarrow> [[c]]
           | p # ps \<Rightarrow> (c # p) # ps)"

text \<open>
  What the walk can reach: a value of the tree, or, once a segment names an inherited
  member, an object of the runtime (a built-in function or prototype object), named by
  a string.
\<close>

datatype val = Data js | Host string

fun truthyVal :: "val \<Rightarrow> bool" where
  "truthyVal (Data v) = truthy v"
| "truthyVal (Host h) = True"

text \<open>
  \<^verbatim>\<open>current[part]\<close> with a key computed at run time: an own property of a tree value if
  there is one; otherwise what the runtime answers, through the prototype chain (for
  example \<^verbatim>\<open>constructor\<close> on an object is the function \<^verbatim>\<open>Object\<close>), and every read
  from a runtime object. An accessor of the runtime may throw (\<^verbatim>\<open>caller\<close> on a built-in
  function does). The runtime is not the program's: it is the parameter \<open>inherited\<close>.
\<close>

fun getDyn :: "(val \<Rightarrow> string \<Rightarrow> error + val) \<Rightarrow> val \<Rightarrow> string \<Rightarrow> error + val" where
  "getDyn inherited (Data v) k =
     (if nullish v then Inl (cannotRead v k)
      else if hasOwn v k then Inr (Data (own v k))
      else inherited (Data v) k)"
| "getDyn inherited (Host h) k = inherited (Host h) k"

text \<open>
  The loop of \<^verbatim>\<open>extractFromXML\<close> over the remaining parts. The body reads
  \<^verbatim>\<open>current[part]\<close> twice, for the test and for the assignment; the two reads give the
  same, so the model reads once.
\<close>

fun descend :: "(val \<Rightarrow> string \<Rightarrow> error + val) \<Rightarrow> val \<Rightarrow> string list \<Rightarrow> error + val" where
  "descend inherited current [] = Inr current"
| "descend inherited current (part # parts) =
     (case getDyn inherited current part of
        Inl e \<Rightarrow> Inl e
      | Inr v \<Rightarrow> if \<not> truthyVal v then Inr (Data JUndefined) else descend inherited v parts)"

definition extractFromXML :: "(val \<Rightarrow> string \<Rightarrow> error + val) \<Rightarrow> js \<Rightarrow> string \<Rightarrow> error + val" where
  "extractFromXML inherited xmlObject path =
     (if \<not> truthy xmlObject then Inr (Data JUndefined)
      else descend inherited (Data xmlObject) (splitDot path))"

section \<open>The codec wrappers (xmlUtils.ts)\<close>

text \<open>
  \<^verbatim>\<open>parseXML\<close> and \<^verbatim>\<open>generateXML\<close> call \<^verbatim>\<open>xml2js\<close> and \<^verbatim>\<open>js2xml\<close> of the xml-js
  package with fixed options and replace any exception by their own. The two library
  functions are parameters.
\<close>

definition parseXML :: "(string \<Rightarrow> error + js) \<Rightarrow> string \<Rightarrow> error + js" where
  "parseXML xml2js xmlString =
     (case xml2js xmlString of
        Inl e \<Rightarrow> Inl (Error ''Failed to parse XML file'')
      | Inr result \<Rightarrow> Inr result)"

definition generateXML :: "(js \<Rightarrow> error + string) \<Rightarrow> js \<Rightarrow> error + string" where
  "generateXML js2xml jsObject =
     (case js2xml jsObject of
        Inl e \<Rightarrow> Inl (Error ''Failed to generate XML'')
      | Inr result \<Rightarrow> Inr result)"

section \<open>The validator (xmlValidator.ts)\<close>

text \<open>
  \<^verbatim>\<open>/^\d{12}$/.test(v)\<close>: the text of \<open>v\<close> is exactly twelve decimal digits. The test
  converts its argument to a string first, which can throw.
\<close>

definition digits12 :: "js \<Rightarrow> error + bool" where
  "digits12 v =
     (case toStringJS v of
        Inl e \<Rightarrow> Inl e
      | Inr s \<Rightarrow> Inr (length s = 12 \<and> list_all isDigit s))"

text \<open>
  \<^verbatim>\<open>/\w+@\w+\.\w+/.test(v)\<close>. The pattern has no anchor, so the search tries every start
  position. \<^verbatim>\<open>\w\<close> is a letter, a digit or the underscore. At one position: a longest
  run of word characters, which must not be empty and must end at \<^verbatim>\<open>@\<close> (a shorter run
  would end at a word character); then again a run that ends at the dot; then one
  more word character.
\<close>

definition isWord :: "char \<Rightarrow> bool" where
  "isWord c =
     (c \<in> set ''abcdefghijklmnopqrstuvwxyzABCDEFGHIJKLMNOPQRSTUVWXYZ0123456789_'')"

definition matchHere :: "string \<Rightarrow> bool" where
  "matchHere s =
     (takeWhile isWord s \<noteq> [] \<and>
      (case dropWhile isWord s of
         [] \<Rightarrow> False
       | c # r \<Rightarrow>
           c = CHR ''@'' \<and> takeWhile isWord r \<noteq> [] \<and>
           (case dropWhile isWord r of
              [] \<Rightarrow> False
            | d # t \<Rightarrow> d = CHR ''.'' \<and> (case t of [] \<Rightarrow> False | w # _ \<Rightarrow> isWord w))))"

fun searchFrom :: "string \<Rightarrow> bool" where
  "searchFrom [] = False"
| "searchFrom (c # cs) = (matchHere (c # cs) \<or> searchFrom cs)"

definition emailShape :: "js \<Rightarrow> error + bool" where
  "emailShape v =
     (case toStringJS v of
        Inl e \<Rightarrow> Inl e
      | Inr s \<Rightarrow> Inr (searchFrom s))"

text \<open>The test \<^verbatim>\<open>!x || !getTextContent(x)\<close> that guards every required text.\<close>

definition missing :: "js \<Rightarrow> bool" where
  "missing x = (\<not> truthy x \<or> \<not> truthy (getTextContent x))"

text \<open>
  Statements that push messages, run one after the other: the messages in order, or the
  exception of the first statement that throws.
\<close>

fun seqE :: "(error + string list) list \<Rightarrow> error + string list" where
  "seqE [] = Inr []"
| "seqE (m # ms) =
     (case m of
        Inl e \<Rightarrow> Inl e
      | Inr xs \<Rightarrow> (case seqE ms of Inl e \<Rightarrow> Inl e | Inr ys \<Rightarrow> Inr (xs @ ys)))"

text \<open>
  \<^verbatim>\<open>if (!x || !getTextContent(x)) push(absent) else if (!regex.test(getTextContent(x)))
  push(malformed)\<close>, the regular expression given as its test.
\<close>

definition checkText :: "js \<Rightarrow> (js \<Rightarrow> error + bool) \<Rightarrow> string \<Rightarrow> string \<Rightarrow> error + string list" where
  "checkText x test absent malformed =
     (if missing x then Inr [absent]
      else case test (getTextContent x) of
             Inl e \<Rightarrow> Inl e
           | Inr ok \<Rightarrow> Inr (if \<not> ok then [malformed] else []))"

text \<open>The checks of the root element's attributes.\<close>

definition namespaceErrors :: "js \<Rightarrow> string list" where
  "namespaceErrors rootElement =
     (if \<not> truthy (own rootElement ''_attributes'')
         \<or> \<not> truthy (own (own rootElement ''_attributes'') ''xmlns:xsi'')
         \<or> \<not> truthy (own (own rootElement ''_attributes'') ''xmlns'')
      then [''Required XML namespaces are missing''] else [])"

definition kontaktpersonErrors :: "js \<Rightarrow> error + string list" where
  "kontaktpersonErrors kontaktperson =
     seqE
      [Inr (if missing (own kontaktperson ''Namn'')
            then [''Namn is missing in TekniskKontaktperson''] else []),
       Inr (if missing (own kontaktperson ''Telefon'')
            then [''Telefon is missing in TekniskKontaktperson''] else []),
       checkText (own kontaktperson ''Epostadress'') emailShape
         ''Epostadress is missing in TekniskKontaktperson''
         ''Epostadress has invalid format'']"

definition avsandareErrors :: "js \<Rightarrow> error + string list" where
  "avsandareErrors rootElement =
     (if \<not> truthy (own rootElement ''Avsandare'')
      then Inr [''Required element Avsandare is missing'']
      else
        (let avsandare = own rootElement ''Avsandare'' in
         seqE
          [Inr (if missing (own avsandare ''Programnamn'')
                then [''Programnamn is missing in Avsandare''] else []),
           checkText (own avsandare ''Organisationsnummer'') digits12
             ''Organisationsnummer is missing in Avsandare''
             ''Organisationsnummer must be 12 digits'',
           (if \<not> truthy (own avsandare ''TekniskKontaktperson'')
            then Inr [''TekniskKontaktperson is missing in Avsandare'']
            else kontaktpersonErrors (own avsandare ''TekniskKontaktperson'')),
           Inr (if missing (own avsandare ''Skapad'')
                then [''Skapad is missing in Avsandare''] else [])]))"

text \<open>
  The callback of \<^verbatim>\<open>blanketter.forEach\<close>, at the zero-based \<open>index\<close>. An element that is
  \<^verbatim>\<open>undefined\<close> or \<^verbatim>\<open>null\<close> makes the first property read throw.
\<close>

definition blankettErrors :: "js \<Rightarrow> nat \<Rightarrow> error + string list" where
  "blankettErrors blankett i =
     (if nullish blankett then Inl (cannotRead blankett ''Arendeinformation'')
      else
        seqE
         [(if \<not> truthy (own blankett ''Arendeinformation'')
           then Inr [''Arendeinformation is missing in Blankett '' @ decimal (i + 1)]
           else
             (let arendeInfo = own blankett ''Arendeinformation'' in
              seqE
               [checkText (own arendeInfo ''Arendeagare'') digits12
                  (''Arendeagare is missing in Blankett '' @ decimal (i + 1))
                  (''Arendeagare must be 12 digits in Blankett '' @ decimal (i + 1)),
                Inr (if missing (own arendeInfo ''Period'')
                     then [''Period is missing in Blankett '' @ decimal (i + 1)] else [])])),
          Inr (if \<not> truthy (own blankett ''Blankettinnehall'')
               then [''Blankettinnehall is missing in Blankett '' @ decimal (i + 1)]
               else [])])"

text \<open>The callback of \<^verbatim>\<open>franvaroList.forEach\<close>.\<close>

definition franvaroErrors :: "js \<Rightarrow> nat \<Rightarrow> error + string list" where
  "franvaroErrors franvaro i =
     (if nullish franvaro then Inl (cannotRead franvaro ''AgRegistreradId'')
      else
        seqE
         [Inr (if missing (own franvaro ''AgRegistreradId'')
               then [''AgRegistreradId is missing in Franvarouppgift '' @ decimal (i + 1)]
               else []),
          checkText (own franvaro ''BetalningsmottagarId'') digits12
            (''BetalningsmottagarId is missing in Franvarouppgift '' @ decimal (i + 1))
            (''BetalningsmottagarId must be 12 digits in Franvarouppgift '' @ decimal (i + 1)),
          Inr (if missing (own franvaro ''FranvaroDatum'')
               then [''FranvaroDatum is missing in Franvarouppgift '' @ decimal (i + 1)]
               else []),
          Inr (if missing (own franvaro ''FranvaroSpecifikationsnummer'')
               then [''FranvaroSpecifikationsnummer is missing in Franvarouppgift ''
                     @ decimal (i + 1)]
               else []),
          Inr (if missing (own franvaro ''FranvaroTyp'')
               then [''FranvaroTyp is missing in Franvarouppgift '' @ decimal (i + 1)]
               else if getTextContent (own franvaro ''FranvaroTyp'')
                         \<notin> {JStr ''TILLFALLIG_FORALDRAPENNING'', JStr ''FORALDRAPENNING''}
               then [''FranvaroTyp must be either TILLFALLIG_FORALDRAPENNING or FORALDRAPENNING in Franvarouppgift ''
                     @ decimal (i + 1)]
               else []),
          Inr (if missing (own franvaro ''RedovisningsPeriod'')
               then [''RedovisningsPeriod is missing in Franvarouppgift '' @ decimal (i + 1)]
               else []),
          Inr (if getTextContent (own franvaro ''FranvaroTyp'') = JStr ''FORALDRAPENNING''
                  \<and> \<not> truthy (getTextContent (own franvaro ''FranvaroProcentFP''))
                  \<and> \<not> truthy (getTextContent (own franvaro ''FranvaroTimmarFP''))
               then [''Either FranvaroProcentFP or FranvaroTimmarFP is required for FORALDRAPENNING in Franvarouppgift ''
                     @ decimal (i + 1)]
               else []),
          Inr (if getTextContent (own franvaro ''FranvaroTyp'') = JStr ''TILLFALLIG_FORALDRAPENNING''
                  \<and> \<not> truthy (getTextContent (own franvaro ''FranvaroProcentTFP''))
                  \<and> \<not> truthy (getTextContent (own franvaro ''FranvaroTimmarTFP''))
               then [''Either FranvaroProcentTFP or FranvaroTimmarTFP is required for TILLFALLIG_FORALDRAPENNING in Franvarouppgift ''
                     @ decimal (i + 1)]
               else [])])"

text \<open>
  \<^verbatim>\<open>xs.forEach((x, index) => ...)\<close> with a callback that pushes messages: the messages
  in order, or the exception of the first element that throws.
\<close>

fun forEachFrom :: "(js \<Rightarrow> nat \<Rightarrow> error + string list) \<Rightarrow> nat \<Rightarrow> js list \<Rightarrow> error + string list" where
  "forEachFrom f i [] = Inr []"
| "forEachFrom f i (x # xs) =
     (case f x i of
        Inl e \<Rightarrow> Inl e
      | Inr es \<Rightarrow> (case forEachFrom f (Suc i) xs of
                    Inl e \<Rightarrow> Inl e
                  | Inr es' \<Rightarrow> Inr (es @ es')))"

definition blanketterErrors :: "js \<Rightarrow> error + string list" where
  "blanketterErrors rootElement =
     (if \<not> truthy (own rootElement ''Blankett'') then Inr [''No Blankett elements found'']
      else forEachFrom blankettErrors 0 (asArray (own rootElement ''Blankett'')))"

definition franvaroListErrors :: "js \<Rightarrow> error + string list" where
  "franvaroListErrors rootElement =
     (if truthy (own rootElement ''Franvarouppgift'')
      then forEachFrom franvaroErrors 0 (asArray (own rootElement ''Franvarouppgift''))
      else Inr [])"

record validation =
  valid :: bool
  errors :: "string list"

text \<open>
  The body of the \<^verbatim>\<open>try\<close> block once the text is parsed: the four groups of checks in
  their order, the first exception ending it.
\<close>

definition validateParsed :: "js \<Rightarrow> error + validation" where
  "validateParsed parsedXml =
     (if \<not> truthy parsedXml \<or> \<not> truthy (own parsedXml ''Skatteverket'')
      then Inr \<lparr>valid = False, errors = [''XML does not contain a Skatteverket root element'']\<rparr>
      else
        (let rootElement = own parsedXml ''Skatteverket'' in
         case seqE [Inr (namespaceErrors rootElement),
                    avsandareErrors rootElement,
                    blanketterErrors rootElement,
                    franvaroListErrors rootElement] of
           Inl e \<Rightarrow> Inl e
         | Inr es \<Rightarrow> Inr \<lparr>valid = (length es = 0), errors = es\<rparr>))"

text \<open>
  \<^verbatim>\<open>validateXML\<close>: the early exit on an empty text, then the \<^verbatim>\<open>try\<close> block, whose
  \<^verbatim>\<open>catch\<close> turns any exception into a result.
\<close>

definition validateXML :: "(string \<Rightarrow> error + js) \<Rightarrow> string \<Rightarrow> error + validation" where
  "validateXML xml2js xmlString =
     (if xmlString = [] then Inr \<lparr>valid = False, errors = [''No XML content provided'']\<rparr>
      else
        (case (case parseXML xml2js xmlString of
                 Inl e \<Rightarrow> Inl e
               | Inr parsedXml \<Rightarrow> validateParsed parsedXml) of
           Inl e \<Rightarrow> Inr \<lparr>valid = False, errors = [''Failed to validate XML: '' @ message e]\<rparr>
         | Inr r \<Rightarrow> Inr r))"

section \<open>Adding an absence record (ArendeList.tsx)\<close>

text \<open>The form's data, \<^verbatim>\<open>FormData\<close> of FranvaroForm.tsx: every field is a string.\<close>

record formData =
  formBetalningsmottagarId :: string
  franvaroDatum :: string
  franvaroTyp :: string
  franvaroProcentFP :: string
  franvaroTimmarFP :: string
  franvaroProcentTFP :: string
  franvaroTimmarTFP :: string

text \<open>
  \<^verbatim>\<open>parseInt(f.FranvaroSpecifikationsnummer?._text || '0', 10)\<close> for one record of the
  list; \<open>None\<close> is \<^verbatim>\<open>NaN\<close>. \<^verbatim>\<open>parseInt\<close> converts its argument to a string first,
  which can throw.
\<close>

definition specNr :: "js \<Rightarrow> error + int option" where
  "specNr f =
     (if nullish f then Inl (cannotRead f ''FranvaroSpecifikationsnummer'')
      else
        (let t = getOpt (own f ''FranvaroSpecifikationsnummer'') ''_text''
         in case toStringJS (if truthy t then t else JStr ''0'') of
              Inl e \<Rightarrow> Inl e
            | Inr s \<Rightarrow> Inr (parseInt s)))"

text \<open>\<^verbatim>\<open>Math.max\<close> of two numbers, \<^verbatim>\<open>NaN\<close> if either is.\<close>

fun max2 :: "int option \<Rightarrow> int option \<Rightarrow> int option" where
  "max2 (Some a) (Some b) = Some (max a b)"
| "max2 a b = None"

text \<open>
  \<^verbatim>\<open>existingFranvaro.length > 0 ? Math.max(...numbers) : 0\<close>, the numbers given.
\<close>

fun maxSpecNr :: "int option list \<Rightarrow> int option" where
  "maxSpecNr [] = Some 0"
| "maxSpecNr (n # ns) = fold (\<lambda>x acc. max2 acc x) ns n"

text \<open>\<^verbatim>\<open>(maxSpecNr + 1).toString()\<close>.\<close>

fun nextSpecNrText :: "int option \<Rightarrow> string" where
  "nextSpecNrText None = ''NaN''"
| "nextSpecNrText (Some m) = showInt (m + 1)"

text \<open>An element with its text and its field code.\<close>

definition xmlElement :: "js \<Rightarrow> string \<Rightarrow> js" where
  "xmlElement t faltkod = JObj [(''_text'', t), (''_attributes'', JObj [(''faltkod'', JStr faltkod)])]"

definition newFranvaro :: "arende \<Rightarrow> formData \<Rightarrow> string \<Rightarrow> js" where
  "newFranvaro currentArende franvaro nr =
     JObj
      ([(''AgRegistreradId'', xmlElement (arendeAgare currentArende) ''201''),
        (''BetalningsmottagarId'',
           xmlElement (if truthy (betalningsmottagarId currentArende)
                       then betalningsmottagarId currentArende
                       else JStr (formBetalningsmottagarId franvaro)) ''215''),
        (''FranvaroDatum'', xmlElement (JStr (franvaroDatum franvaro)) ''821''),
        (''FranvaroSpecifikationsnummer'', xmlElement (JStr nr) ''822''),
        (''FranvaroTyp'', xmlElement (JStr (franvaroTyp franvaro)) ''823''),
        (''RedovisningsPeriod'', xmlElement (period currentArende) ''006'')]
       @ (if franvaroProcentFP franvaro \<noteq> []
          then [(''FranvaroProcentFP'', xmlElement (JStr (franvaroProcentFP franvaro)) ''826'')]
          else [])
       @ (if franvaroTimmarFP franvaro \<noteq> []
          then [(''FranvaroTimmarFP'', xmlElement (JStr (franvaroTimmarFP franvaro)) ''827'')]
          else [])
       @ (if franvaroProcentTFP franvaro \<noteq> []
          then [(''FranvaroProcentTFP'', xmlElement (JStr (franvaroProcentTFP franvaro)) ''824'')]
          else [])
       @ (if franvaroTimmarTFP franvaro \<noteq> []
          then [(''FranvaroTimmarTFP'', xmlElement (JStr (franvaroTimmarTFP franvaro)) ''825'')]
          else []))"

text \<open>
  \<^verbatim>\<open>handleAddFranvaro(arendeIndex, franvaro)\<close>. The result is the pair handed to
  \<^verbatim>\<open>onFranvaroUpdate\<close> and the new \<^verbatim>\<open>lastAddedDates\<close>.
\<close>

definition handleAddFranvaro ::
  "(nat \<rightharpoonup> string) \<Rightarrow> arende list \<Rightarrow> nat \<Rightarrow> formData
   \<Rightarrow> error + ((nat \<times> js list) \<times> (nat \<rightharpoonup> string))" where
  "handleAddFranvaro lastAddedDates arendeList arendeIndex franvaro =
     (if arendeIndex < length arendeList
      then
        (let currentArende = arendeList ! arendeIndex;
             existingFranvaro = franvaroList currentArende
         in case mapE specNr existingFranvaro of
              Inl e \<Rightarrow> Inl e
            | Inr numbers \<Rightarrow>
                Inr ((arendeIndex,
                      existingFranvaro
                      @ [newFranvaro currentArende franvaro (nextSpecNrText (maxSpecNr numbers))]),
                     lastAddedDates(arendeIndex \<mapsto> franvaroDatum franvaro)))
      else Inl (cannotRead JUndefined ''franvaroList''))"

section \<open>The page (index.tsx)\<close>

record home =
  xmlContent :: js
  parsedXml :: js
  arendeInfoList :: "arende list"
  validationErrors :: "string list"
  isValid :: bool

text \<open>
  The filter for forms with an IU element:
  \<^verbatim>\<open>blankett.Blankettinnehall && blankett.Blankettinnehall.IU\<close>.
\<close>

definition hasIU :: "js \<Rightarrow> error + bool" where
  "hasIU blankett =
     (if nullish blankett then Inl (cannotRead blankett ''Blankettinnehall'')
      else Inr (truthy (own blankett ''Blankettinnehall'')
                \<and> truthy (own (own blankett ''Blankettinnehall'') ''IU'')))"

text \<open>The test of one absence record against a case's recipient id and period.\<close>

definition sameKey :: "js \<Rightarrow> js \<Rightarrow> js \<Rightarrow> error + bool" where
  "sameKey bmId per f =
     (if nullish f then Inl (cannotRead f ''BetalningsmottagarId'')
      else Inr (strictEq (getTextContent (own f ''BetalningsmottagarId'')) bmId
                \<and> strictEq (getTextContent (own f ''RedovisningsPeriod'')) per))"

text \<open>
  \<^verbatim>\<open>existingFranvaro\<close>: the top-level absence records of the document with the case's
  key, an array being filtered and a single record being tested by itself.
\<close>

definition existingFranvaroOf :: "js \<Rightarrow> js \<Rightarrow> js \<Rightarrow> error + js list" where
  "existingFranvaroOf parsed bmId per =
     (let fr = getOpt (own parsed ''Skatteverket'') ''Franvarouppgift'' in
      if truthy fr then
        (case fr of
           JArr fs \<Rightarrow> filterE (sameKey bmId per) fs
         | _ \<Rightarrow> (if strictEq (getTextContent (own fr ''BetalningsmottagarId'')) bmId
                    \<and> strictEq (getTextContent (own fr ''RedovisningsPeriod'')) per
                 then Inr [fr] else Inr []))
      else Inr [])"

text \<open>The callback of \<^verbatim>\<open>iuBlanketter.map\<close>.\<close>

definition arendeOf :: "js \<Rightarrow> js \<Rightarrow> nat \<Rightarrow> error + arende" where
  "arendeOf parsed blankett i =
     (let arendeInfo = own blankett ''Arendeinformation'';
          blankettInnehall' = own blankett ''Blankettinnehall'';
          iuData = own blankettInnehall' ''IU''
      in if nullish arendeInfo then Inl (cannotRead arendeInfo ''Arendeagare'')
         else
           (let arendeAgare' = getTextContent (own arendeInfo ''Arendeagare'');
                period' = getTextContent (own arendeInfo ''Period'');
                bmId = getTextContent
                         (getOpt (getOpt (own iuData ''BetalningsmottagareIUGROUP'')
                                         ''BetalningsmottagareIDChoice'')
                                 ''BetalningsmottagarId'')
            in case existingFranvaroOf parsed bmId period' of
                 Inl e \<Rightarrow> Inl e
               | Inr existingFranvaro \<Rightarrow>
                   Inr \<lparr>index = i, arendeAgare = arendeAgare', period = period',
                        betalningsmottagarId = bmId, blankettInnehall = blankettInnehall',
                        franvaroList = existingFranvaro\<rparr>))"

fun mapIndexed :: "(js \<Rightarrow> nat \<Rightarrow> error + 'b) \<Rightarrow> nat \<Rightarrow> js list \<Rightarrow> error + 'b list" where
  "mapIndexed f i [] = Inr []"
| "mapIndexed f i (x # xs) =
     (case f x i of
        Inl e \<Rightarrow> Inl e
      | Inr y \<Rightarrow> (case mapIndexed f (Suc i) xs of
                   Inl e \<Rightarrow> Inl e
                 | Inr ys \<Rightarrow> Inr (y # ys)))"

text \<open>\<^verbatim>\<open>parsedXml.Skatteverket?.Blankett || []\<close>, made an array.\<close>

definition allBlanketter :: "js \<Rightarrow> js list" where
  "allBlanketter parsed =
     (let blanketter = (if truthy (getOpt (own parsed ''Skatteverket'') ''Blankett'')
                        then getOpt (own parsed ''Skatteverket'') ''Blankett''
                        else JArr [])
      in asArray blanketter)"

text \<open>The list \<^verbatim>\<open>arendeInfos\<close> computed from a truthy \<^verbatim>\<open>parsedXml\<close>.\<close>

definition arendeInfos :: "js \<Rightarrow> error + arende list" where
  "arendeInfos parsed =
     (case filterE hasIU (allBlanketter parsed) of
        Inl e \<Rightarrow> Inl e
      | Inr iuBlanketter \<Rightarrow> mapIndexed (arendeOf parsed) 0 iuBlanketter)"

text \<open>
  \<^verbatim>\<open>extractArendeInformation\<close>: nothing happens without a document; an exception leaves
  the state as it was.
\<close>

definition extractArendeInformation :: "home \<Rightarrow> error + home" where
  "extractArendeInformation st =
     (if \<not> truthy (parsedXml st) then Inr st
      else case arendeInfos (parsedXml st) of
             Inl e \<Rightarrow> Inl e
           | Inr infos \<Rightarrow> Inr (st\<lparr>arendeInfoList := infos\<rparr>))"

subsection \<open>The modified document\<close>

text \<open>
  The own enumerable properties that an object spread \<^verbatim>\<open>{...v}\<close> copies: those of an
  object, the indexed elements of an array or a string, none of anything else.
\<close>

fun spread :: "js \<Rightarrow> (string \<times> js) list" where
  "spread (JObj kvs) = kvs"
| "spread (JArr xs) = zip (map decimal [0..<length xs]) xs"
| "spread (JStr s) = zip (map decimal [0..<length s]) (map (\<lambda>c. JStr [c]) s)"
| "spread v = []"

text \<open>
  Writing a property in an object literal after a spread: an existing key keeps its
  place and takes the new value, a new key goes to the end.
\<close>

fun setProp :: "string \<Rightarrow> js \<Rightarrow> (string \<times> js) list \<Rightarrow> (string \<times> js) list" where
  "setProp k v [] = [(k, v)]"
| "setProp k v (p # ps) = (if fst p = k then (k, v) # ps else p # setProp k v ps)"

text \<open>
  The program name that the tool writes, \<^verbatim>\<open>"Bokio och v...nner"\<close>. Between \<^verbatim>\<open>v\<close> and
  \<^verbatim>\<open>nner\<close> the source file has letters beyond ASCII; they are kept as the bytes that
  the file has there.
\<close>

definition programnamnText :: string where
  "programnamnText =
     ''Bokio och v''
     @ map char_of [226, 136, 154, 194, 167 :: nat]
     @ ''nner''"

text \<open>The object \<^verbatim>\<open>modifiedXml\<close> of \<^verbatim>\<open>generateModifiedXML\<close>.\<close>

definition modifiedXml :: "js \<Rightarrow> js list \<Rightarrow> error + js" where
  "modifiedXml parsed allFranvaro =
     (let skatteverket = own parsed ''Skatteverket'' in
      case get skatteverket ''Avsandare'' of
        Inl e \<Rightarrow> Inl e
      | Inr avsandare \<Rightarrow>
          (case get avsandare ''Programnamn'' of
             Inl e \<Rightarrow> Inl e
           | Inr programnamn \<Rightarrow>
               Inr (JObj (setProp ''Skatteverket''
                     (JObj (setProp ''Avsandare''
                             (JObj (setProp ''Programnamn''
                                     (JObj (setProp ''_text'' (JStr programnamnText)
                                             (spread programnamn)))
                                     (spread avsandare)))
                             (setProp ''Franvarouppgift''
                                (if length allFranvaro > 0 then JArr allFranvaro else JUndefined)
                                (spread skatteverket))))
                     (spread parsed)))))"

text \<open>
  \<^verbatim>\<open>generateModifiedXML\<close>: the empty text without a document, otherwise the modified
  document serialized.
\<close>

definition generateModifiedXML :: "(js \<Rightarrow> error + string) \<Rightarrow> home \<Rightarrow> error + string" where
  "generateModifiedXML js2xml st =
     (if \<not> truthy (parsedXml st) then Inr []
      else case modifiedXml (parsedXml st) (concat (map franvaroList (arendeInfoList st))) of
             Inl e \<Rightarrow> Inl e
           | Inr t \<Rightarrow> generateXML js2xml t)"

section \<open>Removing an absence record\<close>

lemma splice1_beyond: "int (length xs) \<le> i \<Longrightarrow> splice1 xs i = xs"
  by (simp add: splice1_def Let_def min_def)

lemma splice1_inside:
  "0 \<le> i \<Longrightarrow> i < int (length xs) \<Longrightarrow> splice1 xs i = take (nat i) xs @ drop (Suc (nat i)) xs"
  by (simp add: splice1_def Let_def min_def max_def nat_add_distrib)

lemma splice1_negative:
  "i < 0 \<Longrightarrow>
   splice1 xs i = take (nat (max (int (length xs) + i) 0)) xs
                  @ drop (Suc (nat (max (int (length xs) + i) 0))) xs"
  by (cases "xs = []") (auto simp add: splice1_def Let_def min_def max_def nat_add_distrib)

text \<open>
  Claim C1, as the program has it. \<^verbatim>\<open>handleRemoveFranvaro\<close> never reports an index out
  of range. For a case of the list and an index at or beyond the length of its absence
  list, the list is handed on unchanged; for a negative index, \<^verbatim>\<open>splice\<close> counts from
  the end, and the record at position \<open>max (length + index) 0\<close> is removed.
\<close>

theorem removeAbsence_outside:
  assumes "arendeIndex < length arendeList"
  shows "(int (length (franvaroList (arendeList ! arendeIndex))) \<le> i \<longrightarrow>
            handleRemoveFranvaro arendeList arendeIndex i
              = Inr (arendeIndex, franvaroList (arendeList ! arendeIndex)))
         \<and> (i < 0 \<longrightarrow>
            handleRemoveFranvaro arendeList arendeIndex i
              = Inr (arendeIndex,
                     take (nat (max (int (length (franvaroList (arendeList ! arendeIndex))) + i) 0))
                          (franvaroList (arendeList ! arendeIndex))
                     @ drop (Suc (nat (max (int (length (franvaroList (arendeList ! arendeIndex))) + i) 0)))
                            (franvaroList (arendeList ! arendeIndex))))"
proof (intro conjI impI)
  assume "int (length (franvaroList (arendeList ! arendeIndex))) \<le> i"
  then show "handleRemoveFranvaro arendeList arendeIndex i
               = Inr (arendeIndex, franvaroList (arendeList ! arendeIndex))"
    using assms by (simp add: handleRemoveFranvaro_def Let_def splice1_beyond)
next
  assume "i < 0"
  then show "handleRemoveFranvaro arendeList arendeIndex i
      = Inr (arendeIndex,
             take (nat (max (int (length (franvaroList (arendeList ! arendeIndex))) + i) 0))
                  (franvaroList (arendeList ! arendeIndex))
             @ drop (Suc (nat (max (int (length (franvaroList (arendeList ! arendeIndex))) + i) 0)))
                    (franvaroList (arendeList ! arendeIndex)))"
    using assms splice1_negative [of i "franvaroList (arendeList ! arendeIndex)"]
    by (simp add: handleRemoveFranvaro_def Let_def)
qed

text \<open>
  A case with two absence records: index 2, the length of the list, leaves both in place,
  and index -1 removes the last.
\<close>

theorem removeAbsence_outside_witness:
  "handleRemoveFranvaro
     [\<lparr>index = 0, arendeAgare = JStr ''165560269986'', period = JStr ''202401'',
       betalningsmottagarId = JStr ''198202252386'', blankettInnehall = JObj [],
       franvaroList = [JObj [(''FranvaroDatum'', JStr ''2024-01-10'')],
                       JObj [(''FranvaroDatum'', JStr ''2024-01-11'')]]\<rparr>] 0 2
   = Inr (0, [JObj [(''FranvaroDatum'', JStr ''2024-01-10'')],
              JObj [(''FranvaroDatum'', JStr ''2024-01-11'')]])
   \<and> handleRemoveFranvaro
     [\<lparr>index = 0, arendeAgare = JStr ''165560269986'', period = JStr ''202401'',
       betalningsmottagarId = JStr ''198202252386'', blankettInnehall = JObj [],
       franvaroList = [JObj [(''FranvaroDatum'', JStr ''2024-01-10'')],
                       JObj [(''FranvaroDatum'', JStr ''2024-01-11'')]]\<rparr>] 0 (- 1)
   = Inr (0, [JObj [(''FranvaroDatum'', JStr ''2024-01-10'')]])"
  using removeAbsence_outside
    [of 0 "[\<lparr>index = 0, arendeAgare = JStr ''165560269986'', period = JStr ''202401'',
       betalningsmottagarId = JStr ''198202252386'', blankettInnehall = JObj [],
       franvaroList = [JObj [(''FranvaroDatum'', JStr ''2024-01-10'')],
                       JObj [(''FranvaroDatum'', JStr ''2024-01-11'')]]\<rparr>]" 2]
    removeAbsence_outside
    [of 0 "[\<lparr>index = 0, arendeAgare = JStr ''165560269986'', period = JStr ''202401'',
       betalningsmottagarId = JStr ''198202252386'', blankettInnehall = JObj [],
       franvaroList = [JObj [(''FranvaroDatum'', JStr ''2024-01-10'')],
                       JObj [(''FranvaroDatum'', JStr ''2024-01-11'')]]\<rparr>]" "- 1"]
  by simp

text \<open>
  The claim as the specification words it fails: with the index equal to the length of
  the list, the call is no failure but hands on the list, unchanged.
\<close>

theorem removeAbsence_index_at_length_counterexample:
  "handleRemoveFranvaro
     [\<lparr>index = 0, arendeAgare = JStr ''165560269986'', period = JStr ''202401'',
       betalningsmottagarId = JStr ''198202252386'', blankettInnehall = JObj [],
       franvaroList = [JObj [(''FranvaroDatum'', JStr ''2024-01-10'')],
                       JObj [(''FranvaroDatum'', JStr ''2024-01-11'')]]\<rparr>] 0 2
   = Inr (0, [JObj [(''FranvaroDatum'', JStr ''2024-01-10'')],
              JObj [(''FranvaroDatum'', JStr ''2024-01-11'')]])"
  by (simp add: handleRemoveFranvaro_def splice1_def)

section \<open>The validator always answers\<close>

text \<open>
  Claim C7. For every text, whatever the parser does with it, \<^verbatim>\<open>validateXML\<close> returns a
  result and throws nothing. The empty text, a text that the parser rejects, and a
  document without the \<^verbatim>\<open>Skatteverket\<close> root element each give \<open>valid = False\<close> and
  exactly one message.
\<close>

theorem validateXML_never_raises:
  "(\<exists>r. validateXML xml2js x = Inr r)
   \<and> (x = [] \<longrightarrow>
        validateXML xml2js x = Inr \<lparr>valid = False, errors = [''No XML content provided'']\<rparr>)
   \<and> (x \<noteq> [] \<and> xml2js x = Inl e \<longrightarrow>
        validateXML xml2js x
          = Inr \<lparr>valid = False, errors = [''Failed to validate XML: Failed to parse XML file'']\<rparr>)
   \<and> (x \<noteq> [] \<and> xml2js x = Inr t \<and> (\<not> truthy t \<or> \<not> truthy (own t ''Skatteverket'')) \<longrightarrow>
        validateXML xml2js x
          = Inr \<lparr>valid = False, errors = [''XML does not contain a Skatteverket root element'']\<rparr>)"
proof (intro conjI impI)
  show "\<exists>r. validateXML xml2js x = Inr r"
    by (simp add: validateXML_def split: sum.splits)
next
  assume "x = []"
  then show "validateXML xml2js x
               = Inr \<lparr>valid = False, errors = [''No XML content provided'']\<rparr>"
    by (simp add: validateXML_def)
next
  assume "x \<noteq> [] \<and> xml2js x = Inl e"
  then show "validateXML xml2js x
      = Inr \<lparr>valid = False, errors = [''Failed to validate XML: Failed to parse XML file'']\<rparr>"
    by (simp add: validateXML_def parseXML_def)
next
  assume a: "x \<noteq> [] \<and> xml2js x = Inr t \<and> (\<not> truthy t \<or> \<not> truthy (own t ''Skatteverket''))"
  then have "validateParsed t
      = Inr \<lparr>valid = False, errors = [''XML does not contain a Skatteverket root element'']\<rparr>"
    unfolding validateParsed_def by (simp only: if_True)
  with a show "validateXML xml2js x
      = Inr \<lparr>valid = False, errors = [''XML does not contain a Skatteverket root element'']\<rparr>"
    by (simp add: validateXML_def parseXML_def)
qed

text \<open>
  A parser that accepts one text, giving a document with another root, and rejects
  every other text: the three single-message results.
\<close>

theorem validateXML_never_raises_witness:
  "validateXML (\<lambda>s. if s = ''<a></a>'' then Inr (JObj [(''a'', JObj [])])
                     else Inl (Error ''Unclosed root tag'')) []
     = Inr \<lparr>valid = False, errors = [''No XML content provided'']\<rparr>
   \<and> validateXML (\<lambda>s. if s = ''<a></a>'' then Inr (JObj [(''a'', JObj [])])
                       else Inl (Error ''Unclosed root tag'')) ''<a>''
     = Inr \<lparr>valid = False, errors = [''Failed to validate XML: Failed to parse XML file'']\<rparr>
   \<and> validateXML (\<lambda>s. if s = ''<a></a>'' then Inr (JObj [(''a'', JObj [])])
                       else Inl (Error ''Unclosed root tag'')) ''<a></a>''
     = Inr \<lparr>valid = False, errors = [''XML does not contain a Skatteverket root element'']\<rparr>"
  using validateXML_never_raises
          [of "\<lambda>s. if s = ''<a></a>'' then Inr (JObj [(''a'', JObj [])])
                    else Inl (Error ''Unclosed root tag'')" "[]"]
        validateXML_never_raises
          [of "\<lambda>s. if s = ''<a></a>'' then Inr (JObj [(''a'', JObj [])])
                    else Inl (Error ''Unclosed root tag'')" "''<a>''" "Error ''Unclosed root tag''"]
        validateXML_never_raises
          [of "\<lambda>s. if s = ''<a></a>'' then Inr (JObj [(''a'', JObj [])])
                    else Inl (Error ''Unclosed root tag'')" "''<a></a>''" _ "JObj [(''a'', JObj [])]"]
  by simp

section \<open>The path accessor\<close>

lemma truthy_not_nullish: "truthy v \<Longrightarrow> \<not> nullish v"
  by (cases v) simp_all

lemma getDyn_throws:
  assumes "truthyVal cur" and "getDyn inherited cur part = Inl e"
  shows "\<exists>v k. inherited v k = Inl e"
proof (cases cur)
  case (Data u)
  with assms(1) have "\<not> nullish u" by (simp add: truthy_not_nullish)
  with assms(2) Data show ?thesis by (auto split: if_splits)
next
  case (Host h)
  with assms(2) show ?thesis by auto
qed

lemma descend_throws:
  "truthyVal cur \<Longrightarrow> descend inherited cur parts = Inl e \<Longrightarrow> \<exists>v k. inherited v k = Inl e"
proof (induction parts arbitrary: cur)
  case Nil
  then show ?case by simp
next
  case (Cons part parts)
  show ?case
  proof (cases "getDyn inherited cur part")
    case (Inl e')
    with Cons.prems have "e' = e" by simp
    with Inl getDyn_throws [OF Cons.prems(1)] show ?thesis by blast
  next
    case (Inr v)
    with Cons.prems have "truthyVal v" and "descend inherited v parts = Inl e"
      by (auto split: if_splits)
    then show ?thesis by (rule Cons.IH)
  qed
qed

lemma descend_append:
  "descend inherited x pre = Inr cur \<Longrightarrow> truthyVal cur \<Longrightarrow>
   descend inherited x (pre @ rest) = descend inherited cur rest"
proof (induction pre arbitrary: x)
  case Nil
  then show ?case by simp
next
  case (Cons part pre)
  show ?case
  proof (cases "getDyn inherited x part")
    case (Inl e)
    with Cons.prems show ?thesis by simp
  next
    case (Inr v)
    show ?thesis
    proof (cases "truthyVal v")
      case True
      with Inr Cons.prems have "descend inherited v pre = Inr cur" by simp
      from Cons.IH [OF this Cons.prems(2)] Inr True show ?thesis by simp
    next
      case False
      with Inr Cons.prems have "cur = Data JUndefined" by simp
      with Cons.prems(2) show ?thesis by simp
    qed
  qed
qed

text \<open>
  Claim C9, as the program has it. \<^verbatim>\<open>extractFromXML\<close> never throws for reading from a
  missing value: an exception that leaves it is one that the runtime threw when a
  segment named an inherited accessor. When the walk has reached a value \<open>cur\<close> and the
  next segment \<open>s\<close> reads a falsy value from it (missing, \<^verbatim>\<open>null\<close>, empty), the result is
  \<^verbatim>\<open>undefined\<close>. A sequence is read like any other value: a segment that is neither an
  own property of the array nor inherited gives \<^verbatim>\<open>undefined\<close>, but a segment that is
  the decimal index of an element selects that element, and the walk goes on from it.
\<close>

theorem extractFromXML_total:
  "(extractFromXML inherited x p = Inl e \<longrightarrow> (\<exists>v k. inherited v k = Inl e))
   \<and> (\<not> truthy x \<longrightarrow> extractFromXML inherited x p = Inr (Data JUndefined))
   \<and> (truthy x \<and> splitDot p = pre @ s # post \<and> descend inherited (Data x) pre = Inr cur
        \<and> truthyVal cur
        \<longrightarrow>
        (\<forall>v. getDyn inherited cur s = Inr v \<and> \<not> truthyVal v
              \<longrightarrow> extractFromXML inherited x p = Inr (Data JUndefined))
        \<and> (\<forall>xs w. cur = Data (JArr xs) \<and> \<not> hasOwn (JArr xs) s
                   \<and> inherited cur s = Inr w \<and> \<not> truthyVal w
              \<longrightarrow> extractFromXML inherited x p = Inr (Data JUndefined))
        \<and> (\<forall>xs i. cur = Data (JArr xs) \<and> arrayIndex s = Some i \<and> i < length xs
                   \<and> truthy (xs ! i)
              \<longrightarrow> extractFromXML inherited x p = descend inherited (Data (xs ! i)) post))"
proof (intro conjI impI allI)
  assume t: "extractFromXML inherited x p = Inl e"
  then have "truthy x" by (auto simp add: extractFromXML_def split: if_splits)
  with t have "truthyVal (Data x)" and "descend inherited (Data x) (splitDot p) = Inl e"
    by (simp_all add: extractFromXML_def)
  then show "\<exists>v k. inherited v k = Inl e" by (rule descend_throws)
next
  assume "\<not> truthy x"
  then show "extractFromXML inherited x p = Inr (Data JUndefined)"
    by (simp add: extractFromXML_def)
next
  fix v
  assume a: "truthy x \<and> splitDot p = pre @ s # post \<and> descend inherited (Data x) pre = Inr cur
             \<and> truthyVal cur"
    and b: "getDyn inherited cur s = Inr v \<and> \<not> truthyVal v"
  from a have "extractFromXML inherited x p = descend inherited cur (s # post)"
    by (simp add: extractFromXML_def descend_append)
  with b show "extractFromXML inherited x p = Inr (Data JUndefined)" by simp
next
  fix xs w
  assume a: "truthy x \<and> splitDot p = pre @ s # post \<and> descend inherited (Data x) pre = Inr cur
             \<and> truthyVal cur"
    and b: "cur = Data (JArr xs) \<and> \<not> hasOwn (JArr xs) s
            \<and> inherited cur s = Inr w \<and> \<not> truthyVal w"
  from a have "extractFromXML inherited x p = descend inherited cur (s # post)"
    by (simp add: extractFromXML_def descend_append)
  moreover from b have "getDyn inherited cur s = Inr w"
    by (auto simp del: hasOwn.simps)
  ultimately show "extractFromXML inherited x p = Inr (Data JUndefined)"
    using b by auto
next
  fix xs i
  assume a: "truthy x \<and> splitDot p = pre @ s # post \<and> descend inherited (Data x) pre = Inr cur
             \<and> truthyVal cur"
    and b: "cur = Data (JArr xs) \<and> arrayIndex s = Some i \<and> i < length xs \<and> truthy (xs ! i)"
  from a have "extractFromXML inherited x p = descend inherited cur (s # post)"
    by (simp add: extractFromXML_def descend_append)
  moreover have "arrayIndex ''length'' = None"
    by (simp add: arrayIndex_def isDigit_def)
  with b have "s \<noteq> ''length''" by auto
  with b have "getDyn inherited cur s = Inr (Data (xs ! i))"
    by simp
  ultimately show "extractFromXML inherited x p = descend inherited (Data (xs ! i)) post"
    using b by simp
qed

text \<open>
  A document with two forms, in a runtime where nothing is inherited. The path through
  the tag name of a sequence gives \<^verbatim>\<open>undefined\<close>; the path with the index 1 after the
  sequence reaches the second form.
\<close>

theorem extractFromXML_total_witness:
  "extractFromXML (\<lambda>v k. Inr (Data JUndefined))
     (JObj [(''Skatteverket'', JObj [(''Blankett'',
        JArr [JObj [(''Arendeinformation'', JObj [(''Period'', JObj [(''_text'', JStr ''202401'')])])],
              JObj [(''Arendeinformation'', JObj [(''Period'', JObj [(''_text'', JStr ''202402'')])])]])])])
     ''Skatteverket.Blankett.Arendeinformation'' = Inr (Data JUndefined)
   \<and> extractFromXML (\<lambda>v k. Inr (Data JUndefined))
     (JObj [(''Skatteverket'', JObj [(''Blankett'',
        JArr [JObj [(''Arendeinformation'', JObj [(''Period'', JObj [(''_text'', JStr ''202401'')])])],
              JObj [(''Arendeinformation'', JObj [(''Period'', JObj [(''_text'', JStr ''202402'')])])]])])])
     ''Skatteverket.Blankett.1.Arendeinformation''
     = Inr (Data (JObj [(''Period'', JObj [(''_text'', JStr ''202402'')])]))"
  using extractFromXML_total
    [of "\<lambda>v k. Inr (Data JUndefined)"
        "JObj [(''Skatteverket'', JObj [(''Blankett'',
           JArr [JObj [(''Arendeinformation'', JObj [(''Period'', JObj [(''_text'', JStr ''202401'')])])],
                 JObj [(''Arendeinformation'', JObj [(''Period'', JObj [(''_text'', JStr ''202402'')])])]])])]"
        "''Skatteverket.Blankett.Arendeinformation''" _
        "[''Skatteverket'', ''Blankett'']" "''Arendeinformation''" "[]"
        "Data (JArr [JObj [(''Arendeinformation'', JObj [(''Period'', JObj [(''_text'', JStr ''202401'')])])],
               JObj [(''Arendeinformation'', JObj [(''Period'', JObj [(''_text'', JStr ''202402'')])])]])"]
    extractFromXML_total
    [of "\<lambda>v k. Inr (Data JUndefined)"
        "JObj [(''Skatteverket'', JObj [(''Blankett'',
           JArr [JObj [(''Arendeinformation'', JObj [(''Period'', JObj [(''_text'', JStr ''202401'')])])],
                 JObj [(''Arendeinformation'', JObj [(''Period'', JObj [(''_text'', JStr ''202402'')])])]])])]"
        "''Skatteverket.Blankett.1.Arendeinformation''" _
        "[''Skatteverket'', ''Blankett'']" "''1''" "[''Arendeinformation'']"
        "Data (JArr [JObj [(''Arendeinformation'', JObj [(''Period'', JObj [(''_text'', JStr ''202401'')])])],
               JObj [(''Arendeinformation'', JObj [(''Period'', JObj [(''_text'', JStr ''202402'')])])]])"]
  by (simp add: arrayIndex_def isDigit_def natOfDigits_def digitVal_def)

text \<open>
  The claim as the specification words it fails: the segment \<^verbatim>\<open>Blankett\<close> resolves to
  a sequence, the next segment \<^verbatim>\<open>1\<close> indexes into it, and the period of the second
  form is returned, not \<^verbatim>\<open>undefined\<close>.
\<close>

theorem extractFromXML_indexes_sequence_counterexample:
  "extractFromXML (\<lambda>v k. Inr (Data JUndefined))
     (JObj [(''Skatteverket'', JObj [(''Blankett'',
        JArr [JObj [(''Arendeinformation'', JObj [(''Period'', JObj [(''_text'', JStr ''202401'')])])],
              JObj [(''Arendeinformation'', JObj [(''Period'', JObj [(''_text'', JStr ''202402'')])])]])])])
     ''Skatteverket.Blankett.1.Arendeinformation.Period._text''
   = Inr (Data (JStr ''202402''))"
  by (simp add: extractFromXML_def arrayIndex_def isDigit_def natOfDigits_def digitVal_def)

text \<open>
  Nor is the accessor free of exceptions. In a runtime where \<^verbatim>\<open>constructor\<close> of an
  object is the function \<^verbatim>\<open>Object\<close> and \<^verbatim>\<open>caller\<close> of that function is an accessor
  that throws, the path \<^verbatim>\<open>constructor.caller\<close> lets the exception through.
\<close>

lemma extractFromXML_inherited_accessor_throws:
  "extractFromXML
     (\<lambda>v k. if k = ''constructor'' then Inr (Host ''Object'')
             else if v = Host ''Object'' \<and> k = ''caller''
             then Inl (TypeError ''caller may not be accessed on this function'')
             else Inr (Data JUndefined))
     (JObj [(''Skatteverket'', JObj [])])
     ''constructor.caller''
   = Inl (TypeError ''caller may not be accessed on this function'')"
  by (simp add: extractFromXML_def)

section \<open>The messages of the validator\<close>

lemma in_set_if:
  "m \<in> set (if c then xs else ys) \<longleftrightarrow> (c \<and> m \<in> set xs) \<or> (\<not> c \<and> m \<in> set ys)"
  by simp

lemma seqE_Cons_Inr:
  "seqE (m # ms) = Inr es \<longleftrightarrow> (\<exists>xs ys. m = Inr xs \<and> seqE ms = Inr ys \<and> es = xs @ ys)"
  by (auto split: sum.splits)

lemma seqE_Nil_Inr: "seqE [] = Inr es \<longleftrightarrow> es = []"
  by auto

lemma checkText_Inr:
  assumes "checkText x test absent malformed = Inr xs"
  shows "xs = (if missing x then [absent]
               else if test (getTextContent x) = Inr False then [malformed] else [])"
  using assms by (auto simp add: checkText_def split: if_splits sum.splits)

lemma kontaktpersonErrors_Inr:
  assumes "kontaktpersonErrors k = Inr es"
  shows "es = (if missing (own k ''Namn'')
               then [''Namn is missing in TekniskKontaktperson''] else [])
              @ (if missing (own k ''Telefon'')
                 then [''Telefon is missing in TekniskKontaktperson''] else [])
              @ (if missing (own k ''Epostadress'')
                 then [''Epostadress is missing in TekniskKontaktperson'']
                 else if emailShape (getTextContent (own k ''Epostadress'')) = Inr False
                 then [''Epostadress has invalid format''] else [])"
proof -
  from assms obtain xs where c: "checkText (own k ''Epostadress'') emailShape
         ''Epostadress is missing in TekniskKontaktperson''
         ''Epostadress has invalid format'' = Inr xs"
    and es: "es = (if missing (own k ''Namn'')
               then [''Namn is missing in TekniskKontaktperson''] else [])
              @ (if missing (own k ''Telefon'')
                 then [''Telefon is missing in TekniskKontaktperson''] else []) @ xs"
    unfolding kontaktpersonErrors_def seqE_Cons_Inr seqE_Nil_Inr
    by (elim exE conjE) simp
  from checkText_Inr [OF c] es show ?thesis by (simp only:)
qed

lemma avsandareErrors_Inr:
  assumes "avsandareErrors r = Inr es"
  shows "es =
     (if \<not> truthy (own r ''Avsandare'') then [''Required element Avsandare is missing'']
      else
        (if missing (own (own r ''Avsandare'') ''Programnamn'')
         then [''Programnamn is missing in Avsandare''] else [])
        @ (if missing (own (own r ''Avsandare'') ''Organisationsnummer'')
           then [''Organisationsnummer is missing in Avsandare'']
           else if digits12 (getTextContent (own (own r ''Avsandare'') ''Organisationsnummer''))
                   = Inr False
           then [''Organisationsnummer must be 12 digits''] else [])
        @ (if \<not> truthy (own (own r ''Avsandare'') ''TekniskKontaktperson'')
           then [''TekniskKontaktperson is missing in Avsandare'']
           else
             (if missing (own (own (own r ''Avsandare'') ''TekniskKontaktperson'') ''Namn'')
              then [''Namn is missing in TekniskKontaktperson''] else [])
             @ (if missing (own (own (own r ''Avsandare'') ''TekniskKontaktperson'') ''Telefon'')
                then [''Telefon is missing in TekniskKontaktperson''] else [])
             @ (if missing (own (own (own r ''Avsandare'') ''TekniskKontaktperson'')
                                ''Epostadress'')
                then [''Epostadress is missing in TekniskKontaktperson'']
                else if emailShape (getTextContent
                          (own (own (own r ''Avsandare'') ''TekniskKontaktperson'')
                               ''Epostadress'')) = Inr False
                then [''Epostadress has invalid format''] else []))
        @ (if missing (own (own r ''Avsandare'') ''Skapad'')
           then [''Skapad is missing in Avsandare''] else []))"
proof (cases "truthy (own r ''Avsandare'')")
  case False
  with assms show ?thesis by (auto simp add: avsandareErrors_def)
next
  case True
  let ?a = "own r ''Avsandare''"
  from True assms obtain xs ys
    where c: "checkText (own ?a ''Organisationsnummer'') digits12
             ''Organisationsnummer is missing in Avsandare''
             ''Organisationsnummer must be 12 digits'' = Inr xs"
      and k: "(if \<not> truthy (own ?a ''TekniskKontaktperson'')
            then Inr [''TekniskKontaktperson is missing in Avsandare'']
            else kontaktpersonErrors (own ?a ''TekniskKontaktperson'')) = Inr ys"
      and es: "es = (if missing (own ?a ''Programnamn'')
                then [''Programnamn is missing in Avsandare''] else [])
               @ xs @ ys
               @ (if missing (own ?a ''Skapad'')
                then [''Skapad is missing in Avsandare''] else [])"
    unfolding avsandareErrors_def Let_def
    by (simp only: True not_True_eq_False if_False seqE_Cons_Inr seqE_Nil_Inr)
       (elim exE conjE, simp)
  have ys: "ys = (if \<not> truthy (own ?a ''TekniskKontaktperson'')
           then [''TekniskKontaktperson is missing in Avsandare'']
           else
             (if missing (own (own ?a ''TekniskKontaktperson'') ''Namn'')
              then [''Namn is missing in TekniskKontaktperson''] else [])
             @ (if missing (own (own ?a ''TekniskKontaktperson'') ''Telefon'')
                then [''Telefon is missing in TekniskKontaktperson''] else [])
             @ (if missing (own (own ?a ''TekniskKontaktperson'') ''Epostadress'')
                then [''Epostadress is missing in TekniskKontaktperson'']
                else if emailShape (getTextContent
                          (own (own ?a ''TekniskKontaktperson'') ''Epostadress'')) = Inr False
                then [''Epostadress has invalid format''] else []))"
  proof (cases "truthy (own ?a ''TekniskKontaktperson'')")
    case False
    with k show ?thesis by auto
  next
    case True
    with k have "kontaktpersonErrors (own ?a ''TekniskKontaktperson'') = Inr ys" by simp
    from kontaktpersonErrors_Inr [OF this] True show ?thesis by (simp only: not_True_eq_False if_False)
  qed
  from True show ?thesis
    unfolding es checkText_Inr [OF c] ys by (simp only: not_True_eq_False if_False)
qed

lemma blankettErrors_Inr:
  assumes "blankettErrors b i = Inr es"
  shows "\<not> nullish b \<and> es =
     (if \<not> truthy (own b ''Arendeinformation'')
      then [''Arendeinformation is missing in Blankett '' @ decimal (i + 1)]
      else
        (if missing (own (own b ''Arendeinformation'') ''Arendeagare'')
         then [''Arendeagare is missing in Blankett '' @ decimal (i + 1)]
         else if digits12 (getTextContent (own (own b ''Arendeinformation'') ''Arendeagare''))
                 = Inr False
         then [''Arendeagare must be 12 digits in Blankett '' @ decimal (i + 1)]
         else [])
        @ (if missing (own (own b ''Arendeinformation'') ''Period'')
           then [''Period is missing in Blankett '' @ decimal (i + 1)] else []))
     @ (if \<not> truthy (own b ''Blankettinnehall'')
        then [''Blankettinnehall is missing in Blankett '' @ decimal (i + 1)]
        else [])"
proof -
  from assms have n: "\<not> nullish b"
    by (auto simp add: blankettErrors_def split: if_splits)
  with assms obtain xs
    where a: "(if \<not> truthy (own b ''Arendeinformation'')
           then Inr [''Arendeinformation is missing in Blankett '' @ decimal (i + 1)]
           else
              seqE
               [checkText (own (own b ''Arendeinformation'') ''Arendeagare'') digits12
                  (''Arendeagare is missing in Blankett '' @ decimal (i + 1))
                  (''Arendeagare must be 12 digits in Blankett '' @ decimal (i + 1)),
                Inr (if missing (own (own b ''Arendeinformation'') ''Period'')
                     then [''Period is missing in Blankett '' @ decimal (i + 1)] else [])])
           = Inr xs"
      and es: "es = xs @ (if \<not> truthy (own b ''Blankettinnehall'')
               then [''Blankettinnehall is missing in Blankett '' @ decimal (i + 1)]
               else [])"
    unfolding blankettErrors_def Let_def
    by (simp only: n if_False seqE_Cons_Inr [of _ "[Inr _]"] seqE_Cons_Inr [of "Inr _" "[]"]
        seqE_Nil_Inr)
       (elim exE conjE, simp)
  have "xs = (if \<not> truthy (own b ''Arendeinformation'')
      then [''Arendeinformation is missing in Blankett '' @ decimal (i + 1)]
      else
        (if missing (own (own b ''Arendeinformation'') ''Arendeagare'')
         then [''Arendeagare is missing in Blankett '' @ decimal (i + 1)]
         else if digits12 (getTextContent (own (own b ''Arendeinformation'') ''Arendeagare''))
                 = Inr False
         then [''Arendeagare must be 12 digits in Blankett '' @ decimal (i + 1)]
         else [])
        @ (if missing (own (own b ''Arendeinformation'') ''Period'')
           then [''Period is missing in Blankett '' @ decimal (i + 1)] else []))"
  proof (cases "truthy (own b ''Arendeinformation'')")
    case False
    with a show ?thesis by auto
  next
    case True
    with a obtain ys where c: "checkText (own (own b ''Arendeinformation'') ''Arendeagare'') digits12
                  (''Arendeagare is missing in Blankett '' @ decimal (i + 1))
                  (''Arendeagare must be 12 digits in Blankett '' @ decimal (i + 1)) = Inr ys"
      and xs: "xs = ys @ (if missing (own (own b ''Arendeinformation'') ''Period'')
                     then [''Period is missing in Blankett '' @ decimal (i + 1)] else [])"
      by (simp only: True not_True_eq_False if_False seqE_Cons_Inr seqE_Nil_Inr)
         (elim exE conjE, simp)
    from True show ?thesis
      unfolding xs checkText_Inr [OF c] by (simp only: not_True_eq_False if_False)
  qed
  with n es show ?thesis by (simp only:) simp
qed

lemma franvaroErrors_Inr:
  assumes "franvaroErrors f i = Inr es"
  shows "\<not> nullish f \<and> es =
     (if missing (own f ''AgRegistreradId'')
      then [''AgRegistreradId is missing in Franvarouppgift '' @ decimal (i + 1)]
      else [])
     @ (if missing (own f ''BetalningsmottagarId'')
        then [''BetalningsmottagarId is missing in Franvarouppgift '' @ decimal (i + 1)]
        else if digits12 (getTextContent (own f ''BetalningsmottagarId'')) = Inr False
        then [''BetalningsmottagarId must be 12 digits in Franvarouppgift '' @ decimal (i + 1)]
        else [])
     @ (if missing (own f ''FranvaroDatum'')
        then [''FranvaroDatum is missing in Franvarouppgift '' @ decimal (i + 1)]
        else [])
     @ (if missing (own f ''FranvaroSpecifikationsnummer'')
        then [''FranvaroSpecifikationsnummer is missing in Franvarouppgift ''
              @ decimal (i + 1)]
        else [])
     @ (if missing (own f ''FranvaroTyp'')
        then [''FranvaroTyp is missing in Franvarouppgift '' @ decimal (i + 1)]
        else if getTextContent (own f ''FranvaroTyp'')
                  \<notin> {JStr ''TILLFALLIG_FORALDRAPENNING'', JStr ''FORALDRAPENNING''}
        then [''FranvaroTyp must be either TILLFALLIG_FORALDRAPENNING or FORALDRAPENNING in Franvarouppgift ''
              @ decimal (i + 1)]
        else [])
     @ (if missing (own f ''RedovisningsPeriod'')
        then [''RedovisningsPeriod is missing in Franvarouppgift '' @ decimal (i + 1)]
        else [])
     @ (if getTextContent (own f ''FranvaroTyp'') = JStr ''FORALDRAPENNING''
           \<and> \<not> truthy (getTextContent (own f ''FranvaroProcentFP''))
           \<and> \<not> truthy (getTextContent (own f ''FranvaroTimmarFP''))
        then [''Either FranvaroProcentFP or FranvaroTimmarFP is required for FORALDRAPENNING in Franvarouppgift ''
              @ decimal (i + 1)]
        else [])
     @ (if getTextContent (own f ''FranvaroTyp'') = JStr ''TILLFALLIG_FORALDRAPENNING''
           \<and> \<not> truthy (getTextContent (own f ''FranvaroProcentTFP''))
           \<and> \<not> truthy (getTextContent (own f ''FranvaroTimmarTFP''))
        then [''Either FranvaroProcentTFP or FranvaroTimmarTFP is required for TILLFALLIG_FORALDRAPENNING in Franvarouppgift ''
              @ decimal (i + 1)]
        else [])"
proof -
  from assms have n: "\<not> nullish f"
    by (auto simp add: franvaroErrors_def split: if_splits)
  with assms obtain xs
    where c: "checkText (own f ''BetalningsmottagarId'') digits12
            (''BetalningsmottagarId is missing in Franvarouppgift '' @ decimal (i + 1))
            (''BetalningsmottagarId must be 12 digits in Franvarouppgift '' @ decimal (i + 1))
          = Inr xs"
      and es: "es =
     (if missing (own f ''AgRegistreradId'')
      then [''AgRegistreradId is missing in Franvarouppgift '' @ decimal (i + 1)]
      else [])
     @ xs
     @ (if missing (own f ''FranvaroDatum'')
        then [''FranvaroDatum is missing in Franvarouppgift '' @ decimal (i + 1)]
        else [])
     @ (if missing (own f ''FranvaroSpecifikationsnummer'')
        then [''FranvaroSpecifikationsnummer is missing in Franvarouppgift ''
              @ decimal (i + 1)]
        else [])
     @ (if missing (own f ''FranvaroTyp'')
        then [''FranvaroTyp is missing in Franvarouppgift '' @ decimal (i + 1)]
        else if getTextContent (own f ''FranvaroTyp'')
                  \<notin> {JStr ''TILLFALLIG_FORALDRAPENNING'', JStr ''FORALDRAPENNING''}
        then [''FranvaroTyp must be either TILLFALLIG_FORALDRAPENNING or FORALDRAPENNING in Franvarouppgift ''
              @ decimal (i + 1)]
        else [])
     @ (if missing (own f ''RedovisningsPeriod'')
        then [''RedovisningsPeriod is missing in Franvarouppgift '' @ decimal (i + 1)]
        else [])
     @ (if getTextContent (own f ''FranvaroTyp'') = JStr ''FORALDRAPENNING''
           \<and> \<not> truthy (getTextContent (own f ''FranvaroProcentFP''))
           \<and> \<not> truthy (getTextContent (own f ''FranvaroTimmarFP''))
        then [''Either FranvaroProcentFP or FranvaroTimmarFP is required for FORALDRAPENNING in Franvarouppgift ''
              @ decimal (i + 1)]
        else [])
     @ (if getTextContent (own f ''FranvaroTyp'') = JStr ''TILLFALLIG_FORALDRAPENNING''
           \<and> \<not> truthy (getTextContent (own f ''FranvaroProcentTFP''))
           \<and> \<not> truthy (getTextContent (own f ''FranvaroTimmarTFP''))
        then [''Either FranvaroProcentTFP or FranvaroTimmarTFP is required for TILLFALLIG_FORALDRAPENNING in Franvarouppgift ''
              @ decimal (i + 1)]
        else [])"
    unfolding franvaroErrors_def
    by (simp only: n if_False seqE_Cons_Inr seqE_Nil_Inr) (elim exE conjE, simp)
  from n show ?thesis
    unfolding es checkText_Inr [OF c] by (simp only: simp_thms)
qed

lemma validateParsed_parts:
  assumes "truthy parsed" and "truthy (own parsed ''Skatteverket'')"
    and "validateParsed parsed = Inr r"
  shows "\<exists>av bs fs.
           avsandareErrors (own parsed ''Skatteverket'') = Inr av
           \<and> blanketterErrors (own parsed ''Skatteverket'') = Inr bs
           \<and> franvaroListErrors (own parsed ''Skatteverket'') = Inr fs
           \<and> errors r = namespaceErrors (own parsed ''Skatteverket'') @ av @ bs @ fs
           \<and> valid r = (errors r = [])"
proof -
  from assms obtain es where s: "seqE [Inr (namespaceErrors (own parsed ''Skatteverket'')),
                    avsandareErrors (own parsed ''Skatteverket''),
                    blanketterErrors (own parsed ''Skatteverket''),
                    franvaroListErrors (own parsed ''Skatteverket'')] = Inr es"
    and r: "r = \<lparr>valid = (length es = 0), errors = es\<rparr>"
    unfolding validateParsed_def Let_def
    by (simp only: assms(1,2) simp_thms if_False split: sum.splits) auto
  from s obtain av bs fs where "avsandareErrors (own parsed ''Skatteverket'') = Inr av"
    "blanketterErrors (own parsed ''Skatteverket'') = Inr bs"
    "franvaroListErrors (own parsed ''Skatteverket'') = Inr fs"
    "es = namespaceErrors (own parsed ''Skatteverket'') @ av @ bs @ fs"
    by (simp only: seqE_Cons_Inr seqE_Nil_Inr) (elim exE conjE, simp)
  with r show ?thesis by simp
qed

lemma validateParsed_run:
  assumes "truthy parsed" and "truthy (own parsed ''Skatteverket'')"
    and "avsandareErrors (own parsed ''Skatteverket'') = Inr av"
    and "blanketterErrors (own parsed ''Skatteverket'') = Inr bs"
    and "franvaroListErrors (own parsed ''Skatteverket'') = Inr fs"
  shows "validateParsed parsed
    = Inr \<lparr>valid = (namespaceErrors (own parsed ''Skatteverket'') @ av @ bs @ fs = []),
           errors = namespaceErrors (own parsed ''Skatteverket'') @ av @ bs @ fs\<rparr>"
  unfolding validateParsed_def Let_def assms(3,4,5)
  using assms(1,2) by simp

lemma forEachFrom_notin:
  assumes "\<And>x i es. f x i = Inr es \<Longrightarrow> m \<notin> set es"
  shows "forEachFrom f i xs = Inr es \<Longrightarrow> m \<notin> set es"
proof (induction xs arbitrary: i es)
  case Nil
  then show ?case by simp
next
  case (Cons x xs)
  from Cons.prems obtain a b where a: "f x i = Inr a" and b: "forEachFrom f (Suc i) xs = Inr b"
    and es: "es = a @ b"
    by (auto split: sum.splits)
  from assms [OF a] Cons.IH [OF b] es show ?case by simp
qed

lemma forEachFrom_single: "forEachFrom f i [x] = f x i"
  by (cases "f x i") simp_all

subsection \<open>The shape of an e-mail address\<close>

lemma searchFrom_append: "searchFrom t \<Longrightarrow> searchFrom (pre @ t)"
  by (induction pre) simp_all

lemma searchFrom_matchHere: "matchHere t \<Longrightarrow> searchFrom t"
  by (cases t) (simp_all add: matchHere_def)

lemma not_word_at: "\<not> isWord CHR ''@''"
  by (simp add: isWord_def)

lemma not_word_dot: "\<not> isWord CHR ''.''"
  by (simp add: isWord_def)

lemma matchHere_shape:
  assumes "u \<noteq> []" "v \<noteq> []" "w \<noteq> []"
    and "list_all isWord u" "list_all isWord v" "list_all isWord w"
  shows "matchHere (u @ ''@'' @ v @ ''.'' @ w @ post)"
proof -
  from assms have u: "\<forall>c\<in>set u. isWord c" and v: "\<forall>c\<in>set v. isWord c"
    by (simp_all add: list_all_iff)
  from assms obtain w0 w' where w: "w = w0 # w'" "isWord w0"
    by (cases w) simp_all
  have t1: "\<And>r. takeWhile isWord (u @ CHR ''@'' # r) = u"
    using u by (simp add: takeWhile_append2 not_word_at)
  have d1: "\<And>r. dropWhile isWord (u @ CHR ''@'' # r) = CHR ''@'' # r"
    using u by (simp add: dropWhile_append2 not_word_at)
  have t2: "\<And>r. takeWhile isWord (v @ CHR ''.'' # r) = v"
    using v by (simp add: takeWhile_append2 not_word_dot)
  have d2: "\<And>r. dropWhile isWord (v @ CHR ''.'' # r) = CHR ''.'' # r"
    using v by (simp add: dropWhile_append2 not_word_dot)
  show ?thesis
    using assms(1,2) w by (simp add: matchHere_def t1 d1 t2 d2)
qed

lemma searchFrom_shape:
  assumes "u \<noteq> []" "v \<noteq> []" "w \<noteq> []"
    and "list_all isWord u" "list_all isWord v" "list_all isWord w"
  shows "searchFrom (pre @ u @ ''@'' @ v @ ''.'' @ w @ post)"
  by (rule searchFrom_append, rule searchFrom_matchHere, rule matchHere_shape) (fact assms)+

lemma matchHere_shape_conv:
  assumes "matchHere s"
  shows "\<exists>u v w post. s = u @ ''@'' @ v @ ''.'' @ w @ post
           \<and> u \<noteq> [] \<and> v \<noteq> [] \<and> w \<noteq> []
           \<and> list_all isWord u \<and> list_all isWord v \<and> list_all isWord w"
proof -
  from assms obtain r where u: "takeWhile isWord s \<noteq> []"
    and r: "dropWhile isWord s = CHR ''@'' # r"
    and rest: "takeWhile isWord r \<noteq> [] \<and>
           (case dropWhile isWord r of
              [] \<Rightarrow> False
            | d # t \<Rightarrow> d = CHR ''.'' \<and> (case t of [] \<Rightarrow> False | w # _ \<Rightarrow> isWord w))"
    by (auto simp add: matchHere_def split: list.splits)
  from rest obtain w0 t where v: "takeWhile isWord r \<noteq> []"
    and t: "dropWhile isWord r = CHR ''.'' # w0 # t" and w0: "isWord w0"
    by (auto split: list.splits)
  have "s = takeWhile isWord s @ dropWhile isWord s" by simp
  also have "\<dots> = takeWhile isWord s @ CHR ''@'' # (takeWhile isWord r @ dropWhile isWord r)"
    by (simp add: r)
  finally have "s = takeWhile isWord s @ ''@'' @ takeWhile isWord r @ ''.'' @ [w0] @ t"
    by (simp add: t)
  moreover have "list_all isWord (takeWhile isWord s)" "list_all isWord (takeWhile isWord r)"
    by (auto simp add: list_all_iff dest: set_takeWhileD)
  ultimately show ?thesis
    using u v w0 by (intro exI [of _ "takeWhile isWord s"] exI [of _ "takeWhile isWord r"]
        exI [of _ "[w0]"] exI [of _ t]) simp
qed

lemma searchFrom_conv: "searchFrom s \<Longrightarrow> \<exists>pre t. s = pre @ t \<and> matchHere t"
proof (induction s)
  case Nil
  then show ?case by simp
next
  case (Cons c cs)
  show ?case
  proof (cases "matchHere (c # cs)")
    case True
    then have "c # cs = [] @ c # cs \<and> matchHere (c # cs)" by simp
    then show ?thesis by blast
  next
    case False
    with Cons obtain pre t where "cs = pre @ t" "matchHere t" by auto
    then have "c # cs = (c # pre) @ t \<and> matchHere t" by simp
    then show ?thesis by blast
  qed
qed

text \<open>
  The search is the pattern \<^verbatim>\<open>\w+@\w+\.\w+\<close> read as a language: it succeeds exactly
  on the texts that contain a word, an at sign, a word, a dot and a word in a row.
\<close>

lemma searchFrom_iff:
  "searchFrom s \<longleftrightarrow>
     (\<exists>pre u v w post. s = pre @ u @ ''@'' @ v @ ''.'' @ w @ post
        \<and> u \<noteq> [] \<and> v \<noteq> [] \<and> w \<noteq> []
        \<and> list_all isWord u \<and> list_all isWord v \<and> list_all isWord w)"
proof
  assume "searchFrom s"
  then obtain pre t where s: "s = pre @ t" and "matchHere t"
    using searchFrom_conv by blast
  from matchHere_shape_conv [OF this(2)] s show
    "\<exists>pre u v w post. s = pre @ u @ ''@'' @ v @ ''.'' @ w @ post
        \<and> u \<noteq> [] \<and> v \<noteq> [] \<and> w \<noteq> []
        \<and> list_all isWord u \<and> list_all isWord v \<and> list_all isWord w"
    by blast
next
  assume "\<exists>pre u v w post. s = pre @ u @ ''@'' @ v @ ''.'' @ w @ post
        \<and> u \<noteq> [] \<and> v \<noteq> [] \<and> w \<noteq> []
        \<and> list_all isWord u \<and> list_all isWord v \<and> list_all isWord w"
  then show "searchFrom s"
    using searchFrom_shape by blast
qed

subsection \<open>Where the message about the e-mail format can come from\<close>

lemma format_notin_namespaceErrors:
  "''Epostadress has invalid format'' \<notin> set (namespaceErrors r)"
  by (simp add: namespaceErrors_def)

lemma format_in_avsandareErrors:
  assumes "avsandareErrors r = Inr es" and "''Epostadress has invalid format'' \<in> set es"
  shows "emailShape (getTextContent
            (own (own (own r ''Avsandare'') ''TekniskKontaktperson'') ''Epostadress''))
         = Inr False"
  using assms(2) unfolding avsandareErrors_Inr [OF assms(1)]
  by (simp add: in_set_if split del: if_split)

lemma format_notin_blankettErrors:
  assumes "blankettErrors b i = Inr es"
  shows "''Epostadress has invalid format'' \<notin> set es"
proof -
  from blankettErrors_Inr [OF assms] have "es =
     (if \<not> truthy (own b ''Arendeinformation'')
      then [''Arendeinformation is missing in Blankett '' @ decimal (i + 1)]
      else
        (if missing (own (own b ''Arendeinformation'') ''Arendeagare'')
         then [''Arendeagare is missing in Blankett '' @ decimal (i + 1)]
         else if digits12 (getTextContent (own (own b ''Arendeinformation'') ''Arendeagare''))
                 = Inr False
         then [''Arendeagare must be 12 digits in Blankett '' @ decimal (i + 1)]
         else [])
        @ (if missing (own (own b ''Arendeinformation'') ''Period'')
           then [''Period is missing in Blankett '' @ decimal (i + 1)] else []))
     @ (if \<not> truthy (own b ''Blankettinnehall'')
        then [''Blankettinnehall is missing in Blankett '' @ decimal (i + 1)]
        else [])" ..
  then show ?thesis by (simp add: in_set_if split del: if_split)
qed

lemma format_notin_franvaroErrors:
  assumes "franvaroErrors f i = Inr es"
  shows "''Epostadress has invalid format'' \<notin> set es"
proof -
  from franvaroErrors_Inr [OF assms] have "es =
     (if missing (own f ''AgRegistreradId'')
      then [''AgRegistreradId is missing in Franvarouppgift '' @ decimal (i + 1)]
      else [])
     @ (if missing (own f ''BetalningsmottagarId'')
        then [''BetalningsmottagarId is missing in Franvarouppgift '' @ decimal (i + 1)]
        else if digits12 (getTextContent (own f ''BetalningsmottagarId'')) = Inr False
        then [''BetalningsmottagarId must be 12 digits in Franvarouppgift '' @ decimal (i + 1)]
        else [])
     @ (if missing (own f ''FranvaroDatum'')
        then [''FranvaroDatum is missing in Franvarouppgift '' @ decimal (i + 1)]
        else [])
     @ (if missing (own f ''FranvaroSpecifikationsnummer'')
        then [''FranvaroSpecifikationsnummer is missing in Franvarouppgift ''
              @ decimal (i + 1)]
        else [])
     @ (if missing (own f ''FranvaroTyp'')
        then [''FranvaroTyp is missing in Franvarouppgift '' @ decimal (i + 1)]
        else if getTextContent (own f ''FranvaroTyp'')
                  \<notin> {JStr ''TILLFALLIG_FORALDRAPENNING'', JStr ''FORALDRAPENNING''}
        then [''FranvaroTyp must be either TILLFALLIG_FORALDRAPENNING or FORALDRAPENNING in Franvarouppgift ''
              @ decimal (i + 1)]
        else [])
     @ (if missing (own f ''RedovisningsPeriod'')
        then [''RedovisningsPeriod is missing in Franvarouppgift '' @ decimal (i + 1)]
        else [])
     @ (if getTextContent (own f ''FranvaroTyp'') = JStr ''FORALDRAPENNING''
           \<and> \<not> truthy (getTextContent (own f ''FranvaroProcentFP''))
           \<and> \<not> truthy (getTextContent (own f ''FranvaroTimmarFP''))
        then [''Either FranvaroProcentFP or FranvaroTimmarFP is required for FORALDRAPENNING in Franvarouppgift ''
              @ decimal (i + 1)]
        else [])
     @ (if getTextContent (own f ''FranvaroTyp'') = JStr ''TILLFALLIG_FORALDRAPENNING''
           \<and> \<not> truthy (getTextContent (own f ''FranvaroProcentTFP''))
           \<and> \<not> truthy (getTextContent (own f ''FranvaroTimmarTFP''))
        then [''Either FranvaroProcentTFP or FranvaroTimmarTFP is required for TILLFALLIG_FORALDRAPENNING in Franvarouppgift ''
              @ decimal (i + 1)]
        else [])" ..
  then show ?thesis by (simp add: in_set_if split del: if_split)
qed

lemma format_notin_blanketterErrors:
  "blanketterErrors r = Inr es \<Longrightarrow> ''Epostadress has invalid format'' \<notin> set es"
  using forEachFrom_notin [of blankettErrors "''Epostadress has invalid format''"]
    format_notin_blankettErrors
  by (auto simp add: blanketterErrors_def split: if_splits)

lemma format_notin_franvaroListErrors:
  "franvaroListErrors r = Inr es \<Longrightarrow> ''Epostadress has invalid format'' \<notin> set es"
  using forEachFrom_notin [of franvaroErrors "''Epostadress has invalid format''"]
    format_notin_franvaroErrors
  by (auto simp add: franvaroListErrors_def split: if_splits)

lemma format_in_validateParsed:
  assumes "validateParsed parsed = Inr r"
    and "''Epostadress has invalid format'' \<in> set (errors r)"
  shows "emailShape (getTextContent
           (own (own (own (own parsed ''Skatteverket'') ''Avsandare'')
                     ''TekniskKontaktperson'') ''Epostadress'')) = Inr False"
proof (cases "\<not> truthy parsed \<or> \<not> truthy (own parsed ''Skatteverket'')")
  case True
  then have "validateParsed parsed
      = Inr \<lparr>valid = False, errors = [''XML does not contain a Skatteverket root element'']\<rparr>"
    unfolding validateParsed_def by (simp only: if_True)
  with assms show ?thesis by auto
next
  case False
  let ?root = "own parsed ''Skatteverket''"
  from False have "truthy parsed" "truthy ?root" by simp_all
  from validateParsed_parts [OF this assms(1)]
  obtain av bs fs where av: "avsandareErrors ?root = Inr av"
    and bs: "blanketterErrors ?root = Inr bs"
    and fs: "franvaroListErrors ?root = Inr fs"
    and r: "errors r = namespaceErrors ?root @ av @ bs @ fs"
    by blast
  from assms(2) r format_notin_namespaceErrors [of ?root]
    format_notin_blanketterErrors [OF bs] format_notin_franvaroListErrors [OF fs]
  have "''Epostadress has invalid format'' \<in> set av"
    by simp
  with av show ?thesis by (rule format_in_avsandareErrors)
qed

text \<open>
  Claim C10. The pattern of the e-mail check is not anchored. When the text of the
  technical contact's e-mail address has, anywhere in it, one or more word characters,
  an at sign, one or more word characters, a dot and one or more word characters,
  whatever stands before and after, the validator returns a result without the message
  \<^verbatim>\<open>Epostadress has invalid format\<close>.
\<close>

theorem email_check_unanchored:
  assumes "xml2js x = Inr parsed"
    and "getTextContent
           (own (own (own (own parsed ''Skatteverket'') ''Avsandare'')
                     ''TekniskKontaktperson'') ''Epostadress'')
         = JStr (pre @ u @ ''@'' @ v @ ''.'' @ w @ post)"
    and "u \<noteq> []" "v \<noteq> []" "w \<noteq> []"
    and "list_all isWord u" "list_all isWord v" "list_all isWord w"
  shows "\<exists>r. validateXML xml2js x = Inr r
             \<and> ''Epostadress has invalid format'' \<notin> set (errors r)"
proof -
  have shape: "emailShape (getTextContent
           (own (own (own (own parsed ''Skatteverket'') ''Avsandare'')
                     ''TekniskKontaktperson'') ''Epostadress'')) = Inr True"
    unfolding assms(2) emailShape_def
    using searchFrom_shape [OF assms(3-8), of pre post] by simp
  show ?thesis
  proof (cases "x = []")
    case True
    then show ?thesis by (simp add: validateXML_def)
  next
    case False
    show ?thesis
    proof (cases "validateParsed parsed")
      case (Inl e)
      with False assms(1) show ?thesis
        by (simp add: validateXML_def parseXML_def)
    next
      case (Inr r)
      with shape format_in_validateParsed [of parsed r]
      have "''Epostadress has invalid format'' \<notin> set (errors r)" by auto
      with Inr False assms(1) show ?thesis
        by (simp add: validateXML_def parseXML_def)
    qed
  qed
qed

text \<open>
  An address with characters around it that no address has: the check lets it pass.
\<close>

theorem email_check_unanchored_witness:
  "\<exists>r. validateXML
         (\<lambda>s. Inr (JObj [(''Skatteverket'', JObj [(''Avsandare'', JObj
                  [(''TekniskKontaktperson'', JObj
                      [(''Epostadress'', JObj [(''_text'', JStr ''<<anna@bokio.se>> !'')])])])])]))
         ''<Skatteverket><Avsandare><TekniskKontaktperson><Epostadress>&lt;&lt;anna@bokio.se&gt;&gt; !</Epostadress></TekniskKontaktperson></Avsandare></Skatteverket>''
        = Inr r
      \<and> ''Epostadress has invalid format'' \<notin> set (errors r)"
  using email_check_unanchored
    [of "\<lambda>s. Inr (JObj [(''Skatteverket'', JObj [(''Avsandare'', JObj
                  [(''TekniskKontaktperson'', JObj
                      [(''Epostadress'', JObj [(''_text'', JStr ''<<anna@bokio.se>> !'')])])])])])"
        "''<Skatteverket><Avsandare><TekniskKontaktperson><Epostadress>&lt;&lt;anna@bokio.se&gt;&gt; !</Epostadress></TekniskKontaktperson></Avsandare></Skatteverket>''"
        "JObj [(''Skatteverket'', JObj [(''Avsandare'', JObj
                  [(''TekniskKontaktperson'', JObj
                      [(''Epostadress'', JObj [(''_text'', JStr ''<<anna@bokio.se>> !'')])])])])]"
        "''<<''" "''anna''" "''bokio''" "''se''" "''>> !''"]
  by (simp add: getTextContent_def isWord_def)

section \<open>A single occurrence is checked\<close>

lemma decimal_one: "decimal (Suc 0) = ''1''"
  by (simp add: decimal.simps digit_def)

lemma digits12_False:
  "digits12 v = Inr False
   \<longleftrightarrow> (\<exists>s. toStringJS v = Inr s \<and> \<not> (length s = 12 \<and> list_all isDigit s))"
  by (cases "toStringJS v") (auto simp add: digits12_def)

lemma ball_set_if:
  "(\<forall>m\<in>set (if c then xs else ys). P m)
   \<longleftrightarrow> (c \<longrightarrow> (\<forall>m\<in>set xs. P m)) \<and> (\<not> c \<longrightarrow> (\<forall>m\<in>set ys. P m))"
  by simp

lemma forEachFrom_all:
  assumes "\<And>x i es. f x i = Inr es \<Longrightarrow> \<forall>m\<in>set es. P m"
  shows "forEachFrom f i xs = Inr es \<Longrightarrow> \<forall>m\<in>set es. P m"
proof (induction xs arbitrary: i es)
  case Nil
  then show ?case by simp
next
  case (Cons x xs)
  from Cons.prems obtain a b where a: "f x i = Inr a" and b: "forEachFrom f (Suc i) xs = Inr b"
    and es: "es = a @ b"
    by (auto split: sum.splits)
  from assms [OF a] Cons.IH [OF b] es show ?case by auto
qed

text \<open>No rule for an absence record gives a message of a form.\<close>

lemma franvaroErrors_other:
  assumes "franvaroErrors f i = Inr es"
  shows "\<forall>m\<in>set es.
           m \<notin> set [''Arendeinformation is missing in Blankett 1'',
                     ''Arendeagare is missing in Blankett 1'',
                     ''Arendeagare must be 12 digits in Blankett 1'',
                     ''Period is missing in Blankett 1'',
                     ''Blankettinnehall is missing in Blankett 1'']"
  using franvaroErrors_Inr [OF assms]
  by (elim conjE) (simp add: ball_set_if ball_Un split del: if_split)

text \<open>No rule for a form gives a message of an absence record.\<close>

lemma blankettErrors_other:
  assumes "blankettErrors b i = Inr es"
  shows "\<forall>m\<in>set es.
           m \<notin> set [''AgRegistreradId is missing in Franvarouppgift 1'',
                     ''BetalningsmottagarId is missing in Franvarouppgift 1'',
                     ''BetalningsmottagarId must be 12 digits in Franvarouppgift 1'',
                     ''FranvaroDatum is missing in Franvarouppgift 1'',
                     ''FranvaroSpecifikationsnummer is missing in Franvarouppgift 1'',
                     ''FranvaroTyp is missing in Franvarouppgift 1'',
                     ''FranvaroTyp must be either TILLFALLIG_FORALDRAPENNING or FORALDRAPENNING in Franvarouppgift 1'',
                     ''RedovisningsPeriod is missing in Franvarouppgift 1'',
                     ''Either FranvaroProcentFP or FranvaroTimmarFP is required for FORALDRAPENNING in Franvarouppgift 1'',
                     ''Either FranvaroProcentTFP or FranvaroTimmarTFP is required for TILLFALLIG_FORALDRAPENNING in Franvarouppgift 1'']"
  using blankettErrors_Inr [OF assms]
  by (elim conjE) (simp add: ball_set_if ball_Un split del: if_split)

lemma blanketterErrors_other:
  assumes "blanketterErrors r = Inr bs"
  shows "\<forall>m\<in>set bs.
           m \<notin> set [''AgRegistreradId is missing in Franvarouppgift 1'',
                     ''BetalningsmottagarId is missing in Franvarouppgift 1'',
                     ''BetalningsmottagarId must be 12 digits in Franvarouppgift 1'',
                     ''FranvaroDatum is missing in Franvarouppgift 1'',
                     ''FranvaroSpecifikationsnummer is missing in Franvarouppgift 1'',
                     ''FranvaroTyp is missing in Franvarouppgift 1'',
                     ''FranvaroTyp must be either TILLFALLIG_FORALDRAPENNING or FORALDRAPENNING in Franvarouppgift 1'',
                     ''RedovisningsPeriod is missing in Franvarouppgift 1'',
                     ''Either FranvaroProcentFP or FranvaroTimmarFP is required for FORALDRAPENNING in Franvarouppgift 1'',
                     ''Either FranvaroProcentTFP or FranvaroTimmarTFP is required for TILLFALLIG_FORALDRAPENNING in Franvarouppgift 1'']"
proof (cases "truthy (own r ''Blankett'')")
  case False
  with assms have "bs = [''No Blankett elements found'']"
    by (auto simp add: blanketterErrors_def)
  then show ?thesis by simp
next
  case True
  with assms have "forEachFrom blankettErrors 0 (asArray (own r ''Blankett'')) = Inr bs"
    by (simp add: blanketterErrors_def)
  then show ?thesis
    by (rule forEachFrom_all [rotated]) (rule blankettErrors_other)
qed

lemma franvaroListErrors_other:
  assumes "franvaroListErrors r = Inr fs"
  shows "\<forall>m\<in>set fs.
           m \<notin> set [''Arendeinformation is missing in Blankett 1'',
                     ''Arendeagare is missing in Blankett 1'',
                     ''Arendeagare must be 12 digits in Blankett 1'',
                     ''Period is missing in Blankett 1'',
                     ''Blankettinnehall is missing in Blankett 1'']"
proof (cases "truthy (own r ''Franvarouppgift'')")
  case False
  with assms have "fs = []" by (auto simp add: franvaroListErrors_def)
  then show ?thesis by simp
next
  case True
  with assms have "forEachFrom franvaroErrors 0 (asArray (own r ''Franvarouppgift'')) = Inr fs"
    by (simp add: franvaroListErrors_def)
  then show ?thesis
    by (rule forEachFrom_all [rotated]) (rule franvaroErrors_other)
qed

text \<open>The checks of the root and of the sender give no message of a form or of an
  absence record.\<close>

lemma avsandareErrors_other:
  assumes "avsandareErrors r = Inr av"
  shows "\<forall>m\<in>set (namespaceErrors r @ av).
           m \<notin> set [''Arendeinformation is missing in Blankett 1'',
                     ''Arendeagare is missing in Blankett 1'',
                     ''Arendeagare must be 12 digits in Blankett 1'',
                     ''Period is missing in Blankett 1'',
                     ''Blankettinnehall is missing in Blankett 1'',
                     ''AgRegistreradId is missing in Franvarouppgift 1'',
                     ''BetalningsmottagarId is missing in Franvarouppgift 1'',
                     ''BetalningsmottagarId must be 12 digits in Franvarouppgift 1'',
                     ''FranvaroDatum is missing in Franvarouppgift 1'',
                     ''FranvaroSpecifikationsnummer is missing in Franvarouppgift 1'',
                     ''FranvaroTyp is missing in Franvarouppgift 1'',
                     ''FranvaroTyp must be either TILLFALLIG_FORALDRAPENNING or FORALDRAPENNING in Franvarouppgift 1'',
                     ''RedovisningsPeriod is missing in Franvarouppgift 1'',
                     ''Either FranvaroProcentFP or FranvaroTimmarFP is required for FORALDRAPENNING in Franvarouppgift 1'',
                     ''Either FranvaroProcentTFP or FranvaroTimmarTFP is required for TILLFALLIG_FORALDRAPENNING in Franvarouppgift 1'']"
  unfolding avsandareErrors_Inr [OF assms] namespaceErrors_def
  by (simp add: ball_set_if ball_Un split del: if_split)

text \<open>The rules for the form at position 0, one by one.\<close>

lemma blankett_rules:
  assumes "blankettErrors b 0 = Inr bs"
  shows "(''Arendeinformation is missing in Blankett 1'' \<in> set bs
            \<longleftrightarrow> \<not> truthy (own b ''Arendeinformation''))
         \<and> (''Arendeagare is missing in Blankett 1'' \<in> set bs
            \<longleftrightarrow> truthy (own b ''Arendeinformation'')
                \<and> missing (own (own b ''Arendeinformation'') ''Arendeagare''))
         \<and> (''Arendeagare must be 12 digits in Blankett 1'' \<in> set bs
            \<longleftrightarrow> truthy (own b ''Arendeinformation'')
                \<and> \<not> missing (own (own b ''Arendeinformation'') ''Arendeagare'')
                \<and> (\<exists>s. toStringJS (getTextContent (own (own b ''Arendeinformation'')
                                                         ''Arendeagare'')) = Inr s
                        \<and> \<not> (length s = 12 \<and> list_all isDigit s)))
         \<and> (''Period is missing in Blankett 1'' \<in> set bs
            \<longleftrightarrow> truthy (own b ''Arendeinformation'')
                \<and> missing (own (own b ''Arendeinformation'') ''Period''))
         \<and> (''Blankettinnehall is missing in Blankett 1'' \<in> set bs
            \<longleftrightarrow> \<not> truthy (own b ''Blankettinnehall''))"
  using blankettErrors_Inr [OF assms]
  by (elim conjE)
     (simp add: in_set_if decimal_one digits12_False split del: if_split)

lemma notin_swap: "\<forall>m\<in>set es. m \<notin> set ms \<Longrightarrow> \<forall>m\<in>set ms. m \<notin> set es"
  by blast

text \<open>The rules for the absence record at position 0, one by one.\<close>

lemma franvaro_rules:
  assumes "franvaroErrors f 0 = Inr fs"
  shows "(''AgRegistreradId is missing in Franvarouppgift 1'' \<in> set fs
            \<longleftrightarrow> missing (own f ''AgRegistreradId''))
         \<and> (''BetalningsmottagarId is missing in Franvarouppgift 1'' \<in> set fs
            \<longleftrightarrow> missing (own f ''BetalningsmottagarId''))
         \<and> (''BetalningsmottagarId must be 12 digits in Franvarouppgift 1'' \<in> set fs
            \<longleftrightarrow> \<not> missing (own f ''BetalningsmottagarId'')
                \<and> (\<exists>s. toStringJS (getTextContent (own f ''BetalningsmottagarId'')) = Inr s
                        \<and> \<not> (length s = 12 \<and> list_all isDigit s)))
         \<and> (''FranvaroDatum is missing in Franvarouppgift 1'' \<in> set fs
            \<longleftrightarrow> missing (own f ''FranvaroDatum''))
         \<and> (''FranvaroSpecifikationsnummer is missing in Franvarouppgift 1'' \<in> set fs
            \<longleftrightarrow> missing (own f ''FranvaroSpecifikationsnummer''))
         \<and> (''FranvaroTyp is missing in Franvarouppgift 1'' \<in> set fs
            \<longleftrightarrow> missing (own f ''FranvaroTyp''))
         \<and> (''FranvaroTyp must be either TILLFALLIG_FORALDRAPENNING or FORALDRAPENNING in Franvarouppgift 1''
              \<in> set fs
            \<longleftrightarrow> \<not> missing (own f ''FranvaroTyp'')
                \<and> getTextContent (own f ''FranvaroTyp'') \<noteq> JStr ''TILLFALLIG_FORALDRAPENNING''
                \<and> getTextContent (own f ''FranvaroTyp'') \<noteq> JStr ''FORALDRAPENNING'')
         \<and> (''RedovisningsPeriod is missing in Franvarouppgift 1'' \<in> set fs
            \<longleftrightarrow> missing (own f ''RedovisningsPeriod''))
         \<and> (''Either FranvaroProcentFP or FranvaroTimmarFP is required for FORALDRAPENNING in Franvarouppgift 1''
              \<in> set fs
            \<longleftrightarrow> getTextContent (own f ''FranvaroTyp'') = JStr ''FORALDRAPENNING''
                \<and> \<not> truthy (getTextContent (own f ''FranvaroProcentFP''))
                \<and> \<not> truthy (getTextContent (own f ''FranvaroTimmarFP'')))
         \<and> (''Either FranvaroProcentTFP or FranvaroTimmarTFP is required for TILLFALLIG_FORALDRAPENNING in Franvarouppgift 1''
              \<in> set fs
            \<longleftrightarrow> getTextContent (own f ''FranvaroTyp'') = JStr ''TILLFALLIG_FORALDRAPENNING''
                \<and> \<not> truthy (getTextContent (own f ''FranvaroProcentTFP''))
                \<and> \<not> truthy (getTextContent (own f ''FranvaroTimmarTFP'')))"
  using franvaroErrors_Inr [OF assms]
  by (elim conjE)
     (simp add: in_set_if decimal_one digits12_False split del: if_split)

text \<open>
  Claim C8, as the program has it. Take a document whose validation runs to its end, no
  exception being caught. When its root holds one \<^verbatim>\<open>Blankett\<close> (an object, not an
  array), the validator iterates over the one-element sequence of it, and each rule for
  a form is applied to it as number 1: the result has the rule's message exactly when
  the form breaks the rule. Likewise for one \<^verbatim>\<open>Franvarouppgift\<close> and each rule for an
  absence record.
\<close>

theorem single_occurrence_checked:
  assumes "x \<noteq> []" "xml2js x = Inr parsed" "truthy parsed" "truthy (own parsed ''Skatteverket'')"
    and "validateParsed parsed = Inr r"
  shows "validateXML xml2js x = Inr r
    \<and> (own (own parsed ''Skatteverket'') ''Blankett'' = JObj b \<longrightarrow>
         blanketterErrors (own parsed ''Skatteverket'') = forEachFrom blankettErrors 0 [JObj b]
         \<and> (''Arendeinformation is missing in Blankett 1'' \<in> set (errors r)
              \<longleftrightarrow> \<not> truthy (own (JObj b) ''Arendeinformation''))
         \<and> (''Arendeagare is missing in Blankett 1'' \<in> set (errors r)
              \<longleftrightarrow> truthy (own (JObj b) ''Arendeinformation'')
                  \<and> missing (own (own (JObj b) ''Arendeinformation'') ''Arendeagare''))
         \<and> (''Arendeagare must be 12 digits in Blankett 1'' \<in> set (errors r)
              \<longleftrightarrow> truthy (own (JObj b) ''Arendeinformation'')
                  \<and> \<not> missing (own (own (JObj b) ''Arendeinformation'') ''Arendeagare'')
                  \<and> (\<exists>s. toStringJS (getTextContent (own (own (JObj b) ''Arendeinformation'')
                                                           ''Arendeagare'')) = Inr s
                          \<and> \<not> (length s = 12 \<and> list_all isDigit s)))
         \<and> (''Period is missing in Blankett 1'' \<in> set (errors r)
              \<longleftrightarrow> truthy (own (JObj b) ''Arendeinformation'')
                  \<and> missing (own (own (JObj b) ''Arendeinformation'') ''Period''))
         \<and> (''Blankettinnehall is missing in Blankett 1'' \<in> set (errors r)
              \<longleftrightarrow> \<not> truthy (own (JObj b) ''Blankettinnehall'')))
    \<and> (own (own parsed ''Skatteverket'') ''Franvarouppgift'' = JObj f \<longrightarrow>
         franvaroListErrors (own parsed ''Skatteverket'')
           = forEachFrom franvaroErrors 0 [JObj f]
         \<and> (''AgRegistreradId is missing in Franvarouppgift 1'' \<in> set (errors r)
              \<longleftrightarrow> missing (own (JObj f) ''AgRegistreradId''))
         \<and> (''BetalningsmottagarId is missing in Franvarouppgift 1'' \<in> set (errors r)
              \<longleftrightarrow> missing (own (JObj f) ''BetalningsmottagarId''))
         \<and> (''BetalningsmottagarId must be 12 digits in Franvarouppgift 1'' \<in> set (errors r)
              \<longleftrightarrow> \<not> missing (own (JObj f) ''BetalningsmottagarId'')
                  \<and> (\<exists>s. toStringJS (getTextContent (own (JObj f) ''BetalningsmottagarId''))
                            = Inr s
                          \<and> \<not> (length s = 12 \<and> list_all isDigit s)))
         \<and> (''FranvaroDatum is missing in Franvarouppgift 1'' \<in> set (errors r)
              \<longleftrightarrow> missing (own (JObj f) ''FranvaroDatum''))
         \<and> (''FranvaroSpecifikationsnummer is missing in Franvarouppgift 1'' \<in> set (errors r)
              \<longleftrightarrow> missing (own (JObj f) ''FranvaroSpecifikationsnummer''))
         \<and> (''FranvaroTyp is missing in Franvarouppgift 1'' \<in> set (errors r)
              \<longleftrightarrow> missing (own (JObj f) ''FranvaroTyp''))
         \<and> (''FranvaroTyp must be either TILLFALLIG_FORALDRAPENNING or FORALDRAPENNING in Franvarouppgift 1''
                \<in> set (errors r)
              \<longleftrightarrow> \<not> missing (own (JObj f) ''FranvaroTyp'')
                  \<and> getTextContent (own (JObj f) ''FranvaroTyp'')
                      \<noteq> JStr ''TILLFALLIG_FORALDRAPENNING''
                  \<and> getTextContent (own (JObj f) ''FranvaroTyp'') \<noteq> JStr ''FORALDRAPENNING'')
         \<and> (''RedovisningsPeriod is missing in Franvarouppgift 1'' \<in> set (errors r)
              \<longleftrightarrow> missing (own (JObj f) ''RedovisningsPeriod''))
         \<and> (''Either FranvaroProcentFP or FranvaroTimmarFP is required for FORALDRAPENNING in Franvarouppgift 1''
                \<in> set (errors r)
              \<longleftrightarrow> getTextContent (own (JObj f) ''FranvaroTyp'') = JStr ''FORALDRAPENNING''
                  \<and> \<not> truthy (getTextContent (own (JObj f) ''FranvaroProcentFP''))
                  \<and> \<not> truthy (getTextContent (own (JObj f) ''FranvaroTimmarFP'')))
         \<and> (''Either FranvaroProcentTFP or FranvaroTimmarTFP is required for TILLFALLIG_FORALDRAPENNING in Franvarouppgift 1''
                \<in> set (errors r)
              \<longleftrightarrow> getTextContent (own (JObj f) ''FranvaroTyp'')
                    = JStr ''TILLFALLIG_FORALDRAPENNING''
                  \<and> \<not> truthy (getTextContent (own (JObj f) ''FranvaroProcentTFP''))
                  \<and> \<not> truthy (getTextContent (own (JObj f) ''FranvaroTimmarTFP''))))"
proof -
  let ?root = "own parsed ''Skatteverket''"
  from validateParsed_parts [OF assms(3,4,5)]
  obtain av bs fs where av: "avsandareErrors ?root = Inr av"
    and bs: "blanketterErrors ?root = Inr bs"
    and fs: "franvaroListErrors ?root = Inr fs"
    and r: "errors r = namespaceErrors ?root @ av @ bs @ fs"
    by blast
  have run: "validateXML xml2js x = Inr r"
    using assms(1,2,5) by (simp add: validateXML_def parseXML_def)
  note head = notin_swap [OF avsandareErrors_other [OF av]]
  have form: "blanketterErrors ?root = forEachFrom blankettErrors 0 [JObj b]
      \<and> (''Arendeinformation is missing in Blankett 1'' \<in> set (errors r)
              \<longleftrightarrow> \<not> truthy (own (JObj b) ''Arendeinformation''))
         \<and> (''Arendeagare is missing in Blankett 1'' \<in> set (errors r)
              \<longleftrightarrow> truthy (own (JObj b) ''Arendeinformation'')
                  \<and> missing (own (own (JObj b) ''Arendeinformation'') ''Arendeagare''))
         \<and> (''Arendeagare must be 12 digits in Blankett 1'' \<in> set (errors r)
              \<longleftrightarrow> truthy (own (JObj b) ''Arendeinformation'')
                  \<and> \<not> missing (own (own (JObj b) ''Arendeinformation'') ''Arendeagare'')
                  \<and> (\<exists>s. toStringJS (getTextContent (own (own (JObj b) ''Arendeinformation'')
                                                           ''Arendeagare'')) = Inr s
                          \<and> \<not> (length s = 12 \<and> list_all isDigit s)))
         \<and> (''Period is missing in Blankett 1'' \<in> set (errors r)
              \<longleftrightarrow> truthy (own (JObj b) ''Arendeinformation'')
                  \<and> missing (own (own (JObj b) ''Arendeinformation'') ''Period''))
         \<and> (''Blankettinnehall is missing in Blankett 1'' \<in> set (errors r)
              \<longleftrightarrow> \<not> truthy (own (JObj b) ''Blankettinnehall''))"
    if b: "own ?root ''Blankett'' = JObj b"
  proof -
    from b have n: "blanketterErrors ?root = forEachFrom blankettErrors 0 [JObj b]"
      by (simp add: blanketterErrors_def)
    with bs have "blankettErrors (JObj b) 0 = Inr bs"
      by (simp only: forEachFrom_single)
    note rules = blankett_rules [OF this]
    note tail = notin_swap [OF franvaroListErrors_other [OF fs]]
    from head tail have
      "''Arendeinformation is missing in Blankett 1'' \<in> set (errors r)
         \<longleftrightarrow> ''Arendeinformation is missing in Blankett 1'' \<in> set bs"
      "''Arendeagare is missing in Blankett 1'' \<in> set (errors r)
         \<longleftrightarrow> ''Arendeagare is missing in Blankett 1'' \<in> set bs"
      "''Arendeagare must be 12 digits in Blankett 1'' \<in> set (errors r)
         \<longleftrightarrow> ''Arendeagare must be 12 digits in Blankett 1'' \<in> set bs"
      "''Period is missing in Blankett 1'' \<in> set (errors r)
         \<longleftrightarrow> ''Period is missing in Blankett 1'' \<in> set bs"
      "''Blankettinnehall is missing in Blankett 1'' \<in> set (errors r)
         \<longleftrightarrow> ''Blankettinnehall is missing in Blankett 1'' \<in> set bs"
      unfolding r by simp_all
    with n rules show ?thesis by (simp only:)
  qed
  have absence: "franvaroListErrors ?root = forEachFrom franvaroErrors 0 [JObj f]
         \<and> (''AgRegistreradId is missing in Franvarouppgift 1'' \<in> set (errors r)
              \<longleftrightarrow> missing (own (JObj f) ''AgRegistreradId''))
         \<and> (''BetalningsmottagarId is missing in Franvarouppgift 1'' \<in> set (errors r)
              \<longleftrightarrow> missing (own (JObj f) ''BetalningsmottagarId''))
         \<and> (''BetalningsmottagarId must be 12 digits in Franvarouppgift 1'' \<in> set (errors r)
              \<longleftrightarrow> \<not> missing (own (JObj f) ''BetalningsmottagarId'')
                  \<and> (\<exists>s. toStringJS (getTextContent (own (JObj f) ''BetalningsmottagarId''))
                            = Inr s
                          \<and> \<not> (length s = 12 \<and> list_all isDigit s)))
         \<and> (''FranvaroDatum is missing in Franvarouppgift 1'' \<in> set (errors r)
              \<longleftrightarrow> missing (own (JObj f) ''FranvaroDatum''))
         \<and> (''FranvaroSpecifikationsnummer is missing in Franvarouppgift 1'' \<in> set (errors r)
              \<longleftrightarrow> missing (own (JObj f) ''FranvaroSpecifikationsnummer''))
         \<and> (''FranvaroTyp is missing in Franvarouppgift 1'' \<in> set (errors r)
              \<longleftrightarrow> missing (own (JObj f) ''FranvaroTyp''))
         \<and> (''FranvaroTyp must be either TILLFALLIG_FORALDRAPENNING or FORALDRAPENNING in Franvarouppgift 1''
                \<in> set (errors r)
              \<longleftrightarrow> \<not> missing (own (JObj f) ''FranvaroTyp'')
                  \<and> getTextContent (own (JObj f) ''FranvaroTyp'')
                      \<noteq> JStr ''TILLFALLIG_FORALDRAPENNING''
                  \<and> getTextContent (own (JObj f) ''FranvaroTyp'') \<noteq> JStr ''FORALDRAPENNING'')
         \<and> (''RedovisningsPeriod is missing in Franvarouppgift 1'' \<in> set (errors r)
              \<longleftrightarrow> missing (own (JObj f) ''RedovisningsPeriod''))
         \<and> (''Either FranvaroProcentFP or FranvaroTimmarFP is required for FORALDRAPENNING in Franvarouppgift 1''
                \<in> set (errors r)
              \<longleftrightarrow> getTextContent (own (JObj f) ''FranvaroTyp'') = JStr ''FORALDRAPENNING''
                  \<and> \<not> truthy (getTextContent (own (JObj f) ''FranvaroProcentFP''))
                  \<and> \<not> truthy (getTextContent (own (JObj f) ''FranvaroTimmarFP'')))
         \<and> (''Either FranvaroProcentTFP or FranvaroTimmarTFP is required for TILLFALLIG_FORALDRAPENNING in Franvarouppgift 1''
                \<in> set (errors r)
              \<longleftrightarrow> getTextContent (own (JObj f) ''FranvaroTyp'')
                    = JStr ''TILLFALLIG_FORALDRAPENNING''
                  \<and> \<not> truthy (getTextContent (own (JObj f) ''FranvaroProcentTFP''))
                  \<and> \<not> truthy (getTextContent (own (JObj f) ''FranvaroTimmarTFP'')))"
    if f: "own ?root ''Franvarouppgift'' = JObj f"
  proof -
    from f have n: "franvaroListErrors ?root = forEachFrom franvaroErrors 0 [JObj f]"
      by (simp add: franvaroListErrors_def)
    with fs have "franvaroErrors (JObj f) 0 = Inr fs"
      by (simp only: forEachFrom_single)
    note rules = franvaro_rules [OF this]
    note mid = notin_swap [OF blanketterErrors_other [OF bs]]
    from head mid have
      "''AgRegistreradId is missing in Franvarouppgift 1'' \<in> set (errors r)
         \<longleftrightarrow> ''AgRegistreradId is missing in Franvarouppgift 1'' \<in> set fs"
      "''BetalningsmottagarId is missing in Franvarouppgift 1'' \<in> set (errors r)
         \<longleftrightarrow> ''BetalningsmottagarId is missing in Franvarouppgift 1'' \<in> set fs"
      "''BetalningsmottagarId must be 12 digits in Franvarouppgift 1'' \<in> set (errors r)
         \<longleftrightarrow> ''BetalningsmottagarId must be 12 digits in Franvarouppgift 1'' \<in> set fs"
      "''FranvaroDatum is missing in Franvarouppgift 1'' \<in> set (errors r)
         \<longleftrightarrow> ''FranvaroDatum is missing in Franvarouppgift 1'' \<in> set fs"
      "''FranvaroSpecifikationsnummer is missing in Franvarouppgift 1'' \<in> set (errors r)
         \<longleftrightarrow> ''FranvaroSpecifikationsnummer is missing in Franvarouppgift 1'' \<in> set fs"
      "''FranvaroTyp is missing in Franvarouppgift 1'' \<in> set (errors r)
         \<longleftrightarrow> ''FranvaroTyp is missing in Franvarouppgift 1'' \<in> set fs"
      "''FranvaroTyp must be either TILLFALLIG_FORALDRAPENNING or FORALDRAPENNING in Franvarouppgift 1''
           \<in> set (errors r)
         \<longleftrightarrow> ''FranvaroTyp must be either TILLFALLIG_FORALDRAPENNING or FORALDRAPENNING in Franvarouppgift 1''
               \<in> set fs"
      "''RedovisningsPeriod is missing in Franvarouppgift 1'' \<in> set (errors r)
         \<longleftrightarrow> ''RedovisningsPeriod is missing in Franvarouppgift 1'' \<in> set fs"
      "''Either FranvaroProcentFP or FranvaroTimmarFP is required for FORALDRAPENNING in Franvarouppgift 1''
           \<in> set (errors r)
         \<longleftrightarrow> ''Either FranvaroProcentFP or FranvaroTimmarFP is required for FORALDRAPENNING in Franvarouppgift 1''
               \<in> set fs"
      "''Either FranvaroProcentTFP or FranvaroTimmarTFP is required for TILLFALLIG_FORALDRAPENNING in Franvarouppgift 1''
           \<in> set (errors r)
         \<longleftrightarrow> ''Either FranvaroProcentTFP or FranvaroTimmarTFP is required for TILLFALLIG_FORALDRAPENNING in Franvarouppgift 1''
               \<in> set fs"
      unfolding r by simp_all
    with n rules show ?thesis by (simp only:)
  qed
  from run form absence show ?thesis by (intro conjI impI) (simp_all only:)
qed

text \<open>
  A document with one form and one absence record. The form has its case information,
  with a case owner of ten digits and a period, and no content block; the record has a
  recipient of eight digits and an unknown type. The rules they break report as number
  1, the rules they keep do not.
\<close>

theorem single_occurrence_checked_witness:
  "validateXML
     (\<lambda>s. Inr (JObj [(''Skatteverket'', JObj
        [(''Blankett'', JObj
            [(''Arendeinformation'', JObj
                [(''Arendeagare'', JObj [(''_text'', JStr ''1655602699'')]),
                 (''Period'', JObj [(''_text'', JStr ''202402'')])])]),
         (''Franvarouppgift'', JObj
            [(''BetalningsmottagarId'', JObj [(''_text'', JStr ''19800101'')]),
             (''FranvaroTyp'', JObj [(''_text'', JStr ''SJUK'')])])])]))
     ''<Skatteverket><Blankett><Arendeinformation><Arendeagare>1655602699</Arendeagare><Period>202402</Period></Arendeinformation></Blankett><Franvarouppgift><BetalningsmottagarId>19800101</BetalningsmottagarId><FranvaroTyp>SJUK</FranvaroTyp></Franvarouppgift></Skatteverket>''
   = Inr \<lparr>valid = False,
          errors =
            [''Required XML namespaces are missing'',
             ''Required element Avsandare is missing'',
             ''Arendeagare must be 12 digits in Blankett 1'',
             ''Blankettinnehall is missing in Blankett 1'',
             ''AgRegistreradId is missing in Franvarouppgift 1'',
             ''BetalningsmottagarId must be 12 digits in Franvarouppgift 1'',
             ''FranvaroDatum is missing in Franvarouppgift 1'',
             ''FranvaroSpecifikationsnummer is missing in Franvarouppgift 1'',
             ''FranvaroTyp must be either TILLFALLIG_FORALDRAPENNING or FORALDRAPENNING in Franvarouppgift 1'',
             ''RedovisningsPeriod is missing in Franvarouppgift 1'']\<rparr>
   \<and> blanketterErrors
       (own (JObj [(''Skatteverket'', JObj
        [(''Blankett'', JObj
            [(''Arendeinformation'', JObj
                [(''Arendeagare'', JObj [(''_text'', JStr ''1655602699'')]),
                 (''Period'', JObj [(''_text'', JStr ''202402'')])])]),
         (''Franvarouppgift'', JObj
            [(''BetalningsmottagarId'', JObj [(''_text'', JStr ''19800101'')]),
             (''FranvaroTyp'', JObj [(''_text'', JStr ''SJUK'')])])])]) ''Skatteverket'')
     = forEachFrom blankettErrors 0
         [JObj
            [(''Arendeinformation'', JObj
                [(''Arendeagare'', JObj [(''_text'', JStr ''1655602699'')]),
                 (''Period'', JObj [(''_text'', JStr ''202402'')])])]]
   \<and> franvaroListErrors
       (own (JObj [(''Skatteverket'', JObj
        [(''Blankett'', JObj
            [(''Arendeinformation'', JObj
                [(''Arendeagare'', JObj [(''_text'', JStr ''1655602699'')]),
                 (''Period'', JObj [(''_text'', JStr ''202402'')])])]),
         (''Franvarouppgift'', JObj
            [(''BetalningsmottagarId'', JObj [(''_text'', JStr ''19800101'')]),
             (''FranvaroTyp'', JObj [(''_text'', JStr ''SJUK'')])])])]) ''Skatteverket'')
     = forEachFrom franvaroErrors 0
         [JObj
            [(''BetalningsmottagarId'', JObj [(''_text'', JStr ''19800101'')]),
             (''FranvaroTyp'', JObj [(''_text'', JStr ''SJUK'')])]]"
proof -
  let ?b = "[(''Arendeinformation'', JObj
                [(''Arendeagare'', JObj [(''_text'', JStr ''1655602699'')]),
                 (''Period'', JObj [(''_text'', JStr ''202402'')])])]"
  let ?f = "[(''BetalningsmottagarId'', JObj [(''_text'', JStr ''19800101'')]),
             (''FranvaroTyp'', JObj [(''_text'', JStr ''SJUK'')])]"
  let ?parsed = "JObj [(''Skatteverket'', JObj [(''Blankett'', JObj ?b), (''Franvarouppgift'', JObj ?f)])]"
  let ?x = "''<Skatteverket><Blankett><Arendeinformation><Arendeagare>1655602699</Arendeagare><Period>202402</Period></Arendeinformation></Blankett><Franvarouppgift><BetalningsmottagarId>19800101</BetalningsmottagarId><FranvaroTyp>SJUK</FranvaroTyp></Franvarouppgift></Skatteverket>''"
  let ?r = "\<lparr>valid = False,
          errors =
            [''Required XML namespaces are missing'',
             ''Required element Avsandare is missing'',
             ''Arendeagare must be 12 digits in Blankett 1'',
             ''Blankettinnehall is missing in Blankett 1'',
             ''AgRegistreradId is missing in Franvarouppgift 1'',
             ''BetalningsmottagarId must be 12 digits in Franvarouppgift 1'',
             ''FranvaroDatum is missing in Franvarouppgift 1'',
             ''FranvaroSpecifikationsnummer is missing in Franvarouppgift 1'',
             ''FranvaroTyp must be either TILLFALLIG_FORALDRAPENNING or FORALDRAPENNING in Franvarouppgift 1'',
             ''RedovisningsPeriod is missing in Franvarouppgift 1'']\<rparr>"
  have 1: "?x \<noteq> []" by simp
  have 2: "(\<lambda>s. Inr ?parsed) ?x = Inr ?parsed" by simp
  have 3: "truthy ?parsed" by simp
  have 4: "truthy (own ?parsed ''Skatteverket'')" by simp
  have 5: "validateParsed ?parsed = Inr ?r"
    by (simp add: validateParsed_def namespaceErrors_def avsandareErrors_def
          blanketterErrors_def franvaroListErrors_def blankettErrors_def franvaroErrors_def
          checkText_def digits12_def missing_def getTextContent_def decimal_one)
  have 6: "own (own ?parsed ''Skatteverket'') ''Blankett'' = JObj ?b" by simp
  have 7: "own (own ?parsed ''Skatteverket'') ''Franvarouppgift'' = JObj ?f" by simp
  note t = single_occurrence_checked [OF 1 2 3 4 5, of ?b ?f]
  from t have run: "validateXML (\<lambda>s. Inr ?parsed) ?x = Inr ?r"
    by (rule conjunct1)
  from t [THEN conjunct2, THEN conjunct1, THEN mp, OF 6]
  have form: "blanketterErrors (own ?parsed ''Skatteverket'')
                = forEachFrom blankettErrors 0 [JObj ?b]"
    by (rule conjunct1)
  from t [THEN conjunct2, THEN conjunct2, THEN mp, OF 7]
  have absence: "franvaroListErrors (own ?parsed ''Skatteverket'')
                = forEachFrom franvaroErrors 0 [JObj ?f]"
    by (rule conjunct1)
  from run form absence show ?thesis by (intro conjI)
qed

text \<open>
  The claim as the specification words it, for every document with one form, does not
  hold. Take a document whose parsed tree has, as the text of the sender's organisation
  number, an object with an own property \<^verbatim>\<open>toString\<close> that is no function (what the
  parser builds from a child element of that name). The test of the twelve digits
  converts it to a string, which throws; the \<^verbatim>\<open>catch\<close> block answers with its one
  message, and the one form of the document, which has no case information and no
  content block, is never looked at: neither of the two messages that its rules give
  is in the result.
\<close>

theorem single_occurrence_cut_short_counterexample:
  "validateXML
     (\<lambda>s. Inr (JObj [(''Skatteverket'', JObj
        [(''Avsandare'', JObj
            [(''Organisationsnummer'', JObj [(''_text'', JObj [(''toString'', JObj [])])])]),
         (''Blankett'', JObj [])])]))
     ''<Skatteverket><Avsandare><Organisationsnummer><_text><toString/></_text></Organisationsnummer></Avsandare><Blankett/></Skatteverket>''
   = Inr \<lparr>valid = False,
          errors = [''Failed to validate XML: Cannot convert object to primitive value'']\<rparr>
   \<and> blankettErrors (JObj []) 0
       = Inr [''Arendeinformation is missing in Blankett 1'',
              ''Blankettinnehall is missing in Blankett 1'']"
  by (simp add: validateXML_def parseXML_def validateParsed_def namespaceErrors_def
        avsandareErrors_def checkText_def digits12_def missing_def getTextContent_def
        cannotConvert_def blankettErrors_def decimal_one)

section \<open>The next specification number\<close>

lemma digit_cases: "d < 10 \<Longrightarrow> d = 0 \<or> d = 1 \<or> d = 2 \<or> d = 3 \<or> d = 4 \<or> d = 5 \<or> d = 6 \<or> d = 7 \<or> d = 8 \<or> d = (9::nat)"
  by arith

lemma isDigit_digit: "isDigit (digit d)"
proof -
  have "d mod 10 < 10" by simp
  from digit_cases [OF this] show ?thesis
    by (auto simp add: digit_def isDigit_def)
qed

lemma digitVal_digit: "digitVal (digit d) = d mod 10"
proof -
  have "d mod 10 < 10" by simp
  from digit_cases [OF this] show ?thesis
    by (auto simp add: digit_def digitVal_def)
qed

lemma not_white_digit: "\<not> isWhiteSpace (digit d)"
proof -
  have "d mod 10 < 10" by simp
  from digit_cases [OF this] show ?thesis
    by (auto simp add: digit_def isWhiteSpace_def)
qed

lemma not_sign_digit: "digit d \<noteq> CHR ''-'' \<and> digit d \<noteq> CHR ''+''"
proof -
  have "d mod 10 < 10" by simp
  from digit_cases [OF this] show ?thesis
    by (auto simp add: digit_def)
qed

lemma decimal_digits: "list_all isDigit (decimal n)"
  by (induction n rule: decimal.induct) (subst decimal.simps, simp add: isDigit_digit)

lemma decimal_nonempty: "decimal n \<noteq> []"
  by (subst decimal.simps) simp

lemma hd_decimal: "\<exists>d. hd (decimal n) = digit d"
proof (induction n rule: decimal.induct)
  case (1 n)
  show ?case
  proof (cases "n < 10")
    case True
    then show ?thesis by (subst decimal.simps) auto
  next
    case False
    with 1 obtain d where "hd (decimal (n div 10)) = digit d" by auto
    with False show ?thesis
      by (subst decimal.simps) (auto simp add: decimal_nonempty)
  qed
qed

lemma natOfDigits_snoc: "natOfDigits (xs @ [c]) = 10 * natOfDigits xs + digitVal c"
  by (simp add: natOfDigits_def)

lemma natOfDigits_decimal: "natOfDigits (decimal n) = n"
proof (induction n rule: decimal.induct)
  case (1 n)
  show ?case
  proof (cases "n < 10")
    case True
    then show ?thesis
      by (subst decimal.simps) (simp add: natOfDigits_def digitVal_digit)
  next
    case False
    with 1 have "natOfDigits (decimal (n div 10)) = n div 10" by simp
    with False show ?thesis
      by (subst decimal.simps) (simp add: natOfDigits_snoc digitVal_digit)
  qed
qed

lemma parseInt_decimal: "parseInt (decimal n) = Some (int n)"
proof -
  obtain d where d: "hd (decimal n) = digit d" using hd_decimal by blast
  obtain c cs where cs: "decimal n = c # cs" using decimal_nonempty by (cases "decimal n") auto
  with d have c: "c = digit d" by simp
  have dw: "dropWhile isWhiteSpace (decimal n) = decimal n"
    using cs c by (simp add: not_white_digit)
  have tw: "takeWhile isDigit (decimal n) = decimal n"
    using decimal_digits [of n] by (simp add: list_all_iff)
  show ?thesis
    using not_sign_digit [of d] d decimal_nonempty [of n]
    by (simp add: parseInt_def Let_def dw tw natOfDigits_decimal)
qed

lemma parseInt_showInt: "parseInt (showInt k) = Some k"
proof (cases "k < 0")
  case False
  then show ?thesis by (simp add: showInt_def parseInt_decimal)
next
  case True
  have tw: "takeWhile isDigit (decimal (nat (- k))) = decimal (nat (- k))"
    using decimal_digits [of "nat (- k)"] by (simp add: list_all_iff)
  have "\<not> isWhiteSpace CHR ''-''" by (simp add: isWhiteSpace_def)
  with True show ?thesis
    by (simp add: showInt_def parseInt_def Let_def tw natOfDigits_decimal decimal_nonempty)
qed

lemma mapE_specNr:
  "list_all2 (\<lambda>f n. specNr f = Inr (Some n)) fs ns \<Longrightarrow> mapE specNr fs = Inr (map Some ns)"
  by (induction fs ns rule: list_all2_induct) simp_all

lemma fold_max2: "fold (\<lambda>x acc. max2 acc x) (map Some ns) (Some n) = Some (fold max ns n)"
  by (induction ns arbitrary: n) (simp_all add: max.commute)

lemma maxSpecNr_Some: "maxSpecNr (map Some ns) = Some (if ns = [] then 0 else Max (set ns))"
proof (cases ns)
  case Nil
  then show ?thesis by simp
next
  case (Cons n ms)
  have "Max (set (n # ms)) = fold max ms n" by (rule Max.set_eq_fold)
  with Cons show ?thesis by (simp add: fold_max2)
qed

lemma own_newFranvaro_nr:
  "own (newFranvaro a fr nr) ''FranvaroSpecifikationsnummer'' = xmlElement (JStr nr) ''822''"
  by (simp add: newFranvaro_def)

lemma specNr_newFranvaro: "specNr (newFranvaro a fr (showInt k)) = Inr (Some k)"
proof -
  have "showInt k \<noteq> []"
    by (simp add: showInt_def decimal_nonempty)
  then show ?thesis
    unfolding specNr_def own_newFranvaro_nr
    by (simp add: newFranvaro_def xmlElement_def getOpt_def parseInt_showInt)
qed

text \<open>
  Where the numbers can be read. For a case of the list whose absence records carry the
  specification numbers \<open>ns\<close> (each record's number text parses to an integer, of a
  magnitude that a JavaScript number holds exactly), \<^verbatim>\<open>handleAddFranvaro\<close> appends one
  record, and the text of its specification number is the decimal numeral of one more
  than the greatest of \<open>ns\<close>, or of 1 when the case has no absence record; read back
  by the same \<^verbatim>\<open>parseInt\<close>, the new record's number is that integer.
\<close>

lemma handleAddFranvaro_next_number:
  assumes "arendeIndex < length arendeList"
    and "list_all2 (\<lambda>f n. specNr f = Inr (Some n)) (franvaroList (arendeList ! arendeIndex)) ns"
    and "\<forall>n\<in>set ns. \<bar>n\<bar> < 2 ^ 53"
  shows "\<exists>new. handleAddFranvaro lastAddedDates arendeList arendeIndex franvaro
                 = Inr ((arendeIndex, franvaroList (arendeList ! arendeIndex) @ [new]),
                        lastAddedDates(arendeIndex \<mapsto> franvaroDatum franvaro))
          \<and> own (own new ''FranvaroSpecifikationsnummer'') ''_text''
              = JStr (showInt ((if ns = [] then 0 else Max (set ns)) + 1))
          \<and> specNr new = Inr (Some ((if ns = [] then 0 else Max (set ns)) + 1))"
proof -
  let ?m = "if ns = [] then 0 else Max (set ns)"
  let ?new = "newFranvaro (arendeList ! arendeIndex) franvaro (showInt (?m + 1))"
  have "handleAddFranvaro lastAddedDates arendeList arendeIndex franvaro
          = Inr ((arendeIndex, franvaroList (arendeList ! arendeIndex) @ [?new]),
                 lastAddedDates(arendeIndex \<mapsto> franvaroDatum franvaro))"
    using assms(1) mapE_specNr [OF assms(2)]
    by (simp add: handleAddFranvaro_def Let_def maxSpecNr_Some del: maxSpecNr.simps)
  moreover have "own (own ?new ''FranvaroSpecifikationsnummer'') ''_text''
                   = JStr (showInt (?m + 1))"
    unfolding own_newFranvaro_nr by (simp add: xmlElement_def)
  moreover have "specNr ?new = Inr (Some (?m + 1))"
    by (rule specNr_newFranvaro)
  ultimately show ?thesis by blast
qed

text \<open>
  A case whose two absence records carry the numbers 1 and 2 gets a record numbered 3;
  a case without absence records gets a record numbered 1.
\<close>

lemma handleAddFranvaro_next_number_example:
  "(\<exists>new. handleAddFranvaro Map.empty
       [\<lparr>index = 0, arendeAgare = JStr ''165560269986'', period = JStr ''202401'',
         betalningsmottagarId = JStr ''198202252386'', blankettInnehall = JObj [],
         franvaroList =
           [JObj [(''FranvaroSpecifikationsnummer'', JObj [(''_text'', JStr ''1'')])],
            JObj [(''FranvaroSpecifikationsnummer'', JObj [(''_text'', JStr ''2'')])]]\<rparr>]
       0
       \<lparr>formBetalningsmottagarId = ''198202252386'', franvaroDatum = ''2024-01-12'',
        franvaroTyp = ''TILLFALLIG_FORALDRAPENNING'', franvaroProcentFP = [],
        franvaroTimmarFP = [], franvaroProcentTFP = [], franvaroTimmarTFP = ''8.00''\<rparr>
      = Inr ((0, [JObj [(''FranvaroSpecifikationsnummer'', JObj [(''_text'', JStr ''1'')])],
                  JObj [(''FranvaroSpecifikationsnummer'', JObj [(''_text'', JStr ''2'')])],
                  new]),
             [0 \<mapsto> ''2024-01-12''])
      \<and> own (own new ''FranvaroSpecifikationsnummer'') ''_text'' = JStr ''3'')
   \<and> (\<exists>new. handleAddFranvaro Map.empty
       [\<lparr>index = 0, arendeAgare = JStr ''165560269986'', period = JStr ''202401'',
         betalningsmottagarId = JStr ''198202252386'', blankettInnehall = JObj [],
         franvaroList = []\<rparr>]
       0
       \<lparr>formBetalningsmottagarId = ''198202252386'', franvaroDatum = ''2024-01-12'',
        franvaroTyp = ''TILLFALLIG_FORALDRAPENNING'', franvaroProcentFP = [],
        franvaroTimmarFP = [], franvaroProcentTFP = [], franvaroTimmarTFP = ''8.00''\<rparr>
      = Inr ((0, [new]), [0 \<mapsto> ''2024-01-12''])
      \<and> own (own new ''FranvaroSpecifikationsnummer'') ''_text'' = JStr ''1'')"
  using handleAddFranvaro_next_number
    [of 0 "[\<lparr>index = 0, arendeAgare = JStr ''165560269986'', period = JStr ''202401'',
         betalningsmottagarId = JStr ''198202252386'', blankettInnehall = JObj [],
         franvaroList =
           [JObj [(''FranvaroSpecifikationsnummer'', JObj [(''_text'', JStr ''1'')])],
            JObj [(''FranvaroSpecifikationsnummer'', JObj [(''_text'', JStr ''2'')])]]\<rparr>]"
        "[1, 2]" Map.empty
        "\<lparr>formBetalningsmottagarId = ''198202252386'', franvaroDatum = ''2024-01-12'',
        franvaroTyp = ''TILLFALLIG_FORALDRAPENNING'', franvaroProcentFP = [],
        franvaroTimmarFP = [], franvaroProcentTFP = [], franvaroTimmarTFP = ''8.00''\<rparr>"]
    handleAddFranvaro_next_number
    [of 0 "[\<lparr>index = 0, arendeAgare = JStr ''165560269986'', period = JStr ''202401'',
         betalningsmottagarId = JStr ''198202252386'', blankettInnehall = JObj [],
         franvaroList = []\<rparr>]"
        "[]" Map.empty
        "\<lparr>formBetalningsmottagarId = ''198202252386'', franvaroDatum = ''2024-01-12'',
        franvaroTyp = ''TILLFALLIG_FORALDRAPENNING'', franvaroProcentFP = [],
        franvaroTimmarFP = [], franvaroProcentTFP = [], franvaroTimmarTFP = ''8.00''\<rparr>"]
  by (simp add: specNr_def getOpt_def parseInt_def isWhiteSpace_def isDigit_def
        natOfDigits_def digitVal_def showInt_def decimal.simps digit_def) blast

text \<open>
  Claim C4 at a case whose two absence records carry the number texts \<^verbatim>\<open>1\<close> and
  \<^verbatim>\<open>A2\<close>, both of which the validator accepts (it only asks for a text). The number
  of the second record reads as \<^verbatim>\<open>NaN\<close>, so does the maximum, and the new record gets
  the text \<^verbatim>\<open>NaN\<close>, not one more than the greatest number. Adding once more to the
  list so extended gives a second record with the text \<^verbatim>\<open>NaN\<close>: the numbers of the
  case are not unique, which the maximum is computed to ensure.
\<close>

theorem addAbsence_unreadable_number:
  "handleAddFranvaro Map.empty
     [\<lparr>index = 0, arendeAgare = JStr ''165560269986'', period = JStr ''202401'',
       betalningsmottagarId = JStr ''198202252386'', blankettInnehall = JObj [],
       franvaroList =
         [JObj [(''FranvaroSpecifikationsnummer'', JObj [(''_text'', JStr ''1'')])],
          JObj [(''FranvaroSpecifikationsnummer'', JObj [(''_text'', JStr ''A2'')])]]\<rparr>]
     0
     \<lparr>formBetalningsmottagarId = ''198202252386'', franvaroDatum = ''2024-01-12'',
      franvaroTyp = ''TILLFALLIG_FORALDRAPENNING'', franvaroProcentFP = [],
      franvaroTimmarFP = [], franvaroProcentTFP = [], franvaroTimmarTFP = ''8.00''\<rparr>
   = Inr ((0, [JObj [(''FranvaroSpecifikationsnummer'', JObj [(''_text'', JStr ''1'')])],
               JObj [(''FranvaroSpecifikationsnummer'', JObj [(''_text'', JStr ''A2'')])],
               JObj [(''AgRegistreradId'', xmlElement (JStr ''165560269986'') ''201''),
                     (''BetalningsmottagarId'', xmlElement (JStr ''198202252386'') ''215''),
                     (''FranvaroDatum'', xmlElement (JStr ''2024-01-12'') ''821''),
                     (''FranvaroSpecifikationsnummer'', xmlElement (JStr ''NaN'') ''822''),
                     (''FranvaroTyp'', xmlElement (JStr ''TILLFALLIG_FORALDRAPENNING'') ''823''),
                     (''RedovisningsPeriod'', xmlElement (JStr ''202401'') ''006''),
                     (''FranvaroTimmarTFP'', xmlElement (JStr ''8.00'') ''825'')]]),
          [0 \<mapsto> ''2024-01-12''])
   \<and> handleAddFranvaro [0 \<mapsto> ''2024-01-12'']
     [\<lparr>index = 0, arendeAgare = JStr ''165560269986'', period = JStr ''202401'',
       betalningsmottagarId = JStr ''198202252386'', blankettInnehall = JObj [],
       franvaroList =
         [JObj [(''FranvaroSpecifikationsnummer'', JObj [(''_text'', JStr ''1'')])],
          JObj [(''FranvaroSpecifikationsnummer'', JObj [(''_text'', JStr ''A2'')])],
          JObj [(''AgRegistreradId'', xmlElement (JStr ''165560269986'') ''201''),
                (''BetalningsmottagarId'', xmlElement (JStr ''198202252386'') ''215''),
                (''FranvaroDatum'', xmlElement (JStr ''2024-01-12'') ''821''),
                (''FranvaroSpecifikationsnummer'', xmlElement (JStr ''NaN'') ''822''),
                (''FranvaroTyp'', xmlElement (JStr ''TILLFALLIG_FORALDRAPENNING'') ''823''),
                (''RedovisningsPeriod'', xmlElement (JStr ''202401'') ''006''),
                (''FranvaroTimmarTFP'', xmlElement (JStr ''8.00'') ''825'')]]\<rparr>]
     0
     \<lparr>formBetalningsmottagarId = ''198202252386'', franvaroDatum = ''2024-01-15'',
      franvaroTyp = ''TILLFALLIG_FORALDRAPENNING'', franvaroProcentFP = [],
      franvaroTimmarFP = [], franvaroProcentTFP = [], franvaroTimmarTFP = ''4.00''\<rparr>
   = Inr ((0, [JObj [(''FranvaroSpecifikationsnummer'', JObj [(''_text'', JStr ''1'')])],
               JObj [(''FranvaroSpecifikationsnummer'', JObj [(''_text'', JStr ''A2'')])],
               JObj [(''AgRegistreradId'', xmlElement (JStr ''165560269986'') ''201''),
                     (''BetalningsmottagarId'', xmlElement (JStr ''198202252386'') ''215''),
                     (''FranvaroDatum'', xmlElement (JStr ''2024-01-12'') ''821''),
                     (''FranvaroSpecifikationsnummer'', xmlElement (JStr ''NaN'') ''822''),
                     (''FranvaroTyp'', xmlElement (JStr ''TILLFALLIG_FORALDRAPENNING'') ''823''),
                     (''RedovisningsPeriod'', xmlElement (JStr ''202401'') ''006''),
                     (''FranvaroTimmarTFP'', xmlElement (JStr ''8.00'') ''825'')],
               JObj [(''AgRegistreradId'', xmlElement (JStr ''165560269986'') ''201''),
                     (''BetalningsmottagarId'', xmlElement (JStr ''198202252386'') ''215''),
                     (''FranvaroDatum'', xmlElement (JStr ''2024-01-15'') ''821''),
                     (''FranvaroSpecifikationsnummer'', xmlElement (JStr ''NaN'') ''822''),
                     (''FranvaroTyp'', xmlElement (JStr ''TILLFALLIG_FORALDRAPENNING'') ''823''),
                     (''RedovisningsPeriod'', xmlElement (JStr ''202401'') ''006''),
                     (''FranvaroTimmarTFP'', xmlElement (JStr ''4.00'') ''825'')]]),
          [0 \<mapsto> ''2024-01-15''])"
  by (simp add: handleAddFranvaro_def specNr_def getOpt_def parseInt_def isWhiteSpace_def
        isDigit_def natOfDigits_def digitVal_def newFranvaro_def xmlElement_def)

section \<open>Extracting the cases\<close>

lemma strictEq_eq: "strictEq a b \<Longrightarrow> a = b"
  by (induction a b rule: strictEq.induct) simp_all

lemma filterE_Inr:
  "filterE f xs = Inr ys \<Longrightarrow> ys = filter (\<lambda>x. f x = Inr True) xs"
proof (induction xs arbitrary: ys)
  case Nil
  then show ?case by simp
next
  case (Cons x xs)
  from Cons.prems obtain b zs where b: "f x = Inr b" and zs: "filterE f xs = Inr zs"
    and ys: "ys = (if b then x # zs else zs)"
    by (auto split: sum.splits)
  from Cons.IH [OF zs] b ys show ?case by auto
qed

lemma filterE_total:
  "\<forall>x\<in>set xs. \<exists>b. f x = Inr b \<Longrightarrow> filterE f xs = Inr (filter (\<lambda>x. f x = Inr True) xs)"
proof (induction xs)
  case Nil
  show ?case by simp
next
  case (Cons x xs)
  then obtain b where b: "f x = Inr b" by auto
  from Cons have "filterE f xs = Inr (filter (\<lambda>x. f x = Inr True) xs)" by simp
  with b show ?case by auto
qed

lemma mapIndexed_Inr:
  "mapIndexed f i xs = Inr ys \<Longrightarrow> list_all2 (\<lambda>y x. \<exists>j. f x j = Inr y) ys xs"
proof (induction xs arbitrary: i ys)
  case Nil
  then show ?case by simp
next
  case (Cons x xs)
  from Cons.prems obtain y zs where y: "f x i = Inr y" and zs: "mapIndexed f (Suc i) xs = Inr zs"
    and ys: "ys = y # zs"
    by (auto split: sum.splits)
  from Cons.IH [OF zs] y ys show ?case by auto
qed

lemma mapIndexed_total:
  "\<forall>x\<in>set xs. \<forall>j. \<exists>y. f x j = Inr y \<Longrightarrow> \<exists>ys. mapIndexed f i xs = Inr ys"
proof (induction xs arbitrary: i)
  case Nil
  show ?case by simp
next
  case (Cons x xs)
  then obtain y where y: "f x i = Inr y" by (meson list.set_intros(1))
  from Cons obtain zs where "mapIndexed f (Suc i) xs = Inr zs" by (meson list.set_intros(2))
  with y show ?case by simp
qed

lemma sameKey_True:
  "sameKey bmId per f = Inr True \<longleftrightarrow>
     \<not> nullish f \<and> strictEq (getTextContent (own f ''BetalningsmottagarId'')) bmId
     \<and> strictEq (getTextContent (own f ''RedovisningsPeriod'')) per"
  by (simp add: sameKey_def)

lemma existingFranvaroOf_Inr:
  assumes "existingFranvaroOf parsed bmId per = Inr fs" and "f \<in> set fs"
  shows "strictEq (getTextContent (own f ''BetalningsmottagarId'')) bmId
         \<and> strictEq (getTextContent (own f ''RedovisningsPeriod'')) per"
proof (cases "truthy (getOpt (own parsed ''Skatteverket'') ''Franvarouppgift'')")
  case False
  with assms show ?thesis by (simp add: existingFranvaroOf_def Let_def)
next
  case True
  show ?thesis
  proof (cases "getOpt (own parsed ''Skatteverket'') ''Franvarouppgift''")
    case (JArr xs)
    with assms(1) have "filterE (sameKey bmId per) xs = Inr fs"
      by (simp add: existingFranvaroOf_def Let_def)
    from filterE_Inr [OF this] assms(2) show ?thesis
      by (simp add: sameKey_True)
  qed (use True assms in \<open>auto simp add: existingFranvaroOf_def Let_def split: if_splits\<close>)
qed

lemma existingFranvaroOf_total:
  assumes "\<forall>f\<in>set (if truthy (getOpt (own parsed ''Skatteverket'') ''Franvarouppgift'')
                      then asArray (getOpt (own parsed ''Skatteverket'') ''Franvarouppgift'')
                      else []). \<not> nullish f"
  shows "existingFranvaroOf parsed bmId per
    = Inr (filter (\<lambda>f. strictEq (getTextContent (own f ''BetalningsmottagarId'')) bmId
                       \<and> strictEq (getTextContent (own f ''RedovisningsPeriod'')) per)
             (if truthy (getOpt (own parsed ''Skatteverket'') ''Franvarouppgift'')
              then asArray (getOpt (own parsed ''Skatteverket'') ''Franvarouppgift'')
              else []))"
proof (cases "truthy (getOpt (own parsed ''Skatteverket'') ''Franvarouppgift'')")
  case False
  then show ?thesis by (simp add: existingFranvaroOf_def Let_def)
next
  case True
  show ?thesis
  proof (cases "getOpt (own parsed ''Skatteverket'') ''Franvarouppgift''")
    case (JArr xs)
    with assms have n: "\<forall>f\<in>set xs. \<not> nullish f" by simp
    then have "\<forall>f\<in>set xs. \<exists>b. sameKey bmId per f = Inr b"
      by (simp add: sameKey_def)
    from filterE_total [OF this]
    have "filterE (sameKey bmId per) xs
            = Inr (filter (\<lambda>f. sameKey bmId per f = Inr True) xs)" .
    moreover have "filter (\<lambda>f. sameKey bmId per f = Inr True) xs
        = filter (\<lambda>f. strictEq (getTextContent (own f ''BetalningsmottagarId'')) bmId
                       \<and> strictEq (getTextContent (own f ''RedovisningsPeriod'')) per) xs"
      using n by (intro filter_cong) (auto simp add: sameKey_True)
    ultimately show ?thesis
      using JArr by (simp add: existingFranvaroOf_def Let_def)
  qed (use True in \<open>auto simp add: existingFranvaroOf_def Let_def\<close>)
qed

lemma mapIndexed_rel:
  "\<forall>x\<in>set xs. \<forall>j. \<exists>y. f x j = Inr y \<and> R y x
   \<Longrightarrow> \<exists>ys. mapIndexed f i xs = Inr ys \<and> list_all2 R ys xs"
proof (induction xs arbitrary: i)
  case Nil
  show ?case by simp
next
  case (Cons x xs)
  then obtain y where y: "f x i = Inr y" "R y x" by (meson list.set_intros(1))
  from Cons obtain zs where "mapIndexed f (Suc i) xs = Inr zs" "list_all2 R zs xs"
    by (meson list.set_intros(2))
  with y show ?case by simp
qed

lemma hasIU_total: "\<not> nullish b \<Longrightarrow> \<exists>r. hasIU b = Inr r"
  by (simp add: hasIU_def)

lemma arendeOf_total:
  assumes "\<not> nullish (own b ''Arendeinformation'')"
    and "\<forall>f\<in>set (if truthy (getOpt (own parsed ''Skatteverket'') ''Franvarouppgift'')
                      then asArray (getOpt (own parsed ''Skatteverket'') ''Franvarouppgift'')
                      else []). \<not> nullish f"
  shows "arendeOf parsed b j
    = Inr \<lparr>index = j,
           arendeAgare = getTextContent (own (own b ''Arendeinformation'') ''Arendeagare''),
           period = getTextContent (own (own b ''Arendeinformation'') ''Period''),
           betalningsmottagarId =
             getTextContent
               (getOpt (getOpt (own (own (own b ''Blankettinnehall'') ''IU'')
                                    ''BetalningsmottagareIUGROUP'')
                               ''BetalningsmottagareIDChoice'')
                       ''BetalningsmottagarId''),
           blankettInnehall = own b ''Blankettinnehall'',
           franvaroList =
             filter (\<lambda>f. strictEq (getTextContent (own f ''BetalningsmottagarId''))
                            (getTextContent
                               (getOpt (getOpt (own (own (own b ''Blankettinnehall'') ''IU'')
                                                    ''BetalningsmottagareIUGROUP'')
                                               ''BetalningsmottagareIDChoice'')
                                       ''BetalningsmottagarId''))
                       \<and> strictEq (getTextContent (own f ''RedovisningsPeriod''))
                            (getTextContent (own (own b ''Arendeinformation'') ''Period'')))
               (if truthy (getOpt (own parsed ''Skatteverket'') ''Franvarouppgift'')
                then asArray (getOpt (own parsed ''Skatteverket'') ''Franvarouppgift'')
                else [])\<rparr>"
  unfolding arendeOf_def Let_def existingFranvaroOf_total [OF assms(2)]
  using assms(1) by simp

text \<open>
  Where every form with an IU element has its \<^verbatim>\<open>Arendeinformation\<close> and no element of
  the two sequences is \<^verbatim>\<open>null\<close>, \<^verbatim>\<open>extractArendeInformation\<close> stores one case for each
  form whose \<^verbatim>\<open>Blankettinnehall\<close> is there and holds an IU element, in the order of the
  forms, and for no other form. Each case carries the content block, the owner, the
  period and the recipient id of its form, and its absence list is the document's
  top-level absence records, in their order, whose recipient id and period both equal
  (\<^verbatim>\<open>===\<close>) the case's.
\<close>

lemma extractArendeInformation_selection:
  assumes "truthy (parsedXml st)"
    and "\<forall>b\<in>set (allBlanketter (parsedXml st)).
           \<not> nullish b \<and> (truthy (own b ''Blankettinnehall'') \<and> truthy (own (own b ''Blankettinnehall'') ''IU'')
               \<longrightarrow> \<not> nullish (own b ''Arendeinformation''))"
    and "\<forall>f\<in>set (if truthy (getOpt (own (parsedXml st) ''Skatteverket'') ''Franvarouppgift'')
                      then asArray (getOpt (own (parsedXml st) ''Skatteverket'') ''Franvarouppgift'')
                      else []). \<not> nullish f"
  shows "\<exists>cases.
           extractArendeInformation st = Inr (st\<lparr>arendeInfoList := cases\<rparr>)
           \<and> list_all2
               (\<lambda>c b.
                  blankettInnehall c = own b ''Blankettinnehall''
                  \<and> arendeAgare c = getTextContent (own (own b ''Arendeinformation'') ''Arendeagare'')
                  \<and> period c = getTextContent (own (own b ''Arendeinformation'') ''Period'')
                  \<and> betalningsmottagarId c
                      = getTextContent
                          (getOpt (getOpt (own (own (own b ''Blankettinnehall'') ''IU'')
                                               ''BetalningsmottagareIUGROUP'')
                                          ''BetalningsmottagareIDChoice'')
                                  ''BetalningsmottagarId'')
                  \<and> franvaroList c
                      = filter (\<lambda>f. strictEq (getTextContent (own f ''BetalningsmottagarId''))
                                              (betalningsmottagarId c)
                                     \<and> strictEq (getTextContent (own f ''RedovisningsPeriod''))
                                                (period c))
                          (if truthy (getOpt (own (parsedXml st) ''Skatteverket'') ''Franvarouppgift'')
                           then asArray (getOpt (own (parsedXml st) ''Skatteverket'')
                                                ''Franvarouppgift'')
                           else []))
               cases
               (filter (\<lambda>b. truthy (own b ''Blankettinnehall'') \<and> truthy (own (own b ''Blankettinnehall'') ''IU'')) (allBlanketter (parsedXml st)))"
proof -
  let ?p = "parsedXml st"
  let ?iu = "filter (\<lambda>b. truthy (own b ''Blankettinnehall'') \<and> truthy (own (own b ''Blankettinnehall'') ''IU'')) (allBlanketter ?p)"
  let ?R = "\<lambda>c b.
                  blankettInnehall c = own b ''Blankettinnehall''
                  \<and> arendeAgare c = getTextContent (own (own b ''Arendeinformation'') ''Arendeagare'')
                  \<and> period c = getTextContent (own (own b ''Arendeinformation'') ''Period'')
                  \<and> betalningsmottagarId c
                      = getTextContent
                          (getOpt (getOpt (own (own (own b ''Blankettinnehall'') ''IU'')
                                               ''BetalningsmottagareIUGROUP'')
                                          ''BetalningsmottagareIDChoice'')
                                  ''BetalningsmottagarId'')
                  \<and> franvaroList c
                      = filter (\<lambda>f. strictEq (getTextContent (own f ''BetalningsmottagarId''))
                                              (betalningsmottagarId c)
                                     \<and> strictEq (getTextContent (own f ''RedovisningsPeriod''))
                                                (period c))
                          (if truthy (getOpt (own ?p ''Skatteverket'') ''Franvarouppgift'')
                           then asArray (getOpt (own ?p ''Skatteverket'') ''Franvarouppgift'')
                           else [])"
  from assms(2) have "\<forall>b\<in>set (allBlanketter ?p). \<exists>r. hasIU b = Inr r"
    by (simp add: hasIU_total)
  from filterE_total [OF this]
  have "filterE hasIU (allBlanketter ?p)
          = Inr (filter (\<lambda>b. hasIU b = Inr True) (allBlanketter ?p))" .
  moreover have "filter (\<lambda>b. hasIU b = Inr True) (allBlanketter ?p) = ?iu"
    by (rule filter_cong) (use assms(2) in \<open>simp_all add: hasIU_def\<close>)
  ultimately have sel: "filterE hasIU (allBlanketter ?p) = Inr ?iu" by simp
  have "\<forall>b\<in>set ?iu. \<forall>j. \<exists>c. arendeOf ?p b j = Inr c \<and> ?R c b"
  proof (intro ballI allI)
    fix b j
    assume "b \<in> set ?iu"
    with assms(2) have "\<not> nullish (own b ''Arendeinformation'')" by simp
    from arendeOf_total [OF this assms(3)] show "\<exists>c. arendeOf ?p b j = Inr c \<and> ?R c b"
      by simp
  qed
  from mapIndexed_rel [OF this, of 0]
  obtain cases where "mapIndexed (arendeOf ?p) 0 ?iu = Inr cases" "list_all2 ?R cases ?iu"
    by blast
  with sel assms(1) show ?thesis
    by (auto simp add: extractArendeInformation_def arendeInfos_def)
qed

text \<open>
  A document with a form that has an IU element and one that has not, and three absence
  records: one with the recipient and the period of the first form, one with another
  period, one with another recipient. One case comes out, with the first record only.
\<close>

lemma extractArendeInformation_selection_example:
  "\<exists>cases.
     extractArendeInformation
       \<lparr>xmlContent = JStr ''<Skatteverket><Blankett><Arendeinformation><Arendeagare>165560269986</Arendeagare><Period>202401</Period></Arendeinformation><Blankettinnehall><IU><BetalningsmottagareIUGROUP><BetalningsmottagareIDChoice><BetalningsmottagarId>198202252386</BetalningsmottagarId></BetalningsmottagareIDChoice></BetalningsmottagareIUGROUP></IU></Blankettinnehall></Blankett><Blankett><Arendeinformation><Arendeagare>165560269986</Arendeagare><Period>202401</Period></Arendeinformation><Blankettinnehall><HU></HU></Blankettinnehall></Blankett><Franvarouppgift><BetalningsmottagarId>198202252386</BetalningsmottagarId><RedovisningsPeriod>202401</RedovisningsPeriod></Franvarouppgift><Franvarouppgift><BetalningsmottagarId>198202252386</BetalningsmottagarId><RedovisningsPeriod>202402</RedovisningsPeriod></Franvarouppgift><Franvarouppgift><BetalningsmottagarId>199001011234</BetalningsmottagarId><RedovisningsPeriod>202401</RedovisningsPeriod></Franvarouppgift></Skatteverket>'',
           parsedXml = JObj [(''Skatteverket'', JObj [(''Blankett'', JArr [JObj [(''Arendeinformation'',
             JObj [(''Arendeagare'', JObj [(''_text'', JStr ''165560269986'')]), (''Period'',
             JObj [(''_text'', JStr ''202401'')])]), (''Blankettinnehall'', JObj [(''IU'',
             JObj [(''BetalningsmottagareIUGROUP'', JObj [(''BetalningsmottagareIDChoice'',
             JObj [(''BetalningsmottagarId'', JObj [(''_text'',
             JStr ''198202252386'')])])])])])], JObj [(''Arendeinformation'',
             JObj [(''Arendeagare'', JObj [(''_text'', JStr ''165560269986'')]), (''Period'',
             JObj [(''_text'', JStr ''202401'')])]), (''Blankettinnehall'', JObj [(''HU'',
             JObj [])])]]), (''Franvarouppgift'', JArr [JObj [(''BetalningsmottagarId'',
             JObj [(''_text'', JStr ''198202252386'')]), (''RedovisningsPeriod'',
             JObj [(''_text'', JStr ''202401'')])], JObj [(''BetalningsmottagarId'',
             JObj [(''_text'', JStr ''198202252386'')]), (''RedovisningsPeriod'',
             JObj [(''_text'', JStr ''202402'')])], JObj [(''BetalningsmottagarId'',
             JObj [(''_text'', JStr ''199001011234'')]), (''RedovisningsPeriod'',
             JObj [(''_text'', JStr ''202401'')])]])])],
           arendeInfoList = [], validationErrors = [], isValid = False\<rparr>
     = Inr (\<lparr>xmlContent = JStr ''<Skatteverket><Blankett><Arendeinformation><Arendeagare>165560269986</Arendeagare><Period>202401</Period></Arendeinformation><Blankettinnehall><IU><BetalningsmottagareIUGROUP><BetalningsmottagareIDChoice><BetalningsmottagarId>198202252386</BetalningsmottagarId></BetalningsmottagareIDChoice></BetalningsmottagareIUGROUP></IU></Blankettinnehall></Blankett><Blankett><Arendeinformation><Arendeagare>165560269986</Arendeagare><Period>202401</Period></Arendeinformation><Blankettinnehall><HU></HU></Blankettinnehall></Blankett><Franvarouppgift><BetalningsmottagarId>198202252386</BetalningsmottagarId><RedovisningsPeriod>202401</RedovisningsPeriod></Franvarouppgift><Franvarouppgift><BetalningsmottagarId>198202252386</BetalningsmottagarId><RedovisningsPeriod>202402</RedovisningsPeriod></Franvarouppgift><Franvarouppgift><BetalningsmottagarId>199001011234</BetalningsmottagarId><RedovisningsPeriod>202401</RedovisningsPeriod></Franvarouppgift></Skatteverket>'',
           parsedXml = JObj [(''Skatteverket'', JObj [(''Blankett'', JArr [JObj [(''Arendeinformation'',
             JObj [(''Arendeagare'', JObj [(''_text'', JStr ''165560269986'')]), (''Period'',
             JObj [(''_text'', JStr ''202401'')])]), (''Blankettinnehall'', JObj [(''IU'',
             JObj [(''BetalningsmottagareIUGROUP'', JObj [(''BetalningsmottagareIDChoice'',
             JObj [(''BetalningsmottagarId'', JObj [(''_text'',
             JStr ''198202252386'')])])])])])], JObj [(''Arendeinformation'',
             JObj [(''Arendeagare'', JObj [(''_text'', JStr ''165560269986'')]), (''Period'',
             JObj [(''_text'', JStr ''202401'')])]), (''Blankettinnehall'', JObj [(''HU'',
             JObj [])])]]), (''Franvarouppgift'', JArr [JObj [(''BetalningsmottagarId'',
             JObj [(''_text'', JStr ''198202252386'')]), (''RedovisningsPeriod'',
             JObj [(''_text'', JStr ''202401'')])], JObj [(''BetalningsmottagarId'',
             JObj [(''_text'', JStr ''198202252386'')]), (''RedovisningsPeriod'',
             JObj [(''_text'', JStr ''202402'')])], JObj [(''BetalningsmottagarId'',
             JObj [(''_text'', JStr ''199001011234'')]), (''RedovisningsPeriod'',
             JObj [(''_text'', JStr ''202401'')])]])])],
           arendeInfoList = [], validationErrors = [], isValid = False\<rparr>
            \<lparr>arendeInfoList := cases\<rparr>)
     \<and> map blankettInnehall cases = [JObj [(''IU'', JObj [(''BetalningsmottagareIUGROUP'',
      JObj [(''BetalningsmottagareIDChoice'', JObj [(''BetalningsmottagarId'',
      JObj [(''_text'', JStr ''198202252386'')])])])])]]
     \<and> map franvaroList cases = [[JObj [(''BetalningsmottagarId'', JObj [(''_text'', JStr ''198202252386'')]), (''RedovisningsPeriod'', JObj [(''_text'', JStr ''202401'')])]]]"
proof -
  let ?st = "\<lparr>xmlContent = JStr ''<Skatteverket><Blankett><Arendeinformation><Arendeagare>165560269986</Arendeagare><Period>202401</Period></Arendeinformation><Blankettinnehall><IU><BetalningsmottagareIUGROUP><BetalningsmottagareIDChoice><BetalningsmottagarId>198202252386</BetalningsmottagarId></BetalningsmottagareIDChoice></BetalningsmottagareIUGROUP></IU></Blankettinnehall></Blankett><Blankett><Arendeinformation><Arendeagare>165560269986</Arendeagare><Period>202401</Period></Arendeinformation><Blankettinnehall><HU></HU></Blankettinnehall></Blankett><Franvarouppgift><BetalningsmottagarId>198202252386</BetalningsmottagarId><RedovisningsPeriod>202401</RedovisningsPeriod></Franvarouppgift><Franvarouppgift><BetalningsmottagarId>198202252386</BetalningsmottagarId><RedovisningsPeriod>202402</RedovisningsPeriod></Franvarouppgift><Franvarouppgift><BetalningsmottagarId>199001011234</BetalningsmottagarId><RedovisningsPeriod>202401</RedovisningsPeriod></Franvarouppgift></Skatteverket>'',
           parsedXml = JObj [(''Skatteverket'', JObj [(''Blankett'', JArr [JObj [(''Arendeinformation'',
             JObj [(''Arendeagare'', JObj [(''_text'', JStr ''165560269986'')]), (''Period'',
             JObj [(''_text'', JStr ''202401'')])]), (''Blankettinnehall'', JObj [(''IU'',
             JObj [(''BetalningsmottagareIUGROUP'', JObj [(''BetalningsmottagareIDChoice'',
             JObj [(''BetalningsmottagarId'', JObj [(''_text'',
             JStr ''198202252386'')])])])])])], JObj [(''Arendeinformation'',
             JObj [(''Arendeagare'', JObj [(''_text'', JStr ''165560269986'')]), (''Period'',
             JObj [(''_text'', JStr ''202401'')])]), (''Blankettinnehall'', JObj [(''HU'',
             JObj [])])]]), (''Franvarouppgift'', JArr [JObj [(''BetalningsmottagarId'',
             JObj [(''_text'', JStr ''198202252386'')]), (''RedovisningsPeriod'',
             JObj [(''_text'', JStr ''202401'')])], JObj [(''BetalningsmottagarId'',
             JObj [(''_text'', JStr ''198202252386'')]), (''RedovisningsPeriod'',
             JObj [(''_text'', JStr ''202402'')])], JObj [(''BetalningsmottagarId'',
             JObj [(''_text'', JStr ''199001011234'')]), (''RedovisningsPeriod'',
             JObj [(''_text'', JStr ''202401'')])]])])],
           arendeInfoList = [], validationErrors = [], isValid = False\<rparr>"
  have all: "allBlanketter (parsedXml ?st) = [JObj [(''Arendeinformation'', JObj [(''Arendeagare'', JObj [(''_text'', JStr ''165560269986'')]), (''Period'', JObj [(''_text'', JStr ''202401'')])]), (''Blankettinnehall'', JObj [(''IU'', JObj [(''BetalningsmottagareIUGROUP'', JObj [(''BetalningsmottagareIDChoice'', JObj [(''BetalningsmottagarId'', JObj [(''_text'', JStr ''198202252386'')])])])])])], JObj [(''Arendeinformation'', JObj [(''Arendeagare'', JObj [(''_text'', JStr ''165560269986'')]), (''Period'', JObj [(''_text'', JStr ''202401'')])]), (''Blankettinnehall'', JObj [(''HU'', JObj [])])]]"
    by (simp add: allBlanketter_def getOpt_def)
  have iu: "hasIU (JObj [(''Arendeinformation'', JObj [(''Arendeagare'', JObj [(''_text'', JStr ''165560269986'')]), (''Period'', JObj [(''_text'', JStr ''202401'')])]), (''Blankettinnehall'', JObj [(''IU'', JObj [(''BetalningsmottagareIUGROUP'', JObj [(''BetalningsmottagareIDChoice'', JObj [(''BetalningsmottagarId'', JObj [(''_text'', JStr ''198202252386'')])])])])])]) = Inr True" "hasIU (JObj [(''Arendeinformation'', JObj [(''Arendeagare'', JObj [(''_text'', JStr ''165560269986'')]), (''Period'', JObj [(''_text'', JStr ''202401'')])]), (''Blankettinnehall'', JObj [(''HU'', JObj [])])]) = Inr False"
    by (simp_all add: hasIU_def)
  have fr: "getOpt (own (parsedXml ?st) ''Skatteverket'') ''Franvarouppgift'' = JArr [JObj [(''BetalningsmottagarId'', JObj [(''_text'', JStr ''198202252386'')]), (''RedovisningsPeriod'', JObj [(''_text'', JStr ''202401'')])], JObj [(''BetalningsmottagarId'', JObj [(''_text'', JStr ''198202252386'')]), (''RedovisningsPeriod'', JObj [(''_text'', JStr ''202402'')])], JObj [(''BetalningsmottagarId'', JObj [(''_text'', JStr ''199001011234'')]), (''RedovisningsPeriod'', JObj [(''_text'', JStr ''202401'')])]]"
    by (simp add: getOpt_def)
  have h1: "truthy (parsedXml ?st)" by simp
  have h2: "\<forall>b\<in>set (allBlanketter (parsedXml ?st)).
           \<not> nullish b \<and> (truthy (own b ''Blankettinnehall'') \<and> truthy (own (own b ''Blankettinnehall'') ''IU'')
               \<longrightarrow> \<not> nullish (own b ''Arendeinformation''))"
    unfolding all by simp
  have h3: "\<forall>f\<in>set (if truthy (getOpt (own (parsedXml ?st) ''Skatteverket'') ''Franvarouppgift'')
                      then asArray (getOpt (own (parsedXml ?st) ''Skatteverket'') ''Franvarouppgift'')
                      else []). \<not> nullish f"
    unfolding fr by simp
  have sel: "filter (\<lambda>b. truthy (own b ''Blankettinnehall'') \<and> truthy (own (own b ''Blankettinnehall'') ''IU'')) (allBlanketter (parsedXml ?st)) = [JObj [(''Arendeinformation'', JObj [(''Arendeagare'', JObj [(''_text'', JStr ''165560269986'')]), (''Period'', JObj [(''_text'', JStr ''202401'')])]), (''Blankettinnehall'', JObj [(''IU'', JObj [(''BetalningsmottagareIUGROUP'', JObj [(''BetalningsmottagareIDChoice'', JObj [(''BetalningsmottagarId'', JObj [(''_text'', JStr ''198202252386'')])])])])])]]"
    unfolding all by (simp add: iu)
  from extractArendeInformation_selection [OF h1 h2 h3] obtain cases
    where ex: "extractArendeInformation ?st = Inr (?st\<lparr>arendeInfoList := cases\<rparr>)"
      and rel: "list_all2
               (\<lambda>c b.
                  blankettInnehall c = own b ''Blankettinnehall''
                  \<and> arendeAgare c = getTextContent (own (own b ''Arendeinformation'') ''Arendeagare'')
                  \<and> period c = getTextContent (own (own b ''Arendeinformation'') ''Period'')
                  \<and> betalningsmottagarId c
                      = getTextContent
                          (getOpt (getOpt (own (own (own b ''Blankettinnehall'') ''IU'')
                                               ''BetalningsmottagareIUGROUP'')
                                          ''BetalningsmottagareIDChoice'')
                                  ''BetalningsmottagarId'')
                  \<and> franvaroList c
                      = filter (\<lambda>f. strictEq (getTextContent (own f ''BetalningsmottagarId''))
                                              (betalningsmottagarId c)
                                     \<and> strictEq (getTextContent (own f ''RedovisningsPeriod''))
                                                (period c))
                          (if truthy (getOpt (own (parsedXml ?st) ''Skatteverket'') ''Franvarouppgift'')
                           then asArray (getOpt (own (parsedXml ?st) ''Skatteverket'')
                                                ''Franvarouppgift'')
                           else []))
               cases
               (filter (\<lambda>b. truthy (own b ''Blankettinnehall'') \<and> truthy (own (own b ''Blankettinnehall'') ''IU'')) (allBlanketter (parsedXml ?st)))"
    by (elim exE conjE)
  from rel obtain c where c: "cases = [c]"
    and bi: "blankettInnehall c = JObj [(''IU'', JObj [(''BetalningsmottagareIUGROUP'', JObj [(''BetalningsmottagareIDChoice'', JObj [(''BetalningsmottagarId'', JObj [(''_text'', JStr ''198202252386'')])])])])]"
    and fl: "franvaroList c = [JObj [(''BetalningsmottagarId'', JObj [(''_text'', JStr ''198202252386'')]), (''RedovisningsPeriod'', JObj [(''_text'', JStr ''202401'')])]]"
    unfolding sel fr
    by (auto simp add: list_all2_Cons2 getTextContent_def getOpt_def)
  show ?thesis
    by (rule exI [of _ cases]) (simp add: ex c bi fl)
qed

text \<open>
  Claim C5 at a document with two forms. The first has a content block with an IU
  element and no \<^verbatim>\<open>Arendeinformation\<close> (the validator reports such a form as an error of
  the document, it does not refuse to read it); the second is complete. By the claim
  both forms are included in the result. The program reads \<^verbatim>\<open>arendeInfo.Arendeagare\<close> of
  the first form without a guard, under the comment that the text is read safely and
  beside the guarded reads of the recipient id: it throws a \<^verbatim>\<open>TypeError\<close>, the state is
  not written, and no form is in any result.
\<close>

theorem extractCases_throws_without_case_information:
  "extractArendeInformation
     \<lparr>xmlContent = JStr ''<Skatteverket><Blankett><Blankettinnehall><IU><BetalningsmottagareIUGROUP><BetalningsmottagareIDChoice><BetalningsmottagarId>198202252386</BetalningsmottagarId></BetalningsmottagareIDChoice></BetalningsmottagareIUGROUP></IU></Blankettinnehall></Blankett><Blankett><Arendeinformation><Arendeagare>165560269986</Arendeagare><Period>202401</Period></Arendeinformation><Blankettinnehall><IU><BetalningsmottagareIUGROUP><BetalningsmottagareIDChoice><BetalningsmottagarId>199001011234</BetalningsmottagarId></BetalningsmottagareIDChoice></BetalningsmottagareIUGROUP></IU></Blankettinnehall></Blankett></Skatteverket>'',
      parsedXml = JObj [(''Skatteverket'', JObj [(''Blankett'', JArr
        [JObj [(''Blankettinnehall'', JObj [(''IU'', JObj [(''BetalningsmottagareIUGROUP'',
           JObj [(''BetalningsmottagareIDChoice'', JObj [(''BetalningsmottagarId'',
           JObj [(''_text'', JStr ''198202252386'')])])])])])],
         JObj [(''Arendeinformation'', JObj [(''Arendeagare'',
           JObj [(''_text'', JStr ''165560269986'')]), (''Period'',
           JObj [(''_text'', JStr ''202401'')])]),
           (''Blankettinnehall'', JObj [(''IU'', JObj [(''BetalningsmottagareIUGROUP'',
           JObj [(''BetalningsmottagareIDChoice'', JObj [(''BetalningsmottagarId'',
           JObj [(''_text'', JStr ''199001011234'')])])])])])]])])],
      arendeInfoList = [], validationErrors = [], isValid = False\<rparr>
   = Inl (cannotRead JUndefined ''Arendeagare'')
   \<and> message (cannotRead JUndefined ''Arendeagare'')
       = ''Cannot read properties of undefined (reading '' @ quote @ ''Arendeagare'' @ quote @ '')''"
  by (simp add: extractArendeInformation_def arendeInfos_def allBlanketter_def hasIU_def
        arendeOf_def getOpt_def cannotRead_def quote_def)

lemma arendeOf_franvaroList:
  assumes "arendeOf parsed b j = Inr c"
  shows "existingFranvaroOf parsed (betalningsmottagarId c) (period c) = Inr (franvaroList c)"
  using assms
  by (auto simp add: arendeOf_def Let_def split: if_splits sum.splits)

lemma arendeInfos_attached:
  assumes "arendeInfos parsed = Inr cases" and "c \<in> set cases" and "f \<in> set (franvaroList c)"
  shows "getTextContent (own f ''BetalningsmottagarId'') = betalningsmottagarId c
         \<and> getTextContent (own f ''RedovisningsPeriod'') = period c"
proof -
  from assms(1) obtain iu where "mapIndexed (arendeOf parsed) 0 iu = Inr cases"
    by (auto simp add: arendeInfos_def split: sum.splits)
  from mapIndexed_Inr [OF this] assms(2)
  obtain b j where "arendeOf parsed b j = Inr c"
    by (auto simp add: list_all2_conv_all_nth in_set_conv_nth)
  from existingFranvaroOf_Inr [OF arendeOf_franvaroList [OF this] assms(3)]
  show ?thesis by (simp add: strictEq_eq)
qed

text \<open>
  Claim C2, as the program has it. Two cases that \<^verbatim>\<open>extractArendeInformation\<close> stores
  and that differ in recipient id or in period have no absence record in common. (Two
  cases with the same recipient id and the same period each get every record with that
  key.)
\<close>

theorem cases_disjoint_by_key:
  assumes "truthy (parsedXml st)"
    and "extractArendeInformation st = Inr st'"
    and "c1 \<in> set (arendeInfoList st')" and "c2 \<in> set (arendeInfoList st')"
    and "(betalningsmottagarId c1, period c1) \<noteq> (betalningsmottagarId c2, period c2)"
  shows "set (franvaroList c1) \<inter> set (franvaroList c2) = {}"
proof -
  from assms(1,2) have infos: "arendeInfos (parsedXml st) = Inr (arendeInfoList st')"
    by (auto simp add: extractArendeInformation_def split: sum.splits)
  show ?thesis
  proof (rule ccontr)
    assume "set (franvaroList c1) \<inter> set (franvaroList c2) \<noteq> {}"
    then obtain f where f: "f \<in> set (franvaroList c1)" "f \<in> set (franvaroList c2)"
      by blast
    from arendeInfos_attached [OF infos assms(3) f(1)]
      arendeInfos_attached [OF infos assms(4) f(2)] assms(5)
    show False by simp
  qed
qed

text \<open>
  A document with two forms for different recipients and one absence record for each:
  the two cases have their own record.
\<close>

theorem cases_disjoint_by_key_witness:
  "extractArendeInformation
     \<lparr>xmlContent = JStr ''<Skatteverket><Blankett><Arendeinformation><Arendeagare>165560269986</Arendeagare><Period>202401</Period></Arendeinformation><Blankettinnehall><IU><BetalningsmottagareIUGROUP><BetalningsmottagareIDChoice><BetalningsmottagarId>198202252386</BetalningsmottagarId></BetalningsmottagareIDChoice></BetalningsmottagareIUGROUP></IU></Blankettinnehall></Blankett><Blankett><Arendeinformation><Arendeagare>165560269986</Arendeagare><Period>202401</Period></Arendeinformation><Blankettinnehall><IU><BetalningsmottagareIUGROUP><BetalningsmottagareIDChoice><BetalningsmottagarId>199001011234</BetalningsmottagarId></BetalningsmottagareIDChoice></BetalningsmottagareIUGROUP></IU></Blankettinnehall></Blankett><Franvarouppgift><BetalningsmottagarId>198202252386</BetalningsmottagarId><FranvaroDatum>2024-01-10</FranvaroDatum><RedovisningsPeriod>202401</RedovisningsPeriod></Franvarouppgift><Franvarouppgift><BetalningsmottagarId>199001011234</BetalningsmottagarId><FranvaroDatum>2024-01-11</FranvaroDatum><RedovisningsPeriod>202401</RedovisningsPeriod></Franvarouppgift></Skatteverket>'',
         parsedXml = JObj [(''Skatteverket'', JObj [(''Blankett'', JArr [JObj [(''Arendeinformation'',
           JObj [(''Arendeagare'', JObj [(''_text'', JStr ''165560269986'')]), (''Period'',
           JObj [(''_text'', JStr ''202401'')])]), (''Blankettinnehall'', JObj [(''IU'',
           JObj [(''BetalningsmottagareIUGROUP'', JObj [(''BetalningsmottagareIDChoice'',
           JObj [(''BetalningsmottagarId'', JObj [(''_text'',
           JStr ''198202252386'')])])])])])], JObj [(''Arendeinformation'',
           JObj [(''Arendeagare'', JObj [(''_text'', JStr ''165560269986'')]), (''Period'',
           JObj [(''_text'', JStr ''202401'')])]), (''Blankettinnehall'', JObj [(''IU'',
           JObj [(''BetalningsmottagareIUGROUP'', JObj [(''BetalningsmottagareIDChoice'',
           JObj [(''BetalningsmottagarId'', JObj [(''_text'',
           JStr ''199001011234'')])])])])])]]), (''Franvarouppgift'',
           JArr [JObj [(''BetalningsmottagarId'', JObj [(''_text'', JStr ''198202252386'')]),
           (''FranvaroDatum'', JObj [(''_text'', JStr ''2024-01-10'')]),
           (''RedovisningsPeriod'', JObj [(''_text'', JStr ''202401'')])],
           JObj [(''BetalningsmottagarId'', JObj [(''_text'', JStr ''199001011234'')]),
           (''FranvaroDatum'', JObj [(''_text'', JStr ''2024-01-11'')]),
           (''RedovisningsPeriod'', JObj [(''_text'', JStr ''202401'')])]])])],
         arendeInfoList = [], validationErrors = [], isValid = False\<rparr>
   = Inr
     \<lparr>xmlContent = JStr ''<Skatteverket><Blankett><Arendeinformation><Arendeagare>165560269986</Arendeagare><Period>202401</Period></Arendeinformation><Blankettinnehall><IU><BetalningsmottagareIUGROUP><BetalningsmottagareIDChoice><BetalningsmottagarId>198202252386</BetalningsmottagarId></BetalningsmottagareIDChoice></BetalningsmottagareIUGROUP></IU></Blankettinnehall></Blankett><Blankett><Arendeinformation><Arendeagare>165560269986</Arendeagare><Period>202401</Period></Arendeinformation><Blankettinnehall><IU><BetalningsmottagareIUGROUP><BetalningsmottagareIDChoice><BetalningsmottagarId>199001011234</BetalningsmottagarId></BetalningsmottagareIDChoice></BetalningsmottagareIUGROUP></IU></Blankettinnehall></Blankett><Franvarouppgift><BetalningsmottagarId>198202252386</BetalningsmottagarId><FranvaroDatum>2024-01-10</FranvaroDatum><RedovisningsPeriod>202401</RedovisningsPeriod></Franvarouppgift><Franvarouppgift><BetalningsmottagarId>199001011234</BetalningsmottagarId><FranvaroDatum>2024-01-11</FranvaroDatum><RedovisningsPeriod>202401</RedovisningsPeriod></Franvarouppgift></Skatteverket>'',
         parsedXml = JObj [(''Skatteverket'', JObj [(''Blankett'', JArr [JObj [(''Arendeinformation'',
           JObj [(''Arendeagare'', JObj [(''_text'', JStr ''165560269986'')]), (''Period'',
           JObj [(''_text'', JStr ''202401'')])]), (''Blankettinnehall'', JObj [(''IU'',
           JObj [(''BetalningsmottagareIUGROUP'', JObj [(''BetalningsmottagareIDChoice'',
           JObj [(''BetalningsmottagarId'', JObj [(''_text'',
           JStr ''198202252386'')])])])])])], JObj [(''Arendeinformation'',
           JObj [(''Arendeagare'', JObj [(''_text'', JStr ''165560269986'')]), (''Period'',
           JObj [(''_text'', JStr ''202401'')])]), (''Blankettinnehall'', JObj [(''IU'',
           JObj [(''BetalningsmottagareIUGROUP'', JObj [(''BetalningsmottagareIDChoice'',
           JObj [(''BetalningsmottagarId'', JObj [(''_text'',
           JStr ''199001011234'')])])])])])]]), (''Franvarouppgift'',
           JArr [JObj [(''BetalningsmottagarId'', JObj [(''_text'', JStr ''198202252386'')]),
           (''FranvaroDatum'', JObj [(''_text'', JStr ''2024-01-10'')]),
           (''RedovisningsPeriod'', JObj [(''_text'', JStr ''202401'')])],
           JObj [(''BetalningsmottagarId'', JObj [(''_text'', JStr ''199001011234'')]),
           (''FranvaroDatum'', JObj [(''_text'', JStr ''2024-01-11'')]),
           (''RedovisningsPeriod'', JObj [(''_text'', JStr ''202401'')])]])])],
         arendeInfoList = [\<lparr>index = 0, arendeAgare = JStr ''165560269986'', period = JStr ''202401'',
              betalningsmottagarId = JStr ''198202252386'',
              blankettInnehall = JObj [(''IU'', JObj [(''BetalningsmottagareIUGROUP'',
                JObj [(''BetalningsmottagareIDChoice'', JObj [(''BetalningsmottagarId'',
                JObj [(''_text'', JStr ''198202252386'')])])])])],
              franvaroList = [JObj [(''BetalningsmottagarId'', JObj [(''_text'', JStr ''198202252386'')]),
                (''FranvaroDatum'', JObj [(''_text'', JStr ''2024-01-10'')]),
                (''RedovisningsPeriod'', JObj [(''_text'', JStr ''202401'')])]]\<rparr>,
            \<lparr>index = 1, arendeAgare = JStr ''165560269986'', period = JStr ''202401'',
              betalningsmottagarId = JStr ''199001011234'',
              blankettInnehall = JObj [(''IU'', JObj [(''BetalningsmottagareIUGROUP'',
                JObj [(''BetalningsmottagareIDChoice'', JObj [(''BetalningsmottagarId'',
                JObj [(''_text'', JStr ''199001011234'')])])])])],
              franvaroList = [JObj [(''BetalningsmottagarId'', JObj [(''_text'', JStr ''199001011234'')]),
                (''FranvaroDatum'', JObj [(''_text'', JStr ''2024-01-11'')]),
                (''RedovisningsPeriod'', JObj [(''_text'', JStr ''202401'')])]]\<rparr>], validationErrors = [], isValid = False\<rparr>
   \<and> set [JObj [(''BetalningsmottagarId'', JObj [(''_text'', JStr ''198202252386'')]), (''FranvaroDatum'', JObj [(''_text'', JStr ''2024-01-10'')]), (''RedovisningsPeriod'', JObj [(''_text'', JStr ''202401'')])]] \<inter> set [JObj [(''BetalningsmottagarId'', JObj [(''_text'', JStr ''199001011234'')]), (''FranvaroDatum'', JObj [(''_text'', JStr ''2024-01-11'')]), (''RedovisningsPeriod'', JObj [(''_text'', JStr ''202401'')])]] = {}"
proof -
  let ?st = "\<lparr>xmlContent = JStr ''<Skatteverket><Blankett><Arendeinformation><Arendeagare>165560269986</Arendeagare><Period>202401</Period></Arendeinformation><Blankettinnehall><IU><BetalningsmottagareIUGROUP><BetalningsmottagareIDChoice><BetalningsmottagarId>198202252386</BetalningsmottagarId></BetalningsmottagareIDChoice></BetalningsmottagareIUGROUP></IU></Blankettinnehall></Blankett><Blankett><Arendeinformation><Arendeagare>165560269986</Arendeagare><Period>202401</Period></Arendeinformation><Blankettinnehall><IU><BetalningsmottagareIUGROUP><BetalningsmottagareIDChoice><BetalningsmottagarId>199001011234</BetalningsmottagarId></BetalningsmottagareIDChoice></BetalningsmottagareIUGROUP></IU></Blankettinnehall></Blankett><Franvarouppgift><BetalningsmottagarId>198202252386</BetalningsmottagarId><FranvaroDatum>2024-01-10</FranvaroDatum><RedovisningsPeriod>202401</RedovisningsPeriod></Franvarouppgift><Franvarouppgift><BetalningsmottagarId>199001011234</BetalningsmottagarId><FranvaroDatum>2024-01-11</FranvaroDatum><RedovisningsPeriod>202401</RedovisningsPeriod></Franvarouppgift></Skatteverket>'',
         parsedXml = JObj [(''Skatteverket'', JObj [(''Blankett'', JArr [JObj [(''Arendeinformation'',
           JObj [(''Arendeagare'', JObj [(''_text'', JStr ''165560269986'')]), (''Period'',
           JObj [(''_text'', JStr ''202401'')])]), (''Blankettinnehall'', JObj [(''IU'',
           JObj [(''BetalningsmottagareIUGROUP'', JObj [(''BetalningsmottagareIDChoice'',
           JObj [(''BetalningsmottagarId'', JObj [(''_text'',
           JStr ''198202252386'')])])])])])], JObj [(''Arendeinformation'',
           JObj [(''Arendeagare'', JObj [(''_text'', JStr ''165560269986'')]), (''Period'',
           JObj [(''_text'', JStr ''202401'')])]), (''Blankettinnehall'', JObj [(''IU'',
           JObj [(''BetalningsmottagareIUGROUP'', JObj [(''BetalningsmottagareIDChoice'',
           JObj [(''BetalningsmottagarId'', JObj [(''_text'',
           JStr ''199001011234'')])])])])])]]), (''Franvarouppgift'',
           JArr [JObj [(''BetalningsmottagarId'', JObj [(''_text'', JStr ''198202252386'')]),
           (''FranvaroDatum'', JObj [(''_text'', JStr ''2024-01-10'')]),
           (''RedovisningsPeriod'', JObj [(''_text'', JStr ''202401'')])],
           JObj [(''BetalningsmottagarId'', JObj [(''_text'', JStr ''199001011234'')]),
           (''FranvaroDatum'', JObj [(''_text'', JStr ''2024-01-11'')]),
           (''RedovisningsPeriod'', JObj [(''_text'', JStr ''202401'')])]])])],
         arendeInfoList = [], validationErrors = [], isValid = False\<rparr>"
  let ?st' = "\<lparr>xmlContent = JStr ''<Skatteverket><Blankett><Arendeinformation><Arendeagare>165560269986</Arendeagare><Period>202401</Period></Arendeinformation><Blankettinnehall><IU><BetalningsmottagareIUGROUP><BetalningsmottagareIDChoice><BetalningsmottagarId>198202252386</BetalningsmottagarId></BetalningsmottagareIDChoice></BetalningsmottagareIUGROUP></IU></Blankettinnehall></Blankett><Blankett><Arendeinformation><Arendeagare>165560269986</Arendeagare><Period>202401</Period></Arendeinformation><Blankettinnehall><IU><BetalningsmottagareIUGROUP><BetalningsmottagareIDChoice><BetalningsmottagarId>199001011234</BetalningsmottagarId></BetalningsmottagareIDChoice></BetalningsmottagareIUGROUP></IU></Blankettinnehall></Blankett><Franvarouppgift><BetalningsmottagarId>198202252386</BetalningsmottagarId><FranvaroDatum>2024-01-10</FranvaroDatum><RedovisningsPeriod>202401</RedovisningsPeriod></Franvarouppgift><Franvarouppgift><BetalningsmottagarId>199001011234</BetalningsmottagarId><FranvaroDatum>2024-01-11</FranvaroDatum><RedovisningsPeriod>202401</RedovisningsPeriod></Franvarouppgift></Skatteverket>'',
         parsedXml = JObj [(''Skatteverket'', JObj [(''Blankett'', JArr [JObj [(''Arendeinformation'',
           JObj [(''Arendeagare'', JObj [(''_text'', JStr ''165560269986'')]), (''Period'',
           JObj [(''_text'', JStr ''202401'')])]), (''Blankettinnehall'', JObj [(''IU'',
           JObj [(''BetalningsmottagareIUGROUP'', JObj [(''BetalningsmottagareIDChoice'',
           JObj [(''BetalningsmottagarId'', JObj [(''_text'',
           JStr ''198202252386'')])])])])])], JObj [(''Arendeinformation'',
           JObj [(''Arendeagare'', JObj [(''_text'', JStr ''165560269986'')]), (''Period'',
           JObj [(''_text'', JStr ''202401'')])]), (''Blankettinnehall'', JObj [(''IU'',
           JObj [(''BetalningsmottagareIUGROUP'', JObj [(''BetalningsmottagareIDChoice'',
           JObj [(''BetalningsmottagarId'', JObj [(''_text'',
           JStr ''199001011234'')])])])])])]]), (''Franvarouppgift'',
           JArr [JObj [(''BetalningsmottagarId'', JObj [(''_text'', JStr ''198202252386'')]),
           (''FranvaroDatum'', JObj [(''_text'', JStr ''2024-01-10'')]),
           (''RedovisningsPeriod'', JObj [(''_text'', JStr ''202401'')])],
           JObj [(''BetalningsmottagarId'', JObj [(''_text'', JStr ''199001011234'')]),
           (''FranvaroDatum'', JObj [(''_text'', JStr ''2024-01-11'')]),
           (''RedovisningsPeriod'', JObj [(''_text'', JStr ''202401'')])]])])],
         arendeInfoList = [\<lparr>index = 0, arendeAgare = JStr ''165560269986'', period = JStr ''202401'',
              betalningsmottagarId = JStr ''198202252386'',
              blankettInnehall = JObj [(''IU'', JObj [(''BetalningsmottagareIUGROUP'',
                JObj [(''BetalningsmottagareIDChoice'', JObj [(''BetalningsmottagarId'',
                JObj [(''_text'', JStr ''198202252386'')])])])])],
              franvaroList = [JObj [(''BetalningsmottagarId'', JObj [(''_text'', JStr ''198202252386'')]),
                (''FranvaroDatum'', JObj [(''_text'', JStr ''2024-01-10'')]),
                (''RedovisningsPeriod'', JObj [(''_text'', JStr ''202401'')])]]\<rparr>,
            \<lparr>index = 1, arendeAgare = JStr ''165560269986'', period = JStr ''202401'',
              betalningsmottagarId = JStr ''199001011234'',
              blankettInnehall = JObj [(''IU'', JObj [(''BetalningsmottagareIUGROUP'',
                JObj [(''BetalningsmottagareIDChoice'', JObj [(''BetalningsmottagarId'',
                JObj [(''_text'', JStr ''199001011234'')])])])])],
              franvaroList = [JObj [(''BetalningsmottagarId'', JObj [(''_text'', JStr ''199001011234'')]),
                (''FranvaroDatum'', JObj [(''_text'', JStr ''2024-01-11'')]),
                (''RedovisningsPeriod'', JObj [(''_text'', JStr ''202401'')])]]\<rparr>], validationErrors = [], isValid = False\<rparr>"
  let ?c1 = "\<lparr>index = 0, arendeAgare = JStr ''165560269986'', period = JStr ''202401'',
            betalningsmottagarId = JStr ''198202252386'',
            blankettInnehall = JObj [(''IU'', JObj [(''BetalningsmottagareIUGROUP'',
              JObj [(''BetalningsmottagareIDChoice'', JObj [(''BetalningsmottagarId'',
              JObj [(''_text'', JStr ''198202252386'')])])])])],
            franvaroList = [JObj [(''BetalningsmottagarId'', JObj [(''_text'', JStr ''198202252386'')]),
              (''FranvaroDatum'', JObj [(''_text'', JStr ''2024-01-10'')]),
              (''RedovisningsPeriod'', JObj [(''_text'', JStr ''202401'')])]]\<rparr>"
  let ?c2 = "\<lparr>index = 1, arendeAgare = JStr ''165560269986'', period = JStr ''202401'',
            betalningsmottagarId = JStr ''199001011234'',
            blankettInnehall = JObj [(''IU'', JObj [(''BetalningsmottagareIUGROUP'',
              JObj [(''BetalningsmottagareIDChoice'', JObj [(''BetalningsmottagarId'',
              JObj [(''_text'', JStr ''199001011234'')])])])])],
            franvaroList = [JObj [(''BetalningsmottagarId'', JObj [(''_text'', JStr ''199001011234'')]),
              (''FranvaroDatum'', JObj [(''_text'', JStr ''2024-01-11'')]),
              (''RedovisningsPeriod'', JObj [(''_text'', JStr ''202401'')])]]\<rparr>"
  have h1: "truthy (parsedXml ?st)" by simp
  have h2: "extractArendeInformation ?st = Inr ?st'"
    by (simp add: extractArendeInformation_def arendeInfos_def allBlanketter_def hasIU_def arendeOf_def
        existingFranvaroOf_def sameKey_def getOpt_def getTextContent_def Let_def)
  have h3: "?c1 \<in> set (arendeInfoList ?st')" by simp
  have h4: "?c2 \<in> set (arendeInfoList ?st')" by simp
  have h5: "(betalningsmottagarId ?c1, period ?c1) \<noteq> (betalningsmottagarId ?c2, period ?c2)"
    by simp
  from cases_disjoint_by_key [OF h1 h2 h3 h4 h5]
  have "set (franvaroList ?c1) \<inter> set (franvaroList ?c2) = {}" .
  then have "set [JObj [(''BetalningsmottagarId'', JObj [(''_text'', JStr ''198202252386'')]), (''FranvaroDatum'', JObj [(''_text'', JStr ''2024-01-10'')]), (''RedovisningsPeriod'', JObj [(''_text'', JStr ''202401'')])]] \<inter> set [JObj [(''BetalningsmottagarId'', JObj [(''_text'', JStr ''199001011234'')]), (''FranvaroDatum'', JObj [(''_text'', JStr ''2024-01-11'')]), (''RedovisningsPeriod'', JObj [(''_text'', JStr ''202401'')])]] = {}"
    by (simp only: arende.simps)
  with h2 show ?thesis by (rule conjI)
qed

text \<open>
  The claim as the specification words it fails. Two forms report the same recipient
  in the same period, and the document has one absence record with that key: it is in
  the list of both cases.
\<close>

theorem cases_share_record_counterexample:
  "extractArendeInformation
     \<lparr>xmlContent = JStr ''<Skatteverket><Blankett><Arendeinformation><Arendeagare>165560269986</Arendeagare><Period>202401</Period></Arendeinformation><Blankettinnehall><IU><BetalningsmottagareIUGROUP><BetalningsmottagareIDChoice><BetalningsmottagarId>198202252386</BetalningsmottagarId></BetalningsmottagareIDChoice></BetalningsmottagareIUGROUP></IU></Blankettinnehall></Blankett><Blankett><Arendeinformation><Arendeagare>165560269986</Arendeagare><Period>202401</Period></Arendeinformation><Blankettinnehall><IU><BetalningsmottagareIUGROUP><BetalningsmottagareIDChoice><BetalningsmottagarId>198202252386</BetalningsmottagarId></BetalningsmottagareIDChoice></BetalningsmottagareIUGROUP></IU></Blankettinnehall></Blankett><Franvarouppgift><BetalningsmottagarId>198202252386</BetalningsmottagarId><FranvaroDatum>2024-01-10</FranvaroDatum><RedovisningsPeriod>202401</RedovisningsPeriod></Franvarouppgift></Skatteverket>'',
         parsedXml = JObj [(''Skatteverket'', JObj [(''Blankett'', JArr [JObj [(''Arendeinformation'',
           JObj [(''Arendeagare'', JObj [(''_text'', JStr ''165560269986'')]), (''Period'',
           JObj [(''_text'', JStr ''202401'')])]), (''Blankettinnehall'', JObj [(''IU'',
           JObj [(''BetalningsmottagareIUGROUP'', JObj [(''BetalningsmottagareIDChoice'',
           JObj [(''BetalningsmottagarId'', JObj [(''_text'',
           JStr ''198202252386'')])])])])])], JObj [(''Arendeinformation'',
           JObj [(''Arendeagare'', JObj [(''_text'', JStr ''165560269986'')]), (''Period'',
           JObj [(''_text'', JStr ''202401'')])]), (''Blankettinnehall'', JObj [(''IU'',
           JObj [(''BetalningsmottagareIUGROUP'', JObj [(''BetalningsmottagareIDChoice'',
           JObj [(''BetalningsmottagarId'', JObj [(''_text'',
           JStr ''198202252386'')])])])])])]]), (''Franvarouppgift'',
           JObj [(''BetalningsmottagarId'', JObj [(''_text'', JStr ''198202252386'')]),
           (''FranvaroDatum'', JObj [(''_text'', JStr ''2024-01-10'')]),
           (''RedovisningsPeriod'', JObj [(''_text'', JStr ''202401'')])])])],
         arendeInfoList = [], validationErrors = [], isValid = False\<rparr>
   = Inr
     \<lparr>xmlContent = JStr ''<Skatteverket><Blankett><Arendeinformation><Arendeagare>165560269986</Arendeagare><Period>202401</Period></Arendeinformation><Blankettinnehall><IU><BetalningsmottagareIUGROUP><BetalningsmottagareIDChoice><BetalningsmottagarId>198202252386</BetalningsmottagarId></BetalningsmottagareIDChoice></BetalningsmottagareIUGROUP></IU></Blankettinnehall></Blankett><Blankett><Arendeinformation><Arendeagare>165560269986</Arendeagare><Period>202401</Period></Arendeinformation><Blankettinnehall><IU><BetalningsmottagareIUGROUP><BetalningsmottagareIDChoice><BetalningsmottagarId>198202252386</BetalningsmottagarId></BetalningsmottagareIDChoice></BetalningsmottagareIUGROUP></IU></Blankettinnehall></Blankett><Franvarouppgift><BetalningsmottagarId>198202252386</BetalningsmottagarId><FranvaroDatum>2024-01-10</FranvaroDatum><RedovisningsPeriod>202401</RedovisningsPeriod></Franvarouppgift></Skatteverket>'',
         parsedXml = JObj [(''Skatteverket'', JObj [(''Blankett'', JArr [JObj [(''Arendeinformation'',
           JObj [(''Arendeagare'', JObj [(''_text'', JStr ''165560269986'')]), (''Period'',
           JObj [(''_text'', JStr ''202401'')])]), (''Blankettinnehall'', JObj [(''IU'',
           JObj [(''BetalningsmottagareIUGROUP'', JObj [(''BetalningsmottagareIDChoice'',
           JObj [(''BetalningsmottagarId'', JObj [(''_text'',
           JStr ''198202252386'')])])])])])], JObj [(''Arendeinformation'',
           JObj [(''Arendeagare'', JObj [(''_text'', JStr ''165560269986'')]), (''Period'',
           JObj [(''_text'', JStr ''202401'')])]), (''Blankettinnehall'', JObj [(''IU'',
           JObj [(''BetalningsmottagareIUGROUP'', JObj [(''BetalningsmottagareIDChoice'',
           JObj [(''BetalningsmottagarId'', JObj [(''_text'',
           JStr ''198202252386'')])])])])])]]), (''Franvarouppgift'',
           JObj [(''BetalningsmottagarId'', JObj [(''_text'', JStr ''198202252386'')]),
           (''FranvaroDatum'', JObj [(''_text'', JStr ''2024-01-10'')]),
           (''RedovisningsPeriod'', JObj [(''_text'', JStr ''202401'')])])])],
         arendeInfoList = [\<lparr>index = 0, arendeAgare = JStr ''165560269986'', period = JStr ''202401'',
              betalningsmottagarId = JStr ''198202252386'',
              blankettInnehall = JObj [(''IU'', JObj [(''BetalningsmottagareIUGROUP'',
                JObj [(''BetalningsmottagareIDChoice'', JObj [(''BetalningsmottagarId'',
                JObj [(''_text'', JStr ''198202252386'')])])])])],
              franvaroList = [JObj [(''BetalningsmottagarId'', JObj [(''_text'', JStr ''198202252386'')]),
                (''FranvaroDatum'', JObj [(''_text'', JStr ''2024-01-10'')]),
                (''RedovisningsPeriod'', JObj [(''_text'', JStr ''202401'')])]]\<rparr>,
            \<lparr>index = 1, arendeAgare = JStr ''165560269986'', period = JStr ''202401'',
              betalningsmottagarId = JStr ''198202252386'',
              blankettInnehall = JObj [(''IU'', JObj [(''BetalningsmottagareIUGROUP'',
                JObj [(''BetalningsmottagareIDChoice'', JObj [(''BetalningsmottagarId'',
                JObj [(''_text'', JStr ''198202252386'')])])])])],
              franvaroList = [JObj [(''BetalningsmottagarId'', JObj [(''_text'', JStr ''198202252386'')]),
                (''FranvaroDatum'', JObj [(''_text'', JStr ''2024-01-10'')]),
                (''RedovisningsPeriod'', JObj [(''_text'', JStr ''202401'')])]]\<rparr>], validationErrors = [], isValid = False\<rparr>"
  by (simp add: extractArendeInformation_def arendeInfos_def allBlanketter_def hasIU_def arendeOf_def
        existingFranvaroOf_def sameKey_def getOpt_def getTextContent_def Let_def)

section \<open>The modified document\<close>

lemma map_of_setProp:
  "map_of (setProp k v ps) k' = (if k' = k then Some v else map_of ps k')"
  by (induction ps) auto

lemma keys_setProp:
  "map fst (setProp k v ps) = (if k \<in> fst ` set ps then map fst ps else map fst ps @ [k])"
  by (induction ps) auto

lemma own_setProp:
  "own (JObj (setProp k v ps)) k' = (if k' = k then v else own (JObj ps) k')"
  by (simp add: map_of_setProp)

lemma hasOwn_setProp: "hasOwn (JObj (setProp k v ps)) k"
  by (simp add: keys_setProp image_iff [symmetric] flip: set_map)

lemma modifiedXml_frame:
  assumes "parsed = JObj kvs"
    and "own parsed ''Skatteverket'' = JObj skv"
    and "own (JObj skv) ''Avsandare'' = JObj avv"
  shows "\<exists>t sk' av' pn'.
           modifiedXml parsed allFranvaro = Inr t
           \<and> own t ''Skatteverket'' = sk'
           \<and> (\<forall>k. k \<noteq> ''Skatteverket'' \<longrightarrow> own t k = own parsed k)
           \<and> own sk' ''Franvarouppgift''
               = (if allFranvaro \<noteq> [] then JArr allFranvaro else JUndefined)
           \<and> hasOwn sk' ''Franvarouppgift''
           \<and> own sk' ''Avsandare'' = av'
           \<and> (\<forall>k. k \<noteq> ''Franvarouppgift'' \<and> k \<noteq> ''Avsandare'' \<longrightarrow> own sk' k = own (JObj skv) k)
           \<and> own av' ''Programnamn'' = pn'
           \<and> (\<forall>k. k \<noteq> ''Programnamn'' \<longrightarrow> own av' k = own (JObj avv) k)
           \<and> own pn' ''_text'' = JStr programnamnText
           \<and> (\<forall>pnv k. own (JObj avv) ''Programnamn'' = JObj pnv \<and> k \<noteq> ''_text''
                  \<longrightarrow> own pn' k = own (JObj pnv) k)"
proof -
  let ?pn' = "JObj (setProp ''_text'' (JStr programnamnText) (spread (own (JObj avv) ''Programnamn'')))"
  let ?av' = "JObj (setProp ''Programnamn'' ?pn' avv)"
  let ?sk' = "JObj (setProp ''Avsandare'' ?av'
                 (setProp ''Franvarouppgift''
                    (if length allFranvaro > 0 then JArr allFranvaro else JUndefined) skv))"
  let ?t = "JObj (setProp ''Skatteverket'' ?sk' kvs)"
  have m: "modifiedXml parsed allFranvaro = Inr ?t"
    using assms(2,3) unfolding modifiedXml_def Let_def assms(1)
    by (simp add: get_def)
  have 1: "own ?t ''Skatteverket'' = ?sk'" by (simp add: own_setProp del: own.simps)
  have 2: "\<forall>k. k \<noteq> ''Skatteverket'' \<longrightarrow> own ?t k = own parsed k"
    unfolding assms(1) by (simp add: own_setProp del: own.simps)
  have 3: "own ?sk' ''Franvarouppgift''
             = (if allFranvaro \<noteq> [] then JArr allFranvaro else JUndefined)"
    by (simp add: own_setProp del: own.simps)
  have 4: "hasOwn ?sk' ''Franvarouppgift''"
    by (simp add: keys_setProp image_iff [symmetric] flip: set_map)
  have 5: "own ?sk' ''Avsandare'' = ?av'" by (simp add: own_setProp del: own.simps)
  have 6: "\<forall>k. k \<noteq> ''Franvarouppgift'' \<and> k \<noteq> ''Avsandare'' \<longrightarrow> own ?sk' k = own (JObj skv) k"
    by (simp add: own_setProp del: own.simps)
  have 7: "own ?av' ''Programnamn'' = ?pn'" by (simp add: own_setProp del: own.simps)
  have 8: "\<forall>k. k \<noteq> ''Programnamn'' \<longrightarrow> own ?av' k = own (JObj avv) k"
    by (simp add: own_setProp del: own.simps)
  have 9: "own ?pn' ''_text'' = JStr programnamnText" by (simp add: own_setProp del: own.simps)
  have 10: "\<forall>pnv k. own (JObj avv) ''Programnamn'' = JObj pnv \<and> k \<noteq> ''_text''
                  \<longrightarrow> own ?pn' k = own (JObj pnv) k"
    by (simp add: own_setProp del: own.simps)
  from m 1 2 3 4 5 6 7 8 9 10 show ?thesis by blast
qed

text \<open>
  Claim C6 at a document with a sender and one form, and one case without absence
  records. The concatenation of the lists is empty, and the tree that
  \<^verbatim>\<open>generateModifiedXML\<close> hands to the serializer still has the key
  \<^verbatim>\<open>Franvarouppgift\<close> in the root element, bound to \<^verbatim>\<open>undefined\<close>: the collection
  is not left out of the tree. The program name is replaced and the rest of the tree is
  as it was.
\<close>

theorem modifiedXml_keeps_empty_collection:
  "generateModifiedXML js2xml
     \<lparr>xmlContent = JStr ''<Skatteverket><Avsandare><Programnamn>Lonesystemet</Programnamn><Organisationsnummer>165560269986</Organisationsnummer></Avsandare><Blankett><Arendeinformation><Arendeagare>165560269986</Arendeagare><Period>202401</Period></Arendeinformation><Blankettinnehall><IU><BetalningsmottagareIUGROUP><BetalningsmottagareIDChoice><BetalningsmottagarId>198202252386</BetalningsmottagarId></BetalningsmottagareIDChoice></BetalningsmottagareIUGROUP></IU></Blankettinnehall></Blankett></Skatteverket>'',
         parsedXml = JObj [(''Skatteverket'', JObj [(''Avsandare'', JObj [(''Programnamn'',
           JObj [(''_text'', JStr ''Lonesystemet'')]), (''Organisationsnummer'',
           JObj [(''_text'', JStr ''165560269986'')])]), (''Blankett'',
           JObj [(''Arendeinformation'', JObj [(''Arendeagare'', JObj [(''_text'',
           JStr ''165560269986'')]), (''Period'', JObj [(''_text'', JStr ''202401'')])]),
           (''Blankettinnehall'', JObj [(''IU'', JObj [(''BetalningsmottagareIUGROUP'',
           JObj [(''BetalningsmottagareIDChoice'', JObj [(''BetalningsmottagarId'',
           JObj [(''_text'', JStr ''198202252386'')])])])])])])])],
         arendeInfoList =
           [\<lparr>index = 0, arendeAgare = JStr ''165560269986'', period = JStr ''202401'',
              betalningsmottagarId = JStr ''198202252386'',
              blankettInnehall = JObj [(''IU'', JObj [(''BetalningsmottagareIUGROUP'',
                JObj [(''BetalningsmottagareIDChoice'', JObj [(''BetalningsmottagarId'',
                JObj [(''_text'', JStr ''198202252386'')])])])])],
              franvaroList = []\<rparr>],
         validationErrors = [], isValid = True\<rparr>
   = generateXML js2xml
       (JObj [(''Skatteverket'', JObj [(''Avsandare'', JObj [(''Programnamn'',
         JObj [(''_text'', JStr programnamnText)]), (''Organisationsnummer'',
         JObj [(''_text'', JStr ''165560269986'')])]), (''Blankett'',
         JObj [(''Arendeinformation'', JObj [(''Arendeagare'', JObj [(''_text'',
         JStr ''165560269986'')]), (''Period'', JObj [(''_text'', JStr ''202401'')])]),
         (''Blankettinnehall'', JObj [(''IU'', JObj [(''BetalningsmottagareIUGROUP'',
         JObj [(''BetalningsmottagareIDChoice'', JObj [(''BetalningsmottagarId'',
         JObj [(''_text'', JStr ''198202252386'')])])])])])]), (''Franvarouppgift'',
         JUndefined)])])"
  by (simp add: generateModifiedXML_def modifiedXml_def get_def)

end
